theory Spec2Isabelle
  imports Complex_Main "HOL-Library.Word"
begin

section \<open>Python values, exceptions and numpy arrays\<close>

text \<open>
  The module \<^verbatim>\<open>flopy/utils/reference.py\<close> locates a model grid in real-world
  coordinates. Exceptions are values: a function that can raise returns
  \<open>error + 'a\<close>, with \<open>Inl\<close> the exception.
\<close>

datatype error =
    TypeError string
  | ValueError string
  | AttributeError string
  | KeyError
  | AssertionError
  | IndexError
  | ExternalError string

definition bindE :: "error + 'a \<Rightarrow> ('a \<Rightarrow> error + 'b) \<Rightarrow> error + 'b" where
  "bindE m f = (case m of Inl e \<Rightarrow> Inl e | Inr v \<Rightarrow> f v)"

subsection \<open>Floating-point arithmetic\<close>

text \<open>
  A finite float is modelled by its value, a real number. The arithmetic of numpy
  and of the machine is not part of the module; it is a parameter of the model:
  \<open>fl\<close> rounds the exact result of an addition, subtraction, multiplication,
  division or conversion to the float that the operation returns, \<open>np_sin\<close> and
  \<open>np_cos\<close> are \<^verbatim>\<open>np.sin\<close> and \<^verbatim>\<open>np.cos\<close>, \<open>np_pi\<close> is \<^verbatim>\<open>np.pi\<close>, and
  \<open>float_sum\<close> is the sum that \<^verbatim>\<open>np.add.reduce\<close> and \<^verbatim>\<open>ndarray.sum\<close> compute
  for the elements of a float array that is not empty. Infinities and NaN are
  outside the model.
\<close>

record arith =
  fl :: "real \<Rightarrow> real"
  np_sin :: "real \<Rightarrow> real"
  np_cos :: "real \<Rightarrow> real"
  np_pi :: real
  float_sum :: "real list \<Rightarrow> real"

definition fadd :: "arith \<Rightarrow> real \<Rightarrow> real \<Rightarrow> real" where
  "fadd ar a b = fl ar (a + b)"

definition fsub :: "arith \<Rightarrow> real \<Rightarrow> real \<Rightarrow> real" where
  "fsub ar a b = fl ar (a - b)"

definition fmul :: "arith \<Rightarrow> real \<Rightarrow> real \<Rightarrow> real" where
  "fmul ar a b = fl ar (a * b)"

definition fdiv :: "arith \<Rightarrow> real \<Rightarrow> real \<Rightarrow> real" where
  "fdiv ar a b = fl ar (a / b)"

text \<open>Arithmetic without rounding: the real numbers.\<close>

definition exact :: arith where
  "exact = \<lparr>fl = (\<lambda>v. v), np_sin = sin, np_cos = cos, np_pi = pi, float_sum = sum_list\<rparr>"

text \<open>
  The arithmetic of 64-bit integers wraps around: the result of an operation is
  the representative of the exact result in the range from \<open>- 2 ^ 63\<close> up to
  \<open>2 ^ 63 - 1\<close>.
\<close>

definition wrap64 :: "int \<Rightarrow> int" where
  "wrap64 i = (i + 2 ^ 63) mod 2 ^ 64 - 2 ^ 63"

subsection \<open>Arrays\<close>

text \<open>
  A numpy array of any shape: the type of its elements (64-bit integers or
  doubles; other types are outside the model), its shape, and its elements in
  row-major order. An element of an integer array is an integer in the range of
  64 bits, kept as the real number of that value. A float that stands alone, a
  numpy float scalar, is modelled as the float array of shape \<open>[]\<close> with one
  element.
\<close>

datatype dtype = Int64 | Float64

record ndarray =
  dtype :: dtype
  shape :: "nat list"
  data :: "real list"

text \<open>An element read as a float: an integer is converted.\<close>

definition as_float :: "arith \<Rightarrow> dtype \<Rightarrow> real \<Rightarrow> real" where
  "as_float ar t v = (case t of Int64 \<Rightarrow> fl ar v | Float64 \<Rightarrow> v)"

definition floats :: "arith \<Rightarrow> ndarray \<Rightarrow> real list" where
  "floats ar a = map (as_float ar (dtype a)) (data a)"

text \<open>A one-dimensional array, and a numpy scalar or single point coordinate.\<close>

definition array1 :: "dtype \<Rightarrow> real list \<Rightarrow> ndarray" where
  "array1 t vs = \<lparr>dtype = t, shape = [length vs], data = vs\<rparr>"

definition np_scalar :: "real \<Rightarrow> ndarray" where
  "np_scalar v = \<lparr>dtype = Float64, shape = [], data = [v]\<rparr>"

text \<open>
  A Python number: an integer (here one that fits 64 bits, as the elements of an
  integer array must) or a float. A number or a sequence of numbers or an array,
  as passed for \<^verbatim>\<open>delr\<close> and \<^verbatim>\<open>delc\<close> or as a query point.
\<close>

datatype number = PyInt "64 word" | PyFloat real

datatype array_like = Scalar number | Sequence "number list" | Array ndarray

fun is_int :: "number \<Rightarrow> bool" where
  "is_int (PyInt w) = True"
| "is_int (PyFloat v) = False"

fun int_value :: "number \<Rightarrow> real" where
  "int_value (PyInt w) = of_int (sint w)"
| "int_value (PyFloat v) = v"

text \<open>\<^verbatim>\<open>float(n)\<close>, and the conversion of a number that meets a float array.\<close>

fun float_of :: "arith \<Rightarrow> number \<Rightarrow> real" where
  "float_of ar (PyInt w) = fl ar (of_int (sint w))"
| "float_of ar (PyFloat v) = v"

text \<open>
  \<^verbatim>\<open>np.array(ns)\<close> of a list of numbers: an integer array when the list is not
  empty and holds integers only, a float array otherwise.
\<close>

definition np_array :: "arith \<Rightarrow> number list \<Rightarrow> ndarray" where
  "np_array ar ns =
     (if ns \<noteq> [] \<and> list_all is_int ns then array1 Int64 (map int_value ns)
      else array1 Float64 (map (float_of ar) ns))"

text \<open>\<^verbatim>\<open>np.atleast_1d(np.array(value))\<close>.\<close>

fun atleast_1d :: "arith \<Rightarrow> array_like \<Rightarrow> ndarray" where
  "atleast_1d ar (Scalar n) = np_array ar [n]"
| "atleast_1d ar (Sequence ns) = np_array ar ns"
| "atleast_1d ar (Array a) = (if shape a = [] then a\<lparr>shape := [1]\<rparr> else a)"

text \<open>The same operation on every element.\<close>

definition np_map :: "(real \<Rightarrow> real) \<Rightarrow> ndarray \<Rightarrow> ndarray" where
  "np_map f a = a\<lparr>data := map f (data a)\<rparr>"

text \<open>
  An in-place operation of an array with a float, \<^verbatim>\<open>x *= m\<close> and \<^verbatim>\<open>x += v\<close>: the
  result is a float, and numpy refuses to cast it back into an integer array
  (\<^verbatim>\<open>UFuncTypeError\<close>, a TypeError, under the casting rule \<^verbatim>\<open>same_kind\<close>).
\<close>

definition np_imul :: "arith \<Rightarrow> ndarray \<Rightarrow> real \<Rightarrow> error + ndarray" where
  "np_imul ar a m =
     (case dtype a of
        Int64 \<Rightarrow> Inl (TypeError ''Cannot cast ufunc multiply output from float64 to int64'')
      | Float64 \<Rightarrow> Inr (np_map (\<lambda>v. fmul ar v m) a))"

definition np_iadd :: "arith \<Rightarrow> ndarray \<Rightarrow> real \<Rightarrow> error + ndarray" where
  "np_iadd ar a m =
     (case dtype a of
        Int64 \<Rightarrow> Inl (TypeError ''Cannot cast ufunc add output from float64 to int64'')
      | Float64 \<Rightarrow> Inr (np_map (\<lambda>v. fadd ar v m) a))"

text \<open>
  Broadcasting. Two shapes are aligned at their last axes; two axes go together
  when they are equal or one of them is 1. \<open>broadcast_rev\<close> works on the reversed
  shapes.
\<close>

fun broadcast_rev :: "nat list \<Rightarrow> nat list \<Rightarrow> nat list option" where
  "broadcast_rev [] ys = Some ys"
| "broadcast_rev (x # xs) [] = Some (x # xs)"
| "broadcast_rev (x # xs) (y # ys) =
     (if x = y \<or> y = 1 then map_option ((#) x) (broadcast_rev xs ys)
      else if x = 1 then map_option ((#) y) (broadcast_rev xs ys)
      else None)"

definition broadcast_shape :: "nat list \<Rightarrow> nat list \<Rightarrow> nat list option" where
  "broadcast_shape a b = map_option rev (broadcast_rev (rev a) (rev b))"

text \<open>
  The elements of an array of shape \<open>src\<close> seen with the shape \<open>tgt\<close> of the same
  number of axes: an axis of length 1 is repeated.
\<close>

fun stretch :: "nat list \<Rightarrow> nat list \<Rightarrow> real list \<Rightarrow> real list" where
  "stretch (s # ss) (t # ts) d =
     concat (map (\<lambda>i. stretch ss ts (take (prod_list ss) (drop ((if s = 1 then 0 else i) * prod_list ss) d)))
               [0..<t])"
| "stretch ss ts d = d"

definition broadcast_to :: "arith \<Rightarrow> nat list \<Rightarrow> ndarray \<Rightarrow> real list" where
  "broadcast_to ar tgt a =
     stretch (replicate (length tgt - length (shape a)) 1 @ shape a) tgt (floats ar a)"

text \<open>
  An element-wise operation on two arrays that gives floats: the arrays are
  broadcast against each other, or refused with a ValueError.
\<close>

definition np_map2 ::
  "arith \<Rightarrow> (real \<Rightarrow> real \<Rightarrow> real) \<Rightarrow> ndarray \<Rightarrow> ndarray \<Rightarrow> error + ndarray" where
  "np_map2 ar f a b =
     (case broadcast_shape (shape a) (shape b) of
        None \<Rightarrow> Inl (ValueError ''operands could not be broadcast together'')
      | Some sh \<Rightarrow>
          Inr \<lparr>dtype = Float64, shape = sh,
               data = map2 f (broadcast_to ar sh a) (broadcast_to ar sh b)\<rparr>)"

text \<open>
  Two arrays of one shape, each with as many elements as the shape says.
\<close>

definition same_shape :: "ndarray \<Rightarrow> ndarray \<Rightarrow> bool" where
  "same_shape a b =
     (shape a = shape b \<and> length (data a) = prod_list (shape a)
      \<and> length (data b) = prod_list (shape b))"

text \<open>
  \<^verbatim>\<open>np.add.accumulate\<close>, the running sums of a one-dimensional array, in the
  arithmetic of its elements.
\<close>

definition add_of :: "arith \<Rightarrow> dtype \<Rightarrow> real \<Rightarrow> real \<Rightarrow> real" where
  "add_of ar t a b =
     (case t of Int64 \<Rightarrow> of_int (wrap64 (\<lfloor>a\<rfloor> + \<lfloor>b\<rfloor>)) | Float64 \<Rightarrow> fadd ar a b)"

definition sub_of :: "arith \<Rightarrow> dtype \<Rightarrow> real \<Rightarrow> real \<Rightarrow> real" where
  "sub_of ar t a b =
     (case t of Int64 \<Rightarrow> of_int (wrap64 (\<lfloor>a\<rfloor> - \<lfloor>b\<rfloor>)) | Float64 \<Rightarrow> fsub ar a b)"

fun accumulate_from :: "(real \<Rightarrow> real \<Rightarrow> real) \<Rightarrow> real \<Rightarrow> real list \<Rightarrow> real list" where
  "accumulate_from add acc [] = []"
| "accumulate_from add acc (v # vs) = add acc v # accumulate_from add (add acc v) vs"

definition add_accumulate :: "arith \<Rightarrow> ndarray \<Rightarrow> real list" where
  "add_accumulate ar a =
     (case data a of [] \<Rightarrow> [] | v # vs \<Rightarrow> v # accumulate_from (add_of ar (dtype a)) v vs)"

text \<open>
  \<^verbatim>\<open>np.add.reduce\<close> and \<^verbatim>\<open>ndarray.sum\<close> of a one-dimensional array: a number of
  the type of the elements, 0 for an empty array.
\<close>

definition add_reduce :: "arith \<Rightarrow> ndarray \<Rightarrow> real" where
  "add_reduce ar a =
     (if data a = [] then 0
      else case dtype a of
             Int64 \<Rightarrow> of_int (wrap64 (sum_list (map floor (data a))))
           | Float64 \<Rightarrow> float_sum ar (data a))"

section \<open>The rotation primitive\<close>

text \<open>
  \<^verbatim>\<open>SpatialReference.rotate(x, y, theta, xorigin=0., yorigin=0.)\<close>, a static
  method: theta is in degrees; the origin is a pair of floats. Every operation of
  the two expressions is written out, in the order in which Python evaluates them.
\<close>

definition rotate_xy ::
  "arith \<Rightarrow> ndarray \<Rightarrow> ndarray \<Rightarrow> real \<Rightarrow> real \<Rightarrow> real \<Rightarrow> error + (ndarray \<times> ndarray)" where
  "rotate_xy ar x y theta xorigin yorigin =
     (let theta = fdiv ar (fmul ar theta (np_pi ar)) 180 in
      bindE (np_map2 ar (\<lambda>xv yv. fsub ar (fadd ar xorigin (fmul ar (np_cos ar theta) (fsub ar xv xorigin)))
                                        (fmul ar (np_sin ar theta) (fsub ar yv yorigin))) x y) (\<lambda>xrot.
      bindE (np_map2 ar (\<lambda>xv yv. fadd ar (fadd ar yorigin (fmul ar (np_sin ar theta) (fsub ar xv xorigin)))
                                        (fmul ar (np_cos ar theta) (fsub ar yv yorigin))) x y) (\<lambda>yrot.
      Inr (xrot, yrot))))"

section \<open>Strings\<close>

text \<open>\<^verbatim>\<open>str.lower\<close>, \<^verbatim>\<open>str.upper\<close> and the substring test \<^verbatim>\<open>needle in text\<close>, on ASCII.\<close>

definition lower_char :: "char \<Rightarrow> char" where
  "lower_char c =
     (case map_of (zip ''ABCDEFGHIJKLMNOPQRSTUVWXYZ'' ''abcdefghijklmnopqrstuvwxyz'') c of
        Some d \<Rightarrow> d
      | None \<Rightarrow> c)"

definition upper_char :: "char \<Rightarrow> char" where
  "upper_char c =
     (case map_of (zip ''abcdefghijklmnopqrstuvwxyz'' ''ABCDEFGHIJKLMNOPQRSTUVWXYZ'') c of
        Some d \<Rightarrow> d
      | None \<Rightarrow> c)"

definition lower :: "string \<Rightarrow> string" where
  "lower s = map lower_char s"

definition upper :: "string \<Rightarrow> string" where
  "upper s = map upper_char s"

fun starts_with :: "string \<Rightarrow> string \<Rightarrow> bool" where
  "starts_with text [] = True"
| "starts_with [] (c # cs) = False"
| "starts_with (t # ts) (c # cs) = (t = c \<and> starts_with ts cs)"

fun contains :: "string \<Rightarrow> string \<Rightarrow> bool" where
  "contains [] needle = (needle = [])"
| "contains (t # ts) needle = (starts_with (t # ts) needle \<or> contains ts needle)"

section \<open>The frame\<close>

text \<open>
  What the module calls but does not compute itself: \<^verbatim>\<open>getproj4\<close> asks
  spatialreference.org for the projection string of an EPSG code and can fail;
  \<^verbatim>\<open>pyproj_srs\<close> stands for the branch of \<^verbatim>\<open>_parse_units_from_proj4\<close> that hands
  an EPSG string to the pyproj library (\<open>None\<close> when anything raises there: the method
  swallows every exception).
\<close>

record externals =
  getproj4 :: "int \<Rightarrow> error + string"
  pyproj_srs :: "string \<Rightarrow> string option"

text \<open>What the frame prints, and the warnings it emits.\<close>

datatype diagnostic = Printed string | Warned string

text \<open>
  The attributes of a \<^verbatim>\<open>SpatialReference\<close> object. An attribute whose Python name
  starts with an underscore has the prefix \<open>p_\<close> here (\<open>p_xgrid\<close> is \<^verbatim>\<open>_xgrid\<close>).
  \<open>None\<close> is Python's None. The class attributes give the values of \<open>xul\<close>,
  \<open>yul\<close>, \<open>xll\<close>, \<open>yll\<close> (None), \<open>rotation\<close> (0.) and \<open>origin_loc\<close> ('ul')
  before the first assignment. The stored EPSG code \<^verbatim>\<open>_epsg\<close> is left out: only the
  \<^verbatim>\<open>epsg\<close> property and the shapefile export read it. \<open>diagnostics\<close> collects
  what was printed or warned, oldest first. The corners, the rotation and the
  explicit multiplier are floats; \<^verbatim>\<open>delr\<close> and \<^verbatim>\<open>delc\<close> are one-dimensional
  arrays of integers or of floats.
\<close>

record SpatialReference =
  delr :: ndarray
  delc :: ndarray
  lenuni :: int
  p_proj4_str :: "string option"
  supported_units :: "string list"
  p_units :: "string option"
  p_length_multiplier :: "real option"
  xul :: "real option"
  yul :: "real option"
  xll :: "real option"
  yll :: "real option"
  rotation :: real
  origin_loc :: string
  p_xgrid :: "ndarray option"
  p_ygrid :: "ndarray option"
  p_xcentergrid :: "ndarray option"
  p_ycentergrid :: "ndarray option"
  p_vertices :: "real list list list option"
  diagnostics :: "diagnostic list"

text \<open>
  The names the class binds with \<^verbatim>\<open>@property\<close>. None of them has a setter, so
  \<^verbatim>\<open>object.__setattr__\<close> refuses to assign to any of them: a property is a data
  descriptor, found on the class before the instance dictionary is looked at.
  (\<^verbatim>\<open>length_multiplier = 1.\<close> at the top of the class body is rebound by the
  property of the same name further down.)
\<close>

definition getter_only_properties :: "string list" where
  "getter_only_properties =
     [''proj4_str'', ''epsg'', ''units'', ''length_multiplier'', ''model_length_units'',
      ''bounds'', ''nrow'', ''ncol'', ''attribute_dict'', ''theta'', ''xedge'', ''yedge'',
      ''xgrid'', ''ygrid'', ''xcenter'', ''ycenter'', ''ycentergrid'', ''xcentergrid'',
      ''vertices'']"

text \<open>
  \<^verbatim>\<open>object.__setattr__(self, key, value)\<close>, reached as
  \<^verbatim>\<open>super(SpatialReference, self).__setattr__(key, value)\<close>: \<open>store\<close> is the
  update of the instance that the assignment makes when it is allowed.
\<close>

definition object_setattr :: "string \<Rightarrow> ('obj \<Rightarrow> 'obj) \<Rightarrow> 'obj \<Rightarrow> error + 'obj" where
  "object_setattr key store obj =
     (if key \<in> set getter_only_properties then Inl (AttributeError ''can't set attribute'')
      else Inr (store obj))"

text \<open>\<^verbatim>\<open>_reset\<close>: every cached grid is forgotten.\<close>

definition reset :: "'a SpatialReference_scheme \<Rightarrow> 'a SpatialReference_scheme" where
  "reset s = s\<lparr>p_xgrid := None, p_ygrid := None, p_ycentergrid := None,
               p_xcentergrid := None, p_vertices := None\<rparr>"

definition emit :: "diagnostic \<Rightarrow> 'a SpatialReference_scheme \<Rightarrow> 'a SpatialReference_scheme" where
  "emit d s = s\<lparr>diagnostics := diagnostics s @ [d]\<rparr>"

definition rotation_msg :: string where
  "rotation_msg = ''rotation arg has recently changed. It was previously treated as positive clockwise. It now is positive counterclockwise.''"

subsection \<open>Units and the length multiplier\<close>

definition lenuni_text :: "int \<Rightarrow> string option" where
  "lenuni_text = [0 \<mapsto> ''undefined'', 1 \<mapsto> ''feet'', 2 \<mapsto> ''meters'', 3 \<mapsto> ''centimeters'']"

text \<open>The property \<^verbatim>\<open>model_length_units\<close>: \<^verbatim>\<open>self.lenuni_text[self.lenuni]\<close>.\<close>

definition model_length_units :: "'a SpatialReference_scheme \<Rightarrow> error + string" where
  "model_length_units s = (case lenuni_text (lenuni s) of None \<Rightarrow> Inl KeyError | Some t \<Rightarrow> Inr t)"

text \<open>
  \<^verbatim>\<open>_parse_units_from_proj4\<close>. With \<^verbatim>\<open>_proj4_str\<close> None the call
  \<^verbatim>\<open>self.proj4_str.upper()\<close> raises, and the bare \<^verbatim>\<open>except\<close> makes the method
  return None. A string without "epsg" is returned by the \<^verbatim>\<open>proj4_str\<close> property as it is.
\<close>

definition parse_units_from_proj4 :: "externals \<Rightarrow> 'a SpatialReference_scheme \<Rightarrow> string option" where
  "parse_units_from_proj4 ext s =
     (case p_proj4_str s of
        None \<Rightarrow> None
      | Some p \<Rightarrow>
          (case (if contains (upper p) ''EPSG'' then pyproj_srs ext p else Some p) of
             None \<Rightarrow> None
           | Some proj_str \<Rightarrow>
               if contains proj_str ''units=m'' then Some ''meters''
               else if contains proj_str ''units=ft'' \<or> contains proj_str ''units=us-ft''
                       \<or> contains proj_str ''to_meters:0.3048'' then Some ''feet''
               else None))"

text \<open>The property \<^verbatim>\<open>units\<close>.\<close>

definition units :: "externals \<Rightarrow> 'a SpatialReference_scheme \<Rightarrow> error + string" where
  "units ext s =
     (let units = (case p_units s of Some u \<Rightarrow> Some (lower u)
                   | None \<Rightarrow> parse_units_from_proj4 ext s);
          units = (case units of None \<Rightarrow> ''meters'' | Some u \<Rightarrow> u)
      in if units \<in> set (supported_units s) then Inr units else Inl AssertionError)"

text \<open>
  The property \<^verbatim>\<open>length_multiplier\<close>. Its Python result is \<^verbatim>\<open>lm\<close>, which starts
  as None and stays None when no branch assigns it.
\<close>

definition length_multiplier :: "externals \<Rightarrow> 'a SpatialReference_scheme \<Rightarrow> error + real option" where
  "length_multiplier ext s =
     (case p_length_multiplier s of
        Some m \<Rightarrow> Inr (Some m)
      | None \<Rightarrow>
          bindE (model_length_units s) (\<lambda>mlu.
          if mlu = ''feet'' then
            bindE (units ext s) (\<lambda>u.
              if u = ''meters'' then Inr (Some 0.3048)
              else if u = ''feet'' then Inr (Some 1)
              else Inr None)
          else if mlu = ''meters'' then
            bindE (units ext s) (\<lambda>u.
              if u = ''feet'' then Inr (Some (1 / 0.3048))
              else if u = ''meters'' then Inr (Some 1)
              else Inr None)
          else if mlu = ''centimeters'' then
            bindE (units ext s) (\<lambda>u.
              if u = ''meters'' then Inr (Some (1 / 100))
              else if u = ''feet'' then Inr (Some (1 / 30.48))
              else Inr None)
          else Inr (Some 1)))"

subsection \<open>Edges and centres in model space\<close>

text \<open>
  The properties \<^verbatim>\<open>nrow\<close> and \<^verbatim>\<open>ncol\<close>: \<^verbatim>\<open>self.delc.shape[0]\<close> and
  \<^verbatim>\<open>self.delr.shape[0]\<close>, the number of elements of a one-dimensional array.
\<close>

definition nrow :: "'a SpatialReference_scheme \<Rightarrow> nat" where
  "nrow s = length (data (delc s))"

definition ncol :: "'a SpatialReference_scheme \<Rightarrow> nat" where
  "ncol s = length (data (delr s))"

text \<open>
  \<^verbatim>\<open>np.add.accumulate(self.delr) - 0.5 * self.delr\<close>: the product with 0.5 is
  a float array, and so is the difference.
\<close>

definition get_xcenter_array :: "arith \<Rightarrow> 'a SpatialReference_scheme \<Rightarrow> ndarray" where
  "get_xcenter_array ar s =
     (let t = dtype (delr s)
      in array1 Float64
           (map2 (\<lambda>c d. fsub ar (as_float ar t c) (fmul ar 0.5 (as_float ar t d)))
              (add_accumulate ar (delr s)) (data (delr s))))"

definition get_ycenter_array :: "arith \<Rightarrow> 'a SpatialReference_scheme \<Rightarrow> ndarray" where
  "get_ycenter_array ar s =
     (let t = dtype (delc s); Ly = add_reduce ar (delc s)
      in array1 Float64
           (map2 (\<lambda>c d. fsub ar (as_float ar t Ly)
                            (fsub ar (as_float ar t c) (fmul ar 0.5 (as_float ar t d))))
              (add_accumulate ar (delc s)) (data (delc s))))"

text \<open>
  \<^verbatim>\<open>np.concatenate(([0.], np.add.accumulate(self.delr)))\<close>: a float array,
  because of the float in front.
\<close>

definition get_xedge_array :: "arith \<Rightarrow> 'a SpatialReference_scheme \<Rightarrow> ndarray" where
  "get_xedge_array ar s =
     array1 Float64 ([0] @ map (as_float ar (dtype (delr s))) (add_accumulate ar (delr s)))"

text \<open>
  \<^verbatim>\<open>np.concatenate(([length_y], length_y - np.add.accumulate(self.delc)))\<close>: an
  array of the type of \<^verbatim>\<open>delc\<close>.
\<close>

definition get_yedge_array :: "arith \<Rightarrow> 'a SpatialReference_scheme \<Rightarrow> ndarray" where
  "get_yedge_array ar s =
     (let t = dtype (delc s); length_y = add_reduce ar (delc s)
      in array1 t ([length_y] @ map (\<lambda>c. sub_of ar t length_y c) (add_accumulate ar (delc s))))"

text \<open>The property \<^verbatim>\<open>theta\<close>, in radians: \<^verbatim>\<open>-self.rotation * np.pi / 180.\<close>\<close>

definition theta :: "arith \<Rightarrow> 'a SpatialReference_scheme \<Rightarrow> real" where
  "theta ar s = fdiv ar (fmul ar (- rotation s) (np_pi ar)) 180"

subsection \<open>Assignment to attributes\<close>

text \<open>
  A value used as a number: arithmetic on None raises a TypeError.
\<close>

definition number_operand :: "real option \<Rightarrow> error + real" where
  "number_operand v =
     (case v of None \<Rightarrow> Inl (TypeError ''unsupported operand type(s): NoneType'')
      | Some r \<Rightarrow> Inr r)"

text \<open>\<^verbatim>\<open>v if v is not None else 0.\<close>\<close>

definition or_zero :: "real option \<Rightarrow> real" where
  "or_zero v = (case v of Some r \<Rightarrow> r | None \<Rightarrow> 0)"

definition multiplier_operand :: "externals \<Rightarrow> 'a SpatialReference_scheme \<Rightarrow> error + real" where
  "multiplier_operand ext s = bindE (length_multiplier ext s) number_operand"

text \<open>
  \<^verbatim>\<open>__setattr__\<close> for the keys \<^verbatim>\<open>xul\<close>, \<^verbatim>\<open>yul\<close>, \<^verbatim>\<open>xll\<close> and \<^verbatim>\<open>yll\<close>: the value
  is stored (\<^verbatim>\<open>float(value)\<close> of a float is the float), and since \<^verbatim>\<open>reset\<close> is
  still True the caches are cleared. These four branches stand on their own
  because \<^verbatim>\<open>set_origin\<close> assigns the corners and \<^verbatim>\<open>__setattr__\<close> calls
  \<^verbatim>\<open>set_origin\<close> in two other branches.
\<close>

definition assign_xul :: "real \<Rightarrow> 'a SpatialReference_scheme \<Rightarrow> error + 'a SpatialReference_scheme" where
  "assign_xul v s = bindE (object_setattr ''xul'' (\<lambda>s. s\<lparr>xul := Some v\<rparr>) s) (\<lambda>s. Inr (reset s))"

definition assign_yul :: "real \<Rightarrow> 'a SpatialReference_scheme \<Rightarrow> error + 'a SpatialReference_scheme" where
  "assign_yul v s = bindE (object_setattr ''yul'' (\<lambda>s. s\<lparr>yul := Some v\<rparr>) s) (\<lambda>s. Inr (reset s))"

definition assign_xll :: "real \<Rightarrow> 'a SpatialReference_scheme \<Rightarrow> error + 'a SpatialReference_scheme" where
  "assign_xll v s = bindE (object_setattr ''xll'' (\<lambda>s. s\<lparr>xll := Some v\<rparr>) s) (\<lambda>s. Inr (reset s))"

definition assign_yll :: "real \<Rightarrow> 'a SpatialReference_scheme \<Rightarrow> error + 'a SpatialReference_scheme" where
  "assign_yll v s = bindE (object_setattr ''yll'' (\<lambda>s. s\<lparr>yll := Some v\<rparr>) s) (\<lambda>s. Inr (reset s))"

text \<open>
  \<^verbatim>\<open>self.yedge[0]\<close> as it enters a product of floats: the first entry of
  \<^verbatim>\<open>get_yedge_array()\<close>, which always has one, converted when \<^verbatim>\<open>delc\<close> holds
  integers.
\<close>

definition yedge0 :: "arith \<Rightarrow> 'a SpatialReference_scheme \<Rightarrow> real" where
  "yedge0 ar s = as_float ar (dtype (get_yedge_array ar s)) (data (get_yedge_array ar s) ! 0)"

text \<open>
  \<^verbatim>\<open>set_origin(xul, yul, xll, yll)\<close>: the corner named by \<^verbatim>\<open>origin_loc\<close> is taken
  from the arguments (0. for None), the other corner is computed from it, and the
  caches are cleared.
\<close>

definition set_origin ::
  "arith \<Rightarrow> externals \<Rightarrow> 'a SpatialReference_scheme \<Rightarrow> real option \<Rightarrow> real option
     \<Rightarrow> real option \<Rightarrow> real option \<Rightarrow> error + 'a SpatialReference_scheme" where
  "set_origin ar ext s xul_arg yul_arg xll_arg yll_arg =
     bindE (if origin_loc s = ''ll'' then
              bindE (assign_xll (or_zero xll_arg) s) (\<lambda>s.
              bindE (assign_yll (or_zero yll_arg) s) (\<lambda>s.
              bindE (number_operand (xll s)) (\<lambda>xo.
              bindE (multiplier_operand ext s) (\<lambda>lm.
              bindE (assign_xul (fadd ar xo (fmul ar (fmul ar (np_sin ar (theta ar s)) (yedge0 ar s)) lm)) s) (\<lambda>s.
              bindE (number_operand (yll s)) (\<lambda>yo.
              bindE (multiplier_operand ext s) (\<lambda>lm.
              assign_yul (fadd ar yo (fmul ar (fmul ar (np_cos ar (theta ar s)) (yedge0 ar s)) lm)) s)))))))
            else Inr s) (\<lambda>s.
     bindE (if origin_loc s = ''ul'' then
              bindE (assign_xul (or_zero xul_arg) s) (\<lambda>s.
              bindE (assign_yul (or_zero yul_arg) s) (\<lambda>s.
              bindE (number_operand (xul s)) (\<lambda>xo.
              bindE (multiplier_operand ext s) (\<lambda>lm.
              bindE (assign_xll (fsub ar xo (fmul ar (fmul ar (np_sin ar (theta ar s)) (yedge0 ar s)) lm)) s) (\<lambda>s.
              bindE (number_operand (yul s)) (\<lambda>yo.
              bindE (multiplier_operand ext s) (\<lambda>lm.
              assign_yll (fsub ar yo (fmul ar (fmul ar (np_cos ar (theta ar s)) (yedge0 ar s)) lm)) s)))))))
            else Inr s) (\<lambda>s.
     Inr (reset s)))"

text \<open>
  An assignment \<^verbatim>\<open>sr.key = value\<close> to one of the keys that \<^verbatim>\<open>__setattr__\<close> names,
  with a value of the type the branch converts to (\<^verbatim>\<open>float(value)\<close>,
  \<^verbatim>\<open>int(value)\<close>). The last branch of \<^verbatim>\<open>__setattr__\<close> stores any other key without
  clearing the caches; the methods below use it for \<^verbatim>\<open>origin_loc\<close> and for the
  attributes with an underscore, none of which is a property, and write it as a
  record update.
\<close>

datatype assignment =
    Assign_delr array_like
  | Assign_delc array_like
  | Assign_xul real
  | Assign_yul real
  | Assign_xll real
  | Assign_yll real
  | Assign_length_multiplier real
  | Assign_rotation real
  | Assign_lenuni int
  | Assign_units string
  | Assign_proj4_str "string option"
  | Assign_epsg int

text \<open>
  \<^verbatim>\<open>__setattr__(key, value)\<close>. In the branch for \<^verbatim>\<open>length_multiplier\<close> the key
  handed to \<^verbatim>\<open>object.__setattr__\<close> is the name of the property, so there is nothing
  that the assignment could store.
\<close>

fun setattr ::
  "arith \<Rightarrow> externals \<Rightarrow> assignment \<Rightarrow> 'a SpatialReference_scheme
     \<Rightarrow> error + 'a SpatialReference_scheme" where
  "setattr ar ext (Assign_delr v) s =
     bindE (object_setattr ''delr'' (\<lambda>s. s\<lparr>delr := atleast_1d ar v\<rparr>) s) (\<lambda>s. Inr (reset s))"
| "setattr ar ext (Assign_delc v) s =
     bindE (object_setattr ''delc'' (\<lambda>s. s\<lparr>delc := atleast_1d ar v\<rparr>) s) (\<lambda>s. Inr (reset s))"
| "setattr ar ext (Assign_xul v) s = assign_xul v s"
| "setattr ar ext (Assign_yul v) s = assign_yul v s"
| "setattr ar ext (Assign_xll v) s = assign_xll v s"
| "setattr ar ext (Assign_yll v) s = assign_yll v s"
| "setattr ar ext (Assign_length_multiplier v) s =
     bindE (object_setattr ''length_multiplier'' (\<lambda>s. s) s) (\<lambda>s.
     bindE (set_origin ar ext s (xul s) (yul s) (xll s) (yll s)) (\<lambda>s.
     Inr (reset s)))"
| "setattr ar ext (Assign_rotation v) s =
     (let s = (if v \<noteq> 0 then emit (Warned rotation_msg) s else s) in
      bindE (object_setattr ''rotation'' (\<lambda>s. s\<lparr>rotation := v\<rparr>) s) (\<lambda>s.
      bindE (set_origin ar ext s (xul s) (yul s) (xll s) (yll s)) (\<lambda>s.
      Inr (reset s))))"
| "setattr ar ext (Assign_lenuni v) s =
     bindE (object_setattr ''lenuni'' (\<lambda>s. s\<lparr>lenuni := v\<rparr>) s) (\<lambda>s. Inr (reset s))"
| "setattr ar ext (Assign_units v) s =
     (let v = lower v in
      if v \<in> set (supported_units s) then
        bindE (object_setattr ''_units'' (\<lambda>s. s\<lparr>p_units := Some v\<rparr>) s) (\<lambda>s. Inr (reset s))
      else Inl AssertionError)"
| "setattr ar ext (Assign_proj4_str v) s =
     bindE (object_setattr ''_proj4_str'' (\<lambda>s. s\<lparr>p_proj4_str := v\<rparr>) s) (\<lambda>s.
     Inr (reset (s\<lparr>p_units := None\<rparr>)))"
| "setattr ar ext (Assign_epsg v) s =
     (let s = s\<lparr>p_units := None\<rparr> in
      bindE (getproj4 ext v) (\<lambda>p.
      Inr (reset (s\<lparr>p_proj4_str := Some p\<rparr>))))"

subsection \<open>Construction\<close>

definition both_x_msg :: string where
  "both_x_msg = ''Both xul and xll entered. Please enter either xul, yul or xll, yll.''"

definition both_y_msg :: string where
  "both_y_msg = ''Both yul and yll entered. Please enter either xul, yul or xll, yll.''"

text \<open>
  \<^verbatim>\<open>self.delc.sum()\<close> as the float that the assignment of \<^verbatim>\<open>yul\<close> makes of it.
\<close>

definition total_length :: "arith \<Rightarrow> 'a SpatialReference_scheme \<Rightarrow> real" where
  "total_length ar s = as_float ar (dtype (delc s)) (add_reduce ar (delc s))"

text \<open>\<^verbatim>\<open>set_spatialreference(xul, yul, xll, yll, rotation)\<close>.\<close>

definition set_spatialreference ::
  "arith \<Rightarrow> externals \<Rightarrow> 'a SpatialReference_scheme \<Rightarrow> real option \<Rightarrow> real option
     \<Rightarrow> real option \<Rightarrow> real option \<Rightarrow> real \<Rightarrow> error + 'a SpatialReference_scheme" where
  "set_spatialreference ar ext s xul_arg yul_arg xll_arg yll_arg rotation_arg =
     (if xul_arg \<noteq> None \<and> xll_arg \<noteq> None then Inl (ValueError both_x_msg)
      else if yul_arg \<noteq> None \<and> yll_arg \<noteq> None then Inl (ValueError both_y_msg)
      else
        let s = (if rotation_arg \<noteq> 0 then emit (Warned rotation_msg) s else s);
            (s, xul_arg, yul_arg) =
              (if xul_arg = None \<and> yul_arg = None \<and> xll_arg = None \<and> yll_arg = None
               then (s\<lparr>origin_loc := ''ul''\<rparr>, Some 0, Some (total_length ar s))
               else if xll_arg \<noteq> None then (s\<lparr>origin_loc := ''ll''\<rparr>, xul_arg, yul_arg)
               else (s\<lparr>origin_loc := ''ul''\<rparr>, xul_arg, yul_arg))
        in bindE (setattr ar ext (Assign_rotation rotation_arg) s) (\<lambda>s.
           set_origin ar ext s xul_arg yul_arg xll_arg yll_arg))"

text \<open>The keyword arguments of the constructor, and their defaults.\<close>

record init_args =
  arg_delr :: array_like
  arg_delc :: array_like
  arg_lenuni :: int
  arg_xul :: "real option"
  arg_yul :: "real option"
  arg_xll :: "real option"
  arg_yll :: "real option"
  arg_rotation :: real
  arg_proj4_str :: "string option"
  arg_epsg :: "int option"
  arg_units :: "string option"
  arg_length_multiplier :: "real option"

definition default_args :: init_args where
  "default_args =
     \<lparr>arg_delr = Array (array1 Float64 []), arg_delc = Array (array1 Float64 []),
      arg_lenuni = 2,
      arg_xul = None, arg_yul = None, arg_xll = None, arg_yll = None, arg_rotation = 0,
      arg_proj4_str = None, arg_epsg = None, arg_units = None,
      arg_length_multiplier = None\<rparr>"

text \<open>
  The object before \<^verbatim>\<open>__init__\<close> has assigned anything: the class attributes. The
  other fields are placeholders; \<^verbatim>\<open>__init__\<close> assigns each of them before it is read.
\<close>

definition new_object :: SpatialReference where
  "new_object =
     \<lparr>delr = array1 Float64 [], delc = array1 Float64 [], lenuni = 0, p_proj4_str = None,
      supported_units = [],
      p_units = None, p_length_multiplier = None,
      xul = None, yul = None, xll = None, yll = None, rotation = 0, origin_loc = ''ul'',
      p_xgrid = None, p_ygrid = None, p_xcentergrid = None, p_ycentergrid = None,
      p_vertices = None, diagnostics = []\<rparr>"

definition spacing_msg :: string where
  "spacing_msg = ''delr and delcs must be an array or sequences equal in length to the number of rows/columns.''"

definition no_spacing_msg :: string where
  "no_spacing_msg = ''Warning: no grid spacing or lower-left corner supplied. Setting the offset with xul, yul requires arguments for delr and delc. Origin will be set to zero.''"

fun is_number :: "array_like \<Rightarrow> bool" where
  "is_number (Scalar v) = True"
| "is_number (Sequence vs) = False"
| "is_number (Array a) = False"

text \<open>\<^verbatim>\<open>SpatialReference.__init__\<close>.\<close>

definition init :: "arith \<Rightarrow> externals \<Rightarrow> init_args \<Rightarrow> error + SpatialReference" where
  "init ar ext a =
     (if is_number (arg_delr a) \<or> is_number (arg_delc a) then Inl (TypeError spacing_msg)
      else
        bindE (setattr ar ext (Assign_delc (Array (atleast_1d ar (arg_delc a)))) new_object) (\<lambda>s.
        bindE (setattr ar ext (Assign_delr (Array (atleast_1d ar (arg_delr a)))) s) (\<lambda>s.
        let (s, xul_arg, yul_arg, xll_arg, yll_arg) =
              (if (add_reduce ar (delr s) = 0 \<or> add_reduce ar (delc s) = 0)
                  \<and> (arg_xll a = None \<or> arg_yll a = None)
               then (emit (Printed no_spacing_msg) s, None, None, Some 0, Some 0)
               else (s, arg_xul a, arg_yul a, arg_xll a, arg_yll a))
        in
        bindE (setattr ar ext (Assign_lenuni (arg_lenuni a)) s) (\<lambda>s.
        let s = s\<lparr>p_proj4_str := arg_proj4_str a\<rparr> in
        bindE (case arg_epsg a of None \<Rightarrow> Inr s
               | Some code \<Rightarrow> bindE (getproj4 ext code) (\<lambda>p. Inr (s\<lparr>p_proj4_str := Some p\<rparr>))) (\<lambda>s.
        let s = s\<lparr>supported_units := [''feet'', ''meters'']\<rparr>;
            s = s\<lparr>p_units := arg_units a\<rparr>;
            s = s\<lparr>p_length_multiplier := arg_length_multiplier a\<rparr>;
            s = reset s
        in set_spatialreference ar ext s xul_arg yul_arg xll_arg yll_arg (arg_rotation a))))))"

subsection \<open>The transform\<close>

text \<open>
  \<^verbatim>\<open>transform(x, y)\<close>: the copies of the arguments are scaled, moved and rotated;
  the frame comes back with its origin set again. \<^verbatim>\<open>self.xll\<close> and \<^verbatim>\<open>self.yll\<close>
  are read a second time for the call of \<^verbatim>\<open>rotate\<close>, with the same values.
\<close>

definition transform ::
  "arith \<Rightarrow> externals \<Rightarrow> 'a SpatialReference_scheme \<Rightarrow> ndarray \<Rightarrow> ndarray
     \<Rightarrow> error + ((ndarray \<times> ndarray) \<times> 'a SpatialReference_scheme)" where
  "transform ar ext s x y =
     bindE (set_origin ar ext s (xul s) (yul s) (xll s) (yll s)) (\<lambda>s.
     bindE (multiplier_operand ext s) (\<lambda>lm. bindE (np_imul ar x lm) (\<lambda>x.
     bindE (multiplier_operand ext s) (\<lambda>lm. bindE (np_imul ar y lm) (\<lambda>y.
     bindE (number_operand (xll s)) (\<lambda>xo. bindE (np_iadd ar x xo) (\<lambda>x.
     bindE (number_operand (yll s)) (\<lambda>yo. bindE (np_iadd ar y yo) (\<lambda>y.
     bindE (rotate_xy ar x y (rotation s) xo yo) (\<lambda>xy.
     Inr (xy, s)))))))))))"

subsection \<open>Cached grids\<close>

text \<open>
  \<^verbatim>\<open>np.meshgrid(xs, ys)\<close> of two one-dimensional arrays: two arrays of shape
  \<open>[length ys, length xs]\<close>; row \<open>i\<close> of the first is \<open>xs\<close>, row \<open>i\<close> of the second
  repeats element \<open>i\<close> of \<open>ys\<close>. Each keeps the type of its elements.
\<close>

definition meshgrid :: "ndarray \<Rightarrow> ndarray \<Rightarrow> ndarray \<times> ndarray" where
  "meshgrid xs ys =
     (\<lparr>dtype = dtype xs, shape = [length (data ys), length (data xs)],
       data = concat (map (\<lambda>y. data xs) (data ys))\<rparr>,
      \<lparr>dtype = dtype ys, shape = [length (data ys), length (data xs)],
       data = concat (map (\<lambda>y. map (\<lambda>x. y) (data xs)) (data ys))\<rparr>)"

text \<open>\<^verbatim>\<open>_set_xygrid\<close> and the properties \<^verbatim>\<open>xgrid\<close> and \<^verbatim>\<open>ygrid\<close>.\<close>

definition set_xygrid ::
  "arith \<Rightarrow> externals \<Rightarrow> 'a SpatialReference_scheme \<Rightarrow> error + 'a SpatialReference_scheme" where
  "set_xygrid ar ext s =
     (let (xg, yg) = meshgrid (get_xedge_array ar s) (get_yedge_array ar s);
          s = s\<lparr>p_xgrid := Some xg, p_ygrid := Some yg\<rparr>
      in bindE (transform ar ext s xg yg) (\<lambda>((xg, yg), s).
         Inr (s\<lparr>p_xgrid := Some xg, p_ygrid := Some yg\<rparr>)))"

definition xgrid ::
  "arith \<Rightarrow> externals \<Rightarrow> 'a SpatialReference_scheme
     \<Rightarrow> error + (ndarray option \<times> 'a SpatialReference_scheme)" where
  "xgrid ar ext s =
     bindE (if p_xgrid s = None then set_xygrid ar ext s else Inr s) (\<lambda>s. Inr (p_xgrid s, s))"

definition ygrid ::
  "arith \<Rightarrow> externals \<Rightarrow> 'a SpatialReference_scheme
     \<Rightarrow> error + (ndarray option \<times> 'a SpatialReference_scheme)" where
  "ygrid ar ext s =
     bindE (if p_ygrid s = None then set_xygrid ar ext s else Inr s) (\<lambda>s. Inr (p_ygrid s, s))"

text \<open>\<^verbatim>\<open>_set_xycentergrid\<close> and the properties \<^verbatim>\<open>xcentergrid\<close> and \<^verbatim>\<open>ycentergrid\<close>.\<close>

definition set_xycentergrid ::
  "arith \<Rightarrow> externals \<Rightarrow> 'a SpatialReference_scheme \<Rightarrow> error + 'a SpatialReference_scheme" where
  "set_xycentergrid ar ext s =
     (let (xg, yg) = meshgrid (get_xcenter_array ar s) (get_ycenter_array ar s);
          s = s\<lparr>p_xcentergrid := Some xg, p_ycentergrid := Some yg\<rparr>
      in bindE (transform ar ext s xg yg) (\<lambda>((xg, yg), s).
         Inr (s\<lparr>p_xcentergrid := Some xg, p_ycentergrid := Some yg\<rparr>)))"

definition xcentergrid ::
  "arith \<Rightarrow> externals \<Rightarrow> 'a SpatialReference_scheme
     \<Rightarrow> error + (ndarray option \<times> 'a SpatialReference_scheme)" where
  "xcentergrid ar ext s =
     bindE (if p_xcentergrid s = None then set_xycentergrid ar ext s else Inr s) (\<lambda>s.
     Inr (p_xcentergrid s, s))"

definition ycentergrid ::
  "arith \<Rightarrow> externals \<Rightarrow> 'a SpatialReference_scheme
     \<Rightarrow> error + (ndarray option \<times> 'a SpatialReference_scheme)" where
  "ycentergrid ar ext s =
     bindE (if p_ycentergrid s = None then set_xycentergrid ar ext s else Inr s) (\<lambda>s.
     Inr (p_ycentergrid s, s))"

subsection \<open>Vertices\<close>

text \<open>
  An index into an axis of length \<open>n\<close>: a negative index counts from the end, an
  index out of range raises IndexError.
\<close>

definition axis_index :: "int \<Rightarrow> nat \<Rightarrow> error + nat" where
  "axis_index i n =
     (if 0 \<le> i \<and> i < int n then Inr (nat i)
      else if - int n \<le> i \<and> i < 0 then Inr (nat (int n + i))
      else Inl IndexError)"

text \<open>\<^verbatim>\<open>grid[i, j]\<close> on a two-dimensional array; the grids of a frame are two-dimensional.\<close>

definition item2 :: "ndarray \<Rightarrow> int \<Rightarrow> int \<Rightarrow> error + real" where
  "item2 a i j =
     (case shape a of
        [n, m] \<Rightarrow> bindE (axis_index i n) (\<lambda>i. bindE (axis_index j m) (\<lambda>j. Inr (data a ! (i * m + j))))
      | _ \<Rightarrow> Inl IndexError)"

definition point2 :: "ndarray \<Rightarrow> ndarray \<Rightarrow> int \<Rightarrow> int \<Rightarrow> error + real list" where
  "point2 xg yg i j = bindE (item2 xg i j) (\<lambda>x. bindE (item2 yg i j) (\<lambda>y. Inr [x, y]))"

text \<open>The five points that \<^verbatim>\<open>get_vertices(i, j)\<close> collects from the two grids.\<close>

definition cell_points :: "ndarray \<Rightarrow> ndarray \<Rightarrow> int \<Rightarrow> int \<Rightarrow> error + real list list" where
  "cell_points xg yg i j =
     bindE (point2 xg yg i j) (\<lambda>p0.
     bindE (point2 xg yg (i + 1) j) (\<lambda>p1.
     bindE (point2 xg yg (i + 1) (j + 1)) (\<lambda>p2.
     bindE (point2 xg yg i (j + 1)) (\<lambda>p3.
     bindE (point2 xg yg i j) (\<lambda>p4.
     Inr [p0, p1, p2, p3, p4])))))"

text \<open>Reading both grids, as \<^verbatim>\<open>xgrid, ygrid = self.xgrid, self.ygrid\<close> does.\<close>

definition both_grids ::
  "arith \<Rightarrow> externals \<Rightarrow> 'a SpatialReference_scheme
     \<Rightarrow> error + ((ndarray \<times> ndarray) \<times> 'a SpatialReference_scheme)" where
  "both_grids ar ext s =
     bindE (xgrid ar ext s) (\<lambda>(xg, s).
     bindE (ygrid ar ext s) (\<lambda>(yg, s).
     case (xg, yg) of
       (Some xg, Some yg) \<Rightarrow> Inr ((xg, yg), s)
     | _ \<Rightarrow> Inl (TypeError ''NoneType object is not subscriptable'')))"

definition get_vertices ::
  "arith \<Rightarrow> externals \<Rightarrow> 'a SpatialReference_scheme \<Rightarrow> int \<Rightarrow> int
     \<Rightarrow> error + (real list list \<times> 'a SpatialReference_scheme)" where
  "get_vertices ar ext s i j =
     bindE (both_grids ar ext s) (\<lambda>((xg, yg), s).
     bindE (cell_points xg yg i j) (\<lambda>pts. Inr (pts, s)))"

text \<open>A list comprehension whose body can raise: the first exception ends it.\<close>

fun mapE :: "('a \<Rightarrow> error + 'b) \<Rightarrow> 'a list \<Rightarrow> error + 'b list" where
  "mapE f [] = Inr []"
| "mapE f (x # xs) = bindE (f x) (\<lambda>y. bindE (mapE f xs) (\<lambda>ys. Inr (y # ys)))"

text \<open>
  \<^verbatim>\<open>_set_vertices\<close> calls \<^verbatim>\<open>get_vertices\<close> once, with the arrays of all row and
  column numbers in row-major order, and regroups the result cell by cell: the
  points of cell \<open>(i, j)\<close> are those of \<^verbatim>\<open>get_vertices(i, j)\<close>. The property
  \<^verbatim>\<open>vertices\<close> returns the cached list.
\<close>

definition set_vertices ::
  "arith \<Rightarrow> externals \<Rightarrow> 'a SpatialReference_scheme \<Rightarrow> error + 'a SpatialReference_scheme" where
  "set_vertices ar ext s =
     bindE (both_grids ar ext s) (\<lambda>((xg, yg), s).
     bindE (mapE (\<lambda>(i, j). cell_points xg yg (int i) (int j))
              (concat (map (\<lambda>i. map (\<lambda>j. (i, j)) [0..<ncol s]) [0..<nrow s]))) (\<lambda>vrts.
     Inr (s\<lparr>p_vertices := Some vrts\<rparr>)))"

definition vertices ::
  "arith \<Rightarrow> externals \<Rightarrow> 'a SpatialReference_scheme
     \<Rightarrow> error + (real list list list option \<times> 'a SpatialReference_scheme)" where
  "vertices ar ext s =
     bindE (if p_vertices s = None then set_vertices ar ext s else Inr s) (\<lambda>s.
     Inr (p_vertices s, s))"


subsection \<open>Point lookup\<close>

text \<open>\<^verbatim>\<open>argmin\<close>: the first position of the least element.\<close>

fun argmin_list :: "real list \<Rightarrow> nat" where
  "argmin_list [] = 0"
| "argmin_list [v] = 0"
| "argmin_list (v # w # ws) =
     (let k = argmin_list (w # ws) in if v \<le> (w # ws) ! k then 0 else Suc k)"

definition argmin :: "real list \<Rightarrow> error + nat" where
  "argmin vs =
     (if vs = [] then Inl (ValueError ''attempt to get argmin of an empty sequence'')
      else Inr (argmin_list vs))"

text \<open>\<^verbatim>\<open>grid[0]\<close>, the first row, and \<^verbatim>\<open>grid[:, 0]\<close>, the first column.\<close>

definition first_row :: "ndarray option \<Rightarrow> error + real list" where
  "first_row g =
     (case g of
        None \<Rightarrow> Inl (TypeError ''NoneType object is not subscriptable'')
      | Some a \<Rightarrow>
          (case shape a of
             [n, m] \<Rightarrow> if n = 0 then Inl IndexError else Inr (take m (data a))
           | _ \<Rightarrow> Inl IndexError))"

definition first_column :: "ndarray option \<Rightarrow> error + real list" where
  "first_column g =
     (case g of
        None \<Rightarrow> Inl (TypeError ''NoneType object is not subscriptable'')
      | Some a \<Rightarrow>
          (case shape a of
             [n, m] \<Rightarrow> if m = 0 then Inl IndexError else Inr (map (\<lambda>i. data a ! (i * m)) [0..<n])
           | _ \<Rightarrow> Inl IndexError))"

text \<open>
  The position in \<open>centers\<close> nearest to the coordinate \<open>q\<close>:
  \<^verbatim>\<open>np.abs(centers - q).argmin()\<close>, the differences being floats.
\<close>

definition nearest :: "arith \<Rightarrow> real list \<Rightarrow> real \<Rightarrow> error + nat" where
  "nearest ar centers q = argmin (map (\<lambda>c. \<bar>fsub ar c q\<bar>) centers)"

text \<open>The difference of two one-dimensional arrays, with numpy's broadcasting.\<close>

definition subtract_1d :: "arith \<Rightarrow> real list \<Rightarrow> real list \<Rightarrow> error + real list" where
  "subtract_1d ar a b =
     (if length a = length b then Inr (map2 (fsub ar) a b)
      else if length b = 1 then Inr (map (\<lambda>u. fsub ar u (b ! 0)) a)
      else if length a = 1 then Inr (map (\<lambda>v. fsub ar (a ! 0) v) b)
      else Inl (ValueError ''operands could not be broadcast together''))"

text \<open>
  A query: one coordinate or a list of coordinates. The value that \<^verbatim>\<open>get_rc\<close>
  returns for a row or a column: one index or a list of indices.
\<close>

datatype query = Point number | Points "number list"

datatype index = Index nat | Indices "nat list"

text \<open>
  \<^verbatim>\<open>get_rc(x, y)\<close>. With a list \<open>x\<close> of length \<open>n\<close> the centres are stacked \<open>n\<close>
  times and transposed, so that column \<open>k\<close> of the difference belongs to query
  \<open>k\<close>; \<open>y\<close> is then broadcast against \<open>n\<close> columns. The two grids are float
  arrays, so a coordinate that is an integer is converted.
\<close>

definition get_rc ::
  "arith \<Rightarrow> externals \<Rightarrow> 'a SpatialReference_scheme \<Rightarrow> query \<Rightarrow> query
     \<Rightarrow> error + ((index \<times> index) \<times> 'a SpatialReference_scheme)" where
  "get_rc ar ext s x y =
     (case x of
        Point xn \<Rightarrow>
          bindE (xcentergrid ar ext s) (\<lambda>(xg, s).
          bindE (first_row xg) (\<lambda>xc0.
          bindE (nearest ar xc0 (float_of ar xn)) (\<lambda>c.
          bindE (ycentergrid ar ext s) (\<lambda>(yg, s).
          bindE (first_column yg) (\<lambda>yc0.
          bindE (case y of
                   Point yn \<Rightarrow> nearest ar yc0 (float_of ar yn)
                 | Points ys \<Rightarrow>
                     bindE (subtract_1d ar yc0 (map (float_of ar) ys)) (\<lambda>d.
                     argmin (map (\<lambda>v. \<bar>v\<bar>) d))) (\<lambda>r.
          Inr ((Index r, Index c), s)))))))
      | Points xs \<Rightarrow>
          bindE (xcentergrid ar ext s) (\<lambda>(xg, s).
          bindE (first_row xg) (\<lambda>xc0.
          bindE (ycentergrid ar ext s) (\<lambda>(yg, s).
          bindE (first_column yg) (\<lambda>yc0.
          bindE (if xs = [] then Inl (ValueError ''attempt to get argmin of an empty sequence'')
                 else mapE (nearest ar xc0) (map (float_of ar) xs)) (\<lambda>c.
          bindE (case y of
                   Point yn \<Rightarrow> mapE (nearest ar yc0) (replicate (length xs) (float_of ar yn))
                 | Points ys \<Rightarrow>
                     if length ys = length xs then mapE (nearest ar yc0) (map (float_of ar) ys)
                     else if length ys = 1
                       then mapE (nearest ar yc0) (replicate (length xs) (float_of ar (ys ! 0)))
                     else if length xs = 1 then mapE (nearest ar yc0) (map (float_of ar) ys)
                     else Inl (ValueError ''operands could not be broadcast together'')) (\<lambda>r.
          Inr ((Indices r, Indices c), s))))))))"

section \<open>The unstructured frame\<close>

text \<open>
  \<^verbatim>\<open>class SpatialReferenceUnstructured(SpatialReference)\<close>: the attributes of the
  base class and six of its own. The properties of the base class are inherited.
\<close>

record SpatialReferenceUnstructured = SpatialReference +
  xc :: "real list"
  yc :: "real list"
  verts :: "(real \<times> real) list"
  iverts :: "nat list list"
  ncpl :: "int list"
  layered :: bool

text \<open>
  Its \<^verbatim>\<open>__setattr__(key, value)\<close> is
  \<^verbatim>\<open>super(SpatialReference, self).__setattr__(key, value)\<close>, the assignment of
  \<^verbatim>\<open>object\<close>, for every key.
\<close>

definition sru_setattr ::
  "string \<Rightarrow> (SpatialReferenceUnstructured \<Rightarrow> SpatialReferenceUnstructured)
     \<Rightarrow> SpatialReferenceUnstructured \<Rightarrow> error + SpatialReferenceUnstructured" where
  "sru_setattr key store s = object_setattr key store s"

definition sru_new_object :: SpatialReferenceUnstructured where
  "sru_new_object =
     \<lparr>delr = array1 Float64 [], delc = array1 Float64 [], lenuni = 0, p_proj4_str = None,
      supported_units = [],
      p_units = None, p_length_multiplier = None,
      xul = None, yul = None, xll = None, yll = None, rotation = 0, origin_loc = ''ul'',
      p_xgrid = None, p_ygrid = None, p_xcentergrid = None, p_ycentergrid = None,
      p_vertices = None, diagnostics = [],
      xc = [], yc = [], verts = [], iverts = [], ncpl = [], layered = True\<rparr>"

text \<open>An \<^verbatim>\<open>assert\<close> statement.\<close>

definition assert :: "bool \<Rightarrow> error + unit" where
  "assert b = (if b then Inr () else Inl AssertionError)"

text \<open>\<^verbatim>\<open>ncpl[0]\<close>.\<close>

definition first_item :: "int list \<Rightarrow> error + int" where
  "first_item vs = (case vs of [] \<Rightarrow> Inl IndexError | v # _ \<Rightarrow> Inr v)"

text \<open>The assertions at the end of the constructor.\<close>

definition check_topology :: "SpatialReferenceUnstructured \<Rightarrow> error + SpatialReferenceUnstructured" where
  "check_topology s =
     (if layered s then
        bindE (assert (list_all (\<lambda>n. n = int (length (iverts s))) (ncpl s))) (\<lambda>_.
        bindE (first_item (ncpl s)) (\<lambda>n0.
        bindE (assert (int (length (xc s)) = n0)) (\<lambda>_.
        bindE (first_item (ncpl s)) (\<lambda>n0.
        bindE (assert (int (length (yc s)) = n0)) (\<lambda>_.
        Inr s)))))
      else
        bindE (assert (int (length (iverts s)) = sum_list (ncpl s))) (\<lambda>_.
        bindE (assert (int (length (xc s)) = sum_list (ncpl s))) (\<lambda>_.
        bindE (assert (int (length (yc s)) = sum_list (ncpl s))) (\<lambda>_.
        Inr s))))"

text \<open>
  \<^verbatim>\<open>SpatialReferenceUnstructured.__init__(xc, yc, verts, iverts, ncpl, layered,
  lenuni, proj4_str, epsg, units, length_multiplier)\<close>, one assignment after the
  other. The keys \<^verbatim>\<open>epsg\<close> and \<^verbatim>\<open>length_multiplier\<close> name properties: there is no
  attribute that these two assignments could store.
\<close>

definition sru_init ::
  "externals \<Rightarrow> real list \<Rightarrow> real list \<Rightarrow> (real \<times> real) list \<Rightarrow> nat list list \<Rightarrow> int list
     \<Rightarrow> bool \<Rightarrow> int \<Rightarrow> string option \<Rightarrow> int option \<Rightarrow> string option \<Rightarrow> real option
     \<Rightarrow> error + SpatialReferenceUnstructured" where
  "sru_init ext xc_arg yc_arg verts_arg iverts_arg ncpl_arg layered_arg lenuni_arg
       proj4_str_arg epsg_arg units_arg length_multiplier_arg =
     bindE (sru_setattr ''xc'' (\<lambda>s. s\<lparr>xc := xc_arg\<rparr>) sru_new_object) (\<lambda>s.
     bindE (sru_setattr ''yc'' (\<lambda>s. s\<lparr>yc := yc_arg\<rparr>) s) (\<lambda>s.
     bindE (sru_setattr ''verts'' (\<lambda>s. s\<lparr>verts := verts_arg\<rparr>) s) (\<lambda>s.
     bindE (sru_setattr ''iverts'' (\<lambda>s. s\<lparr>iverts := iverts_arg\<rparr>) s) (\<lambda>s.
     bindE (sru_setattr ''ncpl'' (\<lambda>s. s\<lparr>ncpl := ncpl_arg\<rparr>) s) (\<lambda>s.
     bindE (sru_setattr ''layered'' (\<lambda>s. s\<lparr>layered := layered_arg\<rparr>) s) (\<lambda>s.
     bindE (sru_setattr ''lenuni'' (\<lambda>s. s\<lparr>lenuni := lenuni_arg\<rparr>) s) (\<lambda>s.
     bindE (sru_setattr ''_proj4_str'' (\<lambda>s. s\<lparr>p_proj4_str := proj4_str_arg\<rparr>) s) (\<lambda>s.
     bindE (sru_setattr ''epsg'' (\<lambda>s. s) s) (\<lambda>s.
     bindE (case epsg_arg of None \<Rightarrow> Inr s
            | Some code \<Rightarrow>
                bindE (getproj4 ext code) (\<lambda>p.
                sru_setattr ''_proj4_str'' (\<lambda>s. s\<lparr>p_proj4_str := Some p\<rparr>) s)) (\<lambda>s.
     bindE (sru_setattr ''supported_units'' (\<lambda>s. s\<lparr>supported_units := [''feet'', ''meters'']\<rparr>) s) (\<lambda>s.
     bindE (sru_setattr ''_units'' (\<lambda>s. s\<lparr>p_units := units_arg\<rparr>) s) (\<lambda>s.
     bindE (sru_setattr ''length_multiplier'' (\<lambda>s. s) s) (\<lambda>s.
     bindE (sru_setattr ''xul'' (\<lambda>s. s\<lparr>xul := Some 0\<rparr>) s) (\<lambda>s.
     bindE (sru_setattr ''yul'' (\<lambda>s. s\<lparr>yul := Some 0\<rparr>) s) (\<lambda>s.
     bindE (sru_setattr ''rotation'' (\<lambda>s. s\<lparr>rotation := 0\<rparr>) s) (\<lambda>s.
     check_topology s))))))))))))))))"

section \<open>The cells of the grid\<close>

text \<open>
  The row and column numbers of all cells in row-major order, as \<^verbatim>\<open>_set_vertices\<close>
  enumerates them.
\<close>

definition cells :: "'a SpatialReference_scheme \<Rightarrow> (nat \<times> nat) list" where
  "cells s = concat (map (\<lambda>i. map (\<lambda>j. (i, j)) [0..<ncol s]) [0..<nrow s])"


section \<open>The constructor, step by step\<close>

text \<open>
  Names for what the statements about the constructor speak of. The warning that
  a rotation other than 0 emits (once in \<^verbatim>\<open>set_spatialreference\<close>, once more in
  \<^verbatim>\<open>__setattr__\<close>):
\<close>

definition rotation_warning :: "real \<Rightarrow> diagnostic list" where
  "rotation_warning r = (if r \<noteq> 0 then [Warned rotation_msg] else [])"

text \<open>
  The condition of the fallback in \<^verbatim>\<open>__init__\<close>: \<^verbatim>\<open>sum()\<close> of one of the two
  spacing arrays is zero, and one of \<^verbatim>\<open>xll\<close>, \<^verbatim>\<open>yll\<close> is None.
\<close>

definition degenerate :: "arith \<Rightarrow> init_args \<Rightarrow> bool" where
  "degenerate ar a =
     ((add_reduce ar (atleast_1d ar (arg_delr a)) = 0
       \<or> add_reduce ar (atleast_1d ar (arg_delc a)) = 0)
      \<and> (arg_xll a = None \<or> arg_yll a = None))"

text \<open>
  The projection string that \<^verbatim>\<open>__init__\<close> stores: the argument, or with an EPSG
  code what \<^verbatim>\<open>getproj4\<close> answers.
\<close>

definition proj4_lookup :: "externals \<Rightarrow> init_args \<Rightarrow> error + string option" where
  "proj4_lookup ext a =
     (case arg_epsg a of
        None \<Rightarrow> Inr (arg_proj4_str a)
      | Some code \<Rightarrow> bindE (getproj4 ext code) (\<lambda>p. Inr (Some p)))"

text \<open>
  The object at the moment when \<^verbatim>\<open>__init__\<close> calls \<^verbatim>\<open>set_spatialreference\<close>:
  spacings, units and multiplier are stored, the corners are not.
\<close>

definition before_placing :: "arith \<Rightarrow> init_args \<Rightarrow> string option \<Rightarrow> SpatialReference" where
  "before_placing ar a proj4 =
     new_object\<lparr>delr := atleast_1d ar (arg_delr a), delc := atleast_1d ar (arg_delc a),
                 diagnostics := (if degenerate ar a then [Printed no_spacing_msg] else []),
                 lenuni := arg_lenuni a, p_proj4_str := proj4,
                 supported_units := [''feet'', ''meters''], p_units := arg_units a,
                 p_length_multiplier := arg_length_multiplier a\<rparr>"

text \<open>
  The offset between the two left corners, as \<^verbatim>\<open>set_origin\<close> computes it
  from the rotation, \<^verbatim>\<open>delc\<close> and the multiplier:
  \<^verbatim>\<open>np.sin(self.theta) * self.yedge[0] * self.length_multiplier\<close> and the same
  with the cosine.
\<close>

definition x_offset :: "arith \<Rightarrow> real \<Rightarrow> ndarray \<Rightarrow> real \<Rightarrow> real" where
  "x_offset ar r dc lm =
     fmul ar (fmul ar (np_sin ar (fdiv ar (fmul ar (- r) (np_pi ar)) 180))
                      (as_float ar (dtype dc) (add_reduce ar dc))) lm"

definition y_offset :: "arith \<Rightarrow> real \<Rightarrow> ndarray \<Rightarrow> real \<Rightarrow> real" where
  "y_offset ar r dc lm =
     fmul ar (fmul ar (np_cos ar (fdiv ar (fmul ar (- r) (np_pi ar)) 180))
                      (as_float ar (dtype dc) (add_reduce ar dc))) lm"

text \<open>
  The real-world coordinates that \<^verbatim>\<open>transform\<close> and \<^verbatim>\<open>rotate\<close> compute for
  the model point \<open>(u, v)\<close>, operation by operation: the multiplication with the
  multiplier, the addition of the corner \<open>(xo, yo)\<close>, and the two expressions of
  \<^verbatim>\<open>rotate\<close> for the rotation \<open>r\<close>.
\<close>

definition world_x :: "arith \<Rightarrow> real \<Rightarrow> real \<Rightarrow> real \<Rightarrow> real \<Rightarrow> real \<Rightarrow> real \<Rightarrow> real" where
  "world_x ar r lm xo yo u v =
     fsub ar (fadd ar xo (fmul ar (np_cos ar (fdiv ar (fmul ar r (np_pi ar)) 180))
                                  (fsub ar (fadd ar (fmul ar u lm) xo) xo)))
             (fmul ar (np_sin ar (fdiv ar (fmul ar r (np_pi ar)) 180))
                      (fsub ar (fadd ar (fmul ar v lm) yo) yo))"

definition world_y :: "arith \<Rightarrow> real \<Rightarrow> real \<Rightarrow> real \<Rightarrow> real \<Rightarrow> real \<Rightarrow> real \<Rightarrow> real" where
  "world_y ar r lm xo yo u v =
     fadd ar (fadd ar yo (fmul ar (np_sin ar (fdiv ar (fmul ar r (np_pi ar)) 180))
                                  (fsub ar (fadd ar (fmul ar u lm) xo) xo)))
             (fmul ar (np_cos ar (fdiv ar (fmul ar r (np_pi ar)) 180))
                      (fsub ar (fadd ar (fmul ar v lm) yo) yo))"

text \<open>
  A spacing array whose sums are computed without wrapping around: a float array,
  or an integer array of integers that are not negative and whose total fits 64
  bits.
\<close>

definition no_overflow :: "ndarray \<Rightarrow> bool" where
  "no_overflow a =
     (dtype a = Int64 \<longrightarrow>
        (\<forall>v \<in> set (data a). v \<in> \<int> \<and> 0 \<le> v) \<and> sum_list (data a) < 2 ^ 63)"

section \<open>Double precision\<close>

text \<open>
  The arithmetic of IEEE doubles with round to nearest, ties to even, for results
  in the normal range: \<open>round64\<close> keeps 53 significant bits. \<open>pairwise_sum\<close> is
  the summation of numpy for a contiguous array: a plain loop below eight
  elements, eight running sums up to 128 elements, halves above. Sine and cosine
  are taken as correctly rounded, which the library need not be everywhere; the
  statements below use them at 0 only, where they are exact. \<^verbatim>\<open>np.pi\<close> is the
  double next to \<open>\<pi>\<close>.
\<close>

definition half_even :: "real \<Rightarrow> int" where
  "half_even x =
     (let f = \<lfloor>x\<rfloor>; d = x - of_int f
      in if d < 1 / 2 then f else if 1 / 2 < d then f + 1 else if even f then f else f + 1)"

definition round64 :: "real \<Rightarrow> real" where
  "round64 x =
     (if x = 0 then 0
      else let e = \<lfloor>log 2 \<bar>x\<bar>\<rfloor> - 52
           in of_int (half_even (x / 2 powr of_int e)) * 2 powr of_int e)"

function unrolled :: "(real \<Rightarrow> real) \<Rightarrow> real list \<Rightarrow> real list \<Rightarrow> real list \<times> real list" where
  "unrolled rnd r vs =
     (if length vs < 8 then (r, vs)
      else unrolled rnd (map2 (\<lambda>a b. rnd (a + b)) r (take 8 vs)) (drop 8 vs))"
  by pat_completeness auto
termination
  by (relation "measure (\<lambda>(rnd, r, vs). length vs)") auto

function pairwise_sum :: "(real \<Rightarrow> real) \<Rightarrow> real list \<Rightarrow> real" where
  "pairwise_sum rnd vs =
     (if length vs < 8 then foldl (\<lambda>a v. rnd (a + v)) 0 vs
      else if length vs \<le> 128 then
        (case unrolled rnd (take 8 vs) (drop 8 vs) of
           (r, rest) \<Rightarrow>
             foldl (\<lambda>a v. rnd (a + v))
               (rnd (rnd (rnd (r ! 0 + r ! 1) + rnd (r ! 2 + r ! 3))
                     + rnd (rnd (r ! 4 + r ! 5) + rnd (r ! 6 + r ! 7)))) rest)
      else rnd (pairwise_sum rnd (take (length vs div 2 - length vs div 2 mod 8) vs)
                + pairwise_sum rnd (drop (length vs div 2 - length vs div 2 mod 8) vs)))"
  by pat_completeness auto
termination
  by (relation "measure (\<lambda>(rnd, vs). length vs)") (auto simp add: min_def; presburger?)+

declare unrolled.simps [simp del]

declare pairwise_sum.simps [simp del]

definition binary64 :: arith where
  "binary64 =
     \<lparr>fl = round64, np_sin = (\<lambda>v. round64 (sin v)), np_cos = (\<lambda>v. round64 (cos v)),
      np_pi = 884279719003555 / 2 ^ 48, float_sum = pairwise_sum round64\<rparr>"

section \<open>Example frames\<close>

text \<open>
  Collaborators that are out of reach: no network and no pyproj. A grid of two
  columns (10 and 30 wide) and two rows (20 and 40 high), the spacings given as
  floats, placed by its upper-left corner, and the frame that the constructor
  builds for it.
\<close>

definition no_externals :: externals where
  "no_externals = \<lparr>getproj4 = (\<lambda>code. Inl (ExternalError ''no connection'')),
                    pyproj_srs = (\<lambda>p. None)\<rparr>"

definition example_args :: init_args where
  "example_args = default_args\<lparr>arg_delr := Sequence [PyFloat 10, PyFloat 30],
                                arg_delc := Sequence [PyFloat 20, PyFloat 40],
                                arg_xul := Some 100, arg_yul := Some 260\<rparr>"

definition example_frame :: SpatialReference where
  "example_frame =
     \<lparr>delr = array1 Float64 [10, 30], delc = array1 Float64 [20, 40], lenuni = 2,
      p_proj4_str = None,
      supported_units = [''feet'', ''meters''], p_units = None, p_length_multiplier = None,
      xul = Some 100, yul = Some 260, xll = Some 100, yll = Some 200, rotation = 0,
      origin_loc = ''ul'',
      p_xgrid = None, p_ygrid = None, p_xcentergrid = None, p_ycentergrid = None,
      p_vertices = None, diagnostics = []\<rparr>"

text \<open>The same grid placed by its lower-left corner and turned by a quarter.\<close>

definition rotated_args :: init_args where
  "rotated_args = default_args\<lparr>arg_delr := Sequence [PyFloat 10, PyFloat 30],
                                arg_delc := Sequence [PyFloat 20, PyFloat 40],
                                arg_xll := Some 100, arg_yll := Some 200, arg_rotation := 90\<rparr>"

definition rotated_frame :: SpatialReference where
  "rotated_frame =
     \<lparr>delr = array1 Float64 [10, 30], delc = array1 Float64 [20, 40], lenuni = 2,
      p_proj4_str = None,
      supported_units = [''feet'', ''meters''], p_units = None, p_length_multiplier = None,
      xul = Some 40, yul = Some 200, xll = Some 100, yll = Some 200, rotation = 90,
      origin_loc = ''ll'',
      p_xgrid = None, p_ygrid = None, p_xcentergrid = None, p_ycentergrid = None,
      p_vertices = None, diagnostics = [Warned rotation_msg, Warned rotation_msg]\<rparr>"

text \<open>
  Rows without columns: \<^verbatim>\<open>delr\<close> is left at its default, the empty array, and the
  upper-left corner is given. And no spacing at all, with \<^verbatim>\<open>xul\<close> and \<^verbatim>\<open>xll\<close>
  both given.
\<close>

definition rows_only_args :: init_args where
  "rows_only_args = default_args\<lparr>arg_delc := Sequence [PyFloat 20, PyFloat 40],
                                  arg_xul := Some 100, arg_yul := Some 260\<rparr>"

definition rows_only_frame :: SpatialReference where
  "rows_only_frame =
     \<lparr>delr = array1 Float64 [], delc = array1 Float64 [20, 40], lenuni = 2,
      p_proj4_str = None,
      supported_units = [''feet'', ''meters''], p_units = None, p_length_multiplier = None,
      xul = Some 0, yul = Some 60, xll = Some 0, yll = Some 0, rotation = 0,
      origin_loc = ''ll'',
      p_xgrid = None, p_ygrid = None, p_xcentergrid = None, p_ycentergrid = None,
      p_vertices = None, diagnostics = [Printed no_spacing_msg]\<rparr>"

definition two_corner_args :: init_args where
  "two_corner_args = default_args\<lparr>arg_xul := Some 1, arg_xll := Some 2\<rparr>"

definition two_corner_frame :: SpatialReference where
  "two_corner_frame =
     \<lparr>delr = array1 Float64 [], delc = array1 Float64 [], lenuni = 2, p_proj4_str = None,
      supported_units = [''feet'', ''meters''], p_units = None, p_length_multiplier = None,
      xul = Some 0, yul = Some 0, xll = Some 0, yll = Some 0, rotation = 0,
      origin_loc = ''ll'',
      p_xgrid = None, p_ygrid = None, p_xcentergrid = None, p_ycentergrid = None,
      p_vertices = None, diagnostics = [Printed no_spacing_msg]\<rparr>"

text \<open>The first grid again, placed by the same upper-left corner and turned by a half.\<close>

definition half_turn_args :: init_args where
  "half_turn_args = example_args\<lparr>arg_rotation := 180\<rparr>"

definition half_turn_frame :: SpatialReference where
  "half_turn_frame =
     \<lparr>delr = array1 Float64 [10, 30], delc = array1 Float64 [20, 40], lenuni = 2,
      p_proj4_str = None,
      supported_units = [''feet'', ''meters''], p_units = None, p_length_multiplier = None,
      xul = Some 100, yul = Some 260, xll = Some 100, yll = Some 320, rotation = 180,
      origin_loc = ''ul'',
      p_xgrid = None, p_ygrid = None, p_xcentergrid = None, p_ycentergrid = None,
      p_vertices = None, diagnostics = [Warned rotation_msg, Warned rotation_msg]\<rparr>"

text \<open>The first grid with its spacings given as integers.\<close>

definition integer_args :: init_args where
  "integer_args = default_args\<lparr>arg_delr := Sequence [PyInt 10, PyInt 30],
                                arg_delc := Sequence [PyInt 20, PyInt 40],
                                arg_xul := Some 100, arg_yul := Some 260\<rparr>"

definition integer_frame :: SpatialReference where
  "integer_frame =
     example_frame\<lparr>delr := array1 Int64 [10, 30], delc := array1 Int64 [20, 40]\<rparr>"

text \<open>
  The first grid with two columns of the widths \<open>10 ^ 16\<close> and 1, both of them
  doubles; and with two rows of the height \<open>2 ^ 62\<close> each, given as integers.
\<close>

definition wide_frame :: SpatialReference where
  "wide_frame = example_frame\<lparr>delr := array1 Float64 [10 ^ 16, 1]\<rparr>"

definition overflow_frame :: SpatialReference where
  "overflow_frame = example_frame\<lparr>delc := array1 Int64 [2 ^ 62, 2 ^ 62]\<rparr>"

text \<open>
  A grid of one cell of the size 1, placed by its lower-left corner at
  \<open>(-0.8, 0)\<close>: the double next to \<open>-0.8\<close> is \<open>- 3602879701896397 / 2 ^ 52\<close>.
\<close>

definition offset_frame :: SpatialReference where
  "offset_frame =
     \<lparr>delr = array1 Float64 [1], delc = array1 Float64 [1], lenuni = 2, p_proj4_str = None,
      supported_units = [''feet'', ''meters''], p_units = None, p_length_multiplier = None,
      xul = Some (- (3602879701896397 / 2 ^ 52)), yul = Some 1,
      xll = Some (- (3602879701896397 / 2 ^ 52)), yll = Some 0, rotation = 0,
      origin_loc = ''ll'',
      p_xgrid = None, p_ygrid = None, p_xcentergrid = None, p_ycentergrid = None,
      p_vertices = None, diagnostics = []\<rparr>"

text \<open>
  Three columns of the widths \<open>10 ^ 16\<close>, 1 and \<open>- 10 ^ 16\<close> and one row, with
  an upper-left corner.
\<close>

definition cancelling_args :: init_args where
  "cancelling_args =
     default_args\<lparr>arg_delr := Sequence [PyFloat (10 ^ 16), PyFloat 1, PyFloat (- (10 ^ 16))],
                  arg_delc := Sequence [PyFloat 1],
                  arg_xul := Some 5, arg_yul := Some 7\<rparr>"

section \<open>Basic lemmas\<close>

lemma bindE_Inl: "bindE (Inl e) f = Inl e"
  by (simp add: bindE_def)

lemma bindE_Inr: "bindE (Inr v) f = f v"
  by (simp add: bindE_def)


subsection \<open>Exact arithmetic\<close>

lemma exact_fields [simp]:
  "fl exact v = v" "np_sin exact = sin" "np_cos exact = cos" "np_pi exact = pi"
  "float_sum exact = sum_list"
  by (simp_all add: exact_def)

lemma exact_operations [simp]:
  "fadd exact a b = a + b" "fsub exact a b = a - b" "fmul exact a b = a * b"
  "fdiv exact a b = a / b" "as_float exact t v = v"
  by (simp_all add: fadd_def fsub_def fmul_def fdiv_def as_float_def split: dtype.splits)

lemma as_float_identity [simp]:
  "as_float exact t = (\<lambda>v. v)" "as_float ar Float64 = (\<lambda>v. v)"
  by (rule ext, simp add: as_float_def split: dtype.splits)+

lemma floats_exact [simp]: "floats exact a = data a"
  by (simp add: floats_def)

lemma floats_float [simp]: "dtype a = Float64 \<Longrightarrow> floats ar a = data a"
  by (simp add: floats_def)

lemma length_floats [simp]: "length (floats ar a) = length (data a)"
  by (simp add: floats_def)

subsection \<open>Arrays of one shape\<close>

lemma broadcast_rev_same: "broadcast_rev xs xs = Some xs"
  by (induction xs) simp_all

lemma broadcast_shape_same: "broadcast_shape sh sh = Some sh"
  by (simp add: broadcast_shape_def broadcast_rev_same)

lemma concat_chunks:
  "length d = n * k \<Longrightarrow> concat (map (\<lambda>i. take k (drop (i * k) d)) [0..<n]) = d"
proof (induction n arbitrary: d)
  case 0
  then show ?case by simp
next
  case (Suc n)
  from Suc.prems have len: "length (take (n * k) d) = n * k"
    by simp
  have same: "take k (drop (i * k) (take (n * k) d)) = take k (drop (i * k) d)" if "i < n" for i
  proof -
    from that have "Suc i * k \<le> n * k"
      by (intro mult_le_mono1) simp
    then have "i * k + k \<le> n * k"
      by simp
    then show ?thesis
      by (simp add: drop_take min_def)
  qed
  have "concat (map (\<lambda>i. take k (drop (i * k) d)) [0..<n])
      = concat (map (\<lambda>i. take k (drop (i * k) (take (n * k) d))) [0..<n])"
    by (intro arg_cong [where f = concat] map_cong refl) (simp add: same)
  also have "\<dots> = take (n * k) d"
    by (rule Suc.IH [OF len])
  finally have front: "concat (map (\<lambda>i. take k (drop (i * k) d)) [0..<n]) = take (n * k) d" .
  from Suc.prems have "take k (drop (n * k) d) = drop (n * k) d"
    by simp
  with front show ?case
    by simp
qed

lemma stretch_same: "length d = prod_list sh \<Longrightarrow> stretch sh sh d = d"
proof (induction sh arbitrary: d)
  case Nil
  then show ?case by simp
next
  case (Cons s ss)
  let ?k = "prod_list ss"
  from Cons.prems have len: "length d = s * ?k"
    by simp
  have chunk: "stretch ss ss (take ?k (drop ((if s = 1 then 0 else i) * ?k) d))
      = take ?k (drop (i * ?k) d)" if "i < s" for i
  proof -
    from that have i: "(if s = 1 then 0 else i) = i"
      by simp
    from that have "Suc i * ?k \<le> s * ?k"
      by (intro mult_le_mono1) simp
    with len have "length (take ?k (drop (i * ?k) d)) = ?k"
      by simp
    then show ?thesis
      by (simp only: i Cons.IH)
  qed
  have "stretch (s # ss) (s # ss) d = concat (map (\<lambda>i. take ?k (drop (i * ?k) d)) [0..<s])"
    unfolding stretch.simps
  proof (intro arg_cong [where f = concat] map_cong refl)
    fix i
    assume "i \<in> set [0..<s]"
    then have "i < s"
      by simp
    then show "stretch ss ss (take ?k (drop ((if s = 1 then 0 else i) * ?k) d))
      = take ?k (drop (i * ?k) d)"
      by (rule chunk)
  qed
  with concat_chunks [OF len] show ?case
    by simp
qed

lemma broadcast_to_same:
  "length (data a) = prod_list (shape a) \<Longrightarrow> broadcast_to ar (shape a) a = floats ar a"
  by (simp add: broadcast_to_def stretch_same)

lemma np_map2_same:
  assumes "same_shape a b"
  shows "np_map2 ar f a b
     = Inr \<lparr>dtype = Float64, shape = shape a, data = map2 f (floats ar a) (floats ar b)\<rparr>"
proof -
  from assms have s: "shape b = shape a" and la: "length (data a) = prod_list (shape a)"
    and lb: "length (data b) = prod_list (shape b)"
    by (simp_all add: same_shape_def)
  from lb s have "broadcast_to ar (shape a) b = floats ar b"
    using broadcast_to_same [of b ar] by simp
  with la show ?thesis
    by (simp add: np_map2_def s broadcast_shape_same broadcast_to_same)
qed

lemma same_shape_length: "same_shape a b \<Longrightarrow> length (data a) = length (data b)"
  by (simp add: same_shape_def)

lemma same_shape_scalar [simp]: "same_shape (np_scalar u) (np_scalar v)"
  by (simp add: same_shape_def np_scalar_def)

lemma floats_scalar [simp]: "floats ar (np_scalar v) = [v]"
  by (simp add: floats_def np_scalar_def)


subsection \<open>Running sums\<close>

lemma wrap64_id: "- (2 ^ 63) \<le> i \<Longrightarrow> i < 2 ^ 63 \<Longrightarrow> wrap64 i = i"
  by (simp add: wrap64_def)

lemma add_of_exact_float [simp]: "add_of exact Float64 a b = a + b"
  by (simp add: add_of_def)

lemma sub_of_exact_float [simp]: "sub_of exact Float64 a b = a - b"
  by (simp add: sub_of_def)

lemma add_of_int:
  assumes "a \<in> \<int>" "b \<in> \<int>" "- (2 ^ 63) \<le> a + b" "a + b < 2 ^ 63"
  shows "add_of ar Int64 a b = a + b"
proof -
  from assms(1,2) obtain i j where ij: "a = of_int i" "b = of_int j"
    by (elim Ints_cases)
  with assms(3,4) have "- (2 ^ 63) \<le> i + j" "i + j < 2 ^ 63"
    by (simp_all flip: of_int_add)
  then have "wrap64 (i + j) = i + j"
    by (rule wrap64_id)
  with ij show ?thesis
    by (simp add: add_of_def)
qed

lemma sub_of_int:
  assumes "a \<in> \<int>" "b \<in> \<int>" "- (2 ^ 63) \<le> a - b" "a - b < 2 ^ 63"
  shows "sub_of ar Int64 a b = a - b"
proof -
  from assms(1,2) obtain i j where ij: "a = of_int i" "b = of_int j"
    by (elim Ints_cases)
  with assms(3,4) have "- (2 ^ 63) \<le> i - j" "i - j < 2 ^ 63"
    by (simp_all flip: of_int_diff)
  then have "wrap64 (i - j) = i - j"
    by (rule wrap64_id)
  with ij show ?thesis
    by (simp add: sub_of_def)
qed

lemma length_accumulate_from: "length (accumulate_from add a vs) = length vs"
  by (induction vs arbitrary: a) simp_all

lemma length_add_accumulate [simp]: "length (add_accumulate ar a) = length (data a)"
  by (simp add: add_accumulate_def length_accumulate_from split: list.splits)

lemma nth_accumulate_float:
  "i < length vs \<Longrightarrow>
     accumulate_from (add_of exact Float64) a vs ! i = a + sum_list (take (Suc i) vs)"
proof (induction vs arbitrary: a i)
  case Nil
  then show ?case by simp
next
  case (Cons v vs)
  show ?case
  proof (cases i)
    case 0
    then show ?thesis by simp
  next
    case (Suc k)
    with Cons.prems have "k < length vs" by simp
    from Cons.IH [OF this, of "a + v"] Suc show ?thesis by simp
  qed
qed

lemma sum_list_nonneg_ints:
  "\<forall>v \<in> set vs. v \<in> \<int> \<and> (0::real) \<le> v \<Longrightarrow> sum_list vs \<in> \<int> \<and> 0 \<le> sum_list vs"
  by (induction vs) auto

lemma sum_list_take_le:
  "\<forall>v \<in> set vs. (0::real) \<le> v \<Longrightarrow> sum_list (take i vs) \<le> sum_list vs"
proof -
  assume nn: "\<forall>v \<in> set vs. (0::real) \<le> v"
  have "sum_list vs = sum_list (take i vs) + sum_list (drop i vs)"
    by (metis append_take_drop_id sum_list_append)
  moreover from nn have "0 \<le> sum_list (drop i vs)"
    by (intro sum_list_nonneg) (auto dest: in_set_dropD)
  ultimately show ?thesis
    by simp
qed

lemma nth_accumulate_int:
  assumes "a \<in> \<int>" "0 \<le> a" "\<forall>v \<in> set vs. v \<in> \<int> \<and> 0 \<le> v" "a + sum_list vs < 2 ^ 63"
    "i < length vs"
  shows "accumulate_from (add_of ar Int64) a vs ! i = a + sum_list (take (Suc i) vs)"
  using assms
proof (induction vs arbitrary: a i)
  case Nil
  then show ?case by simp
next
  case (Cons v vs)
  from Cons.prems have v: "v \<in> \<int>" "0 \<le> v" and rest: "\<forall>w \<in> set vs. w \<in> \<int> \<and> 0 \<le> w"
    by simp_all
  from rest have "0 \<le> sum_list vs"
    using sum_list_nonneg_ints by blast
  with Cons.prems v have "- (2 ^ 63) \<le> a + v" "a + v < 2 ^ 63"
    by simp_all
  with Cons.prems(1) v(1) have step: "add_of ar Int64 a v = a + v"
    by (intro add_of_int)
  show ?case
  proof (cases i)
    case 0
    with step show ?thesis by simp
  next
    case (Suc k)
    with Cons.prems have k: "k < length vs" by simp
    from Cons.prems v have "a + v \<in> \<int>" "0 \<le> a + v" "a + v + sum_list vs < 2 ^ 63"
      by simp_all
    from Cons.IH [OF this(1,2) rest this(3) k] Suc step show ?thesis
      by simp
  qed
qed

lemma nth_add_accumulate:
  assumes "no_overflow a" "i < length (data a)"
  shows "add_accumulate exact a ! i = sum_list (take (Suc i) (data a))"
proof (cases "data a")
  case Nil
  with assms show ?thesis by simp
next
  case (Cons v vs)
  show ?thesis
  proof (cases i)
    case 0
    with Cons show ?thesis
      by (simp add: add_accumulate_def)
  next
    case (Suc k)
    with assms Cons have k: "k < length vs"
      by simp
    show ?thesis
    proof (cases "dtype a")
      case Float64
      with Cons Suc k show ?thesis
        by (simp add: add_accumulate_def nth_accumulate_float)
    next
      case Int64
      with assms(1) Cons have "v \<in> \<int>" "0 \<le> v" "\<forall>w \<in> set vs. w \<in> \<int> \<and> 0 \<le> w"
        "v + sum_list vs < 2 ^ 63"
        by (simp_all add: no_overflow_def)
      from nth_accumulate_int [OF this k] Cons Suc Int64 show ?thesis
        by (simp add: add_accumulate_def)
    qed
  qed
qed

lemma sum_list_floor:
  "\<forall>v \<in> set vs. v \<in> \<int> \<Longrightarrow> real_of_int (sum_list (map floor vs)) = sum_list vs"
  by (induction vs) (auto elim: Ints_cases)

lemma add_reduce_exact:
  assumes "no_overflow a"
  shows "add_reduce exact a = sum_list (data a)"
proof (cases "dtype a")
  case Float64
  then show ?thesis
    by (simp add: add_reduce_def)
next
  case Int64
  with assms have ints: "\<forall>v \<in> set (data a). v \<in> \<int> \<and> 0 \<le> v" and less: "sum_list (data a) < 2 ^ 63"
    by (simp_all add: no_overflow_def)
  from ints have eq: "real_of_int (sum_list (map floor (data a))) = sum_list (data a)"
    by (intro sum_list_floor) blast
  from ints have "0 \<le> sum_list (data a)"
    using sum_list_nonneg_ints by blast
  with eq less have "real_of_int (sum_list (map floor (data a))) < 2 ^ 63"
    "0 \<le> real_of_int (sum_list (map floor (data a)))"
    by simp_all
  then have "sum_list (map floor (data a)) < 2 ^ 63" "0 \<le> sum_list (map floor (data a))"
    by simp_all
  then have "wrap64 (sum_list (map floor (data a))) = sum_list (map floor (data a))"
    by (intro wrap64_id) simp_all
  with eq Int64 show ?thesis
    by (simp add: add_reduce_def)
qed

lemma sum_list_take_Suc:
  "i < length vs \<Longrightarrow> sum_list (take (Suc i) vs) = sum_list (take i vs) + (vs ! i :: real)"
  by (simp add: take_Suc_conv_app_nth)


subsection \<open>Edges and centres\<close>

lemma array1_fields [simp]:
  "dtype (array1 t vs) = t" "shape (array1 t vs) = [length vs]" "data (array1 t vs) = vs"
  by (simp_all add: array1_def)

lemma length_xedge: "length (data (get_xedge_array ar s)) = ncol s + 1"
  by (simp add: get_xedge_array_def ncol_def)

lemma length_yedge: "length (data (get_yedge_array ar s)) = nrow s + 1"
  by (simp add: get_yedge_array_def nrow_def Let_def)

lemma length_xcenter: "length (data (get_xcenter_array ar s)) = ncol s"
  by (simp add: get_xcenter_array_def ncol_def Let_def)

lemma length_ycenter: "length (data (get_ycenter_array ar s)) = nrow s"
  by (simp add: get_ycenter_array_def nrow_def Let_def)

lemma dtype_edges [simp]:
  "dtype (get_xedge_array ar s) = Float64" "dtype (get_yedge_array ar s) = dtype (delc s)"
  "dtype (get_xcenter_array ar s) = Float64" "dtype (get_ycenter_array ar s) = Float64"
  by (simp_all add: get_xedge_array_def get_yedge_array_def get_xcenter_array_def
      get_ycenter_array_def Let_def)

lemma nth_xedge:
  assumes "no_overflow (delr s)" "i \<le> ncol s"
  shows "data (get_xedge_array exact s) ! i = sum_list (take i (data (delr s)))"
proof (cases i)
  case 0
  then show ?thesis
    by (simp add: get_xedge_array_def)
next
  case (Suc k)
  with assms have "k < length (data (delr s))"
    by (simp add: ncol_def)
  with Suc assms(1) show ?thesis
    by (simp add: get_xedge_array_def nth_add_accumulate)
qed

lemma nth_xcenter:
  assumes "no_overflow (delr s)" "i < ncol s"
  shows "data (get_xcenter_array exact s) ! i
     = sum_list (take (Suc i) (data (delr s))) - data (delr s) ! i / 2"
  using assms by (simp add: get_xcenter_array_def ncol_def nth_add_accumulate Let_def)

lemma partial_sum_int:
  assumes "\<forall>v \<in> set vs. v \<in> \<int> \<and> (0::real) \<le> v"
  shows "sum_list (take i vs) \<in> \<int> \<and> 0 \<le> sum_list (take i vs)"
  using assms by (intro sum_list_nonneg_ints) (auto dest: in_set_takeD)

lemma total_minus_partial:
  assumes "no_overflow a"
  shows "sub_of exact (dtype a) (sum_list (data a)) (sum_list (take i (data a)))
     = sum_list (data a) - sum_list (take i (data a))"
proof (cases "dtype a")
  case Float64
  then show ?thesis by simp
next
  case Int64
  with assms have ints: "\<forall>v \<in> set (data a). v \<in> \<int> \<and> 0 \<le> v" and less: "sum_list (data a) < 2 ^ 63"
    by (simp_all add: no_overflow_def)
  from ints have t: "sum_list (data a) \<in> \<int>" "0 \<le> sum_list (data a)"
    using sum_list_nonneg_ints by blast+
  from ints have p: "sum_list (take i (data a)) \<in> \<int>" "0 \<le> sum_list (take i (data a))"
    using partial_sum_int by blast+
  from ints have le: "sum_list (take i (data a)) \<le> sum_list (data a)"
    by (intro sum_list_take_le) blast
  from le p(2) less have "- (2 ^ 63) \<le> sum_list (data a) - sum_list (take i (data a))"
    "sum_list (data a) - sum_list (take i (data a)) < 2 ^ 63"
    by simp_all
  with t(1) p(1) Int64 show ?thesis
    by (simp add: sub_of_int)
qed

lemma nth_yedge:
  assumes "no_overflow (delc s)" "i \<le> nrow s"
  shows "data (get_yedge_array exact s) ! i
     = sum_list (data (delc s)) - sum_list (take i (data (delc s)))"
proof (cases i)
  case 0
  with assms(1) show ?thesis
    by (simp add: get_yedge_array_def Let_def add_reduce_exact)
next
  case (Suc k)
  with assms have k: "k < length (data (delc s))"
    by (simp add: nrow_def)
  with Suc assms(1) show ?thesis
    by (simp add: get_yedge_array_def Let_def add_reduce_exact nth_add_accumulate
        total_minus_partial)
qed

lemma nth_ycenter:
  assumes "no_overflow (delc s)" "i < nrow s"
  shows "data (get_ycenter_array exact s) ! i
     = sum_list (data (delc s)) - sum_list (take (Suc i) (data (delc s)))
       + data (delc s) ! i / 2"
  using assms
  by (simp add: get_ycenter_array_def nrow_def nth_add_accumulate Let_def add_reduce_exact)

subsection \<open>Units\<close>

lemma model_length_units_code:
  "model_length_units s =
     (if lenuni s = 0 then Inr ''undefined'' else if lenuni s = 1 then Inr ''feet''
      else if lenuni s = 2 then Inr ''meters'' else if lenuni s = 3 then Inr ''centimeters''
      else Inl KeyError)"
  by (simp add: model_length_units_def lenuni_text_def)

subsection \<open>The multiplier depends on the unit attributes only\<close>

lemma parse_units_cong:
  "p_proj4_str s' = p_proj4_str s \<Longrightarrow> parse_units_from_proj4 ext s' = parse_units_from_proj4 ext s"
  by (simp add: parse_units_from_proj4_def)

lemma units_cong:
  assumes "p_units s' = p_units s" "p_proj4_str s' = p_proj4_str s"
   "supported_units s' = supported_units s"
  shows "units ext s' = units ext s"
  by (cases "p_units s") (simp_all add: units_def assms parse_units_cong [OF assms(2)])

lemma model_length_units_cong:
  "lenuni s' = lenuni s \<Longrightarrow> model_length_units s' = model_length_units s"
  by (simp add: model_length_units_def)

lemma length_multiplier_cong:
  assumes "p_length_multiplier s' = p_length_multiplier s" "lenuni s' = lenuni s"
    "p_units s' = p_units s" "p_proj4_str s' = p_proj4_str s"
    "supported_units s' = supported_units s"
  shows "length_multiplier ext s' = length_multiplier ext s"
proof -
  have u: "units ext s' = units ext s"
    by (rule units_cong) (rule assms)+
  have m: "model_length_units s' = model_length_units s"
    by (rule model_length_units_cong) (rule assms)
  show ?thesis
    by (simp only: length_multiplier_def u m assms(1))
qed

lemma multiplier_operand_cong:
  assumes "p_length_multiplier s' = p_length_multiplier s" "lenuni s' = lenuni s"
    "p_units s' = p_units s" "p_proj4_str s' = p_proj4_str s"
    "supported_units s' = supported_units s"
  shows "multiplier_operand ext s' = multiplier_operand ext s"
  unfolding multiplier_operand_def
  by (simp only: length_multiplier_cong [OF assms])

lemma length_multiplier_reset [simp]:
  "length_multiplier ext (reset s) = length_multiplier ext s"
  by (rule length_multiplier_cong) (simp_all add: reset_def)

lemma length_multiplier_corner [simp]:
  "length_multiplier ext (s\<lparr>xul := a\<rparr>) = length_multiplier ext s"
  "length_multiplier ext (s\<lparr>yul := a\<rparr>) = length_multiplier ext s"
  "length_multiplier ext (s\<lparr>xll := a\<rparr>) = length_multiplier ext s"
  "length_multiplier ext (s\<lparr>yll := a\<rparr>) = length_multiplier ext s"
  by (rule length_multiplier_cong; simp)+

lemma multiplier_operand_reset [simp]:
  "multiplier_operand ext (reset s) = multiplier_operand ext s"
  by (rule multiplier_operand_cong) (simp_all add: reset_def)

lemma multiplier_operand_corner [simp]:
  "multiplier_operand ext (s\<lparr>xul := a\<rparr>) = multiplier_operand ext s"
  "multiplier_operand ext (s\<lparr>yul := a\<rparr>) = multiplier_operand ext s"
  "multiplier_operand ext (s\<lparr>xll := a\<rparr>) = multiplier_operand ext s"
  "multiplier_operand ext (s\<lparr>yll := a\<rparr>) = multiplier_operand ext s"
  by (rule multiplier_operand_cong; simp)+

lemma reset_fields [simp]:
  "xul (reset s) = xul s" "yul (reset s) = yul s" "xll (reset s) = xll s"
  "yll (reset s) = yll s" "origin_loc (reset s) = origin_loc s"
  "rotation (reset s) = rotation s" "delr (reset s) = delr s" "delc (reset s) = delc s"
  "diagnostics (reset s) = diagnostics s"
  "p_xgrid (reset s) = None" "p_ygrid (reset s) = None" "p_xcentergrid (reset s) = None"
  "p_ycentergrid (reset s) = None" "p_vertices (reset s) = None"
  by (simp_all add: reset_def)

lemma multiplier_operand_Some:
  "length_multiplier ext s = Inr (Some lm) \<Longrightarrow> multiplier_operand ext s = Inr lm"
  by (simp add: multiplier_operand_def bindE_Inr number_operand_def)

lemma assign_corner:
  "assign_xul v s = Inr (reset (s\<lparr>xul := Some v\<rparr>))"
  "assign_yul v s = Inr (reset (s\<lparr>yul := Some v\<rparr>))"
  "assign_xll v s = Inr (reset (s\<lparr>xll := Some v\<rparr>))"
  "assign_yll v s = Inr (reset (s\<lparr>yll := Some v\<rparr>))"
  by (simp_all add: assign_xul_def assign_yul_def assign_xll_def assign_yll_def
      object_setattr_def getter_only_properties_def bindE_Inr)

lemma yedge0_total: "yedge0 ar s = total_length ar s"
  by (simp add: yedge0_def total_length_def get_yedge_array_def Let_def)

lemma theta_reset [simp]: "theta ar (reset s) = theta ar s"
  by (simp add: theta_def)

lemma theta_corner [simp]:
  "theta ar (s\<lparr>xul := a\<rparr>) = theta ar s" "theta ar (s\<lparr>yul := a\<rparr>) = theta ar s"
  "theta ar (s\<lparr>xll := a\<rparr>) = theta ar s" "theta ar (s\<lparr>yll := a\<rparr>) = theta ar s"
  by (simp_all add: theta_def)

lemma total_length_cong: "delc s' = delc s \<Longrightarrow> total_length ar s' = total_length ar s"
  by (simp add: total_length_def)

lemma yedge0_reset [simp]: "yedge0 ar (reset s) = yedge0 ar s"
  by (simp add: yedge0_total total_length_def)

lemma yedge0_corner [simp]:
  "yedge0 ar (s\<lparr>xul := a\<rparr>) = yedge0 ar s" "yedge0 ar (s\<lparr>yul := a\<rparr>) = yedge0 ar s"
  "yedge0 ar (s\<lparr>xll := a\<rparr>) = yedge0 ar s" "yedge0 ar (s\<lparr>yll := a\<rparr>) = yedge0 ar s"
  by (simp_all add: yedge0_total total_length_def)

lemma offsets:
  "fmul ar (fmul ar (np_sin ar (theta ar s)) (yedge0 ar s)) lm
     = x_offset ar (rotation s) (delc s) lm"
  "fmul ar (fmul ar (np_cos ar (theta ar s)) (yedge0 ar s)) lm
     = y_offset ar (rotation s) (delc s) lm"
  by (simp_all add: x_offset_def y_offset_def theta_def yedge0_total total_length_def)

lemma set_origin_ul:
  assumes loc: "origin_loc s = ''ul''" and lm: "multiplier_operand ext s = Inr lm"
  shows "set_origin ar ext s a b c d =
     Inr (reset (s\<lparr>xul := Some (or_zero a), yul := Some (or_zero b),
                    xll := Some (fsub ar (or_zero a) (x_offset ar (rotation s) (delc s) lm)),
                    yll := Some (fsub ar (or_zero b) (y_offset ar (rotation s) (delc s) lm))\<rparr>))"
proof -
  define s1 where "s1 = reset (s\<lparr>xul := Some (or_zero a)\<rparr>)"
  define s2 where "s2 = reset (s1\<lparr>yul := Some (or_zero b)\<rparr>)"
  define s3 where "s3 = reset (s2\<lparr>xll := Some (fsub ar (or_zero a) (x_offset ar (rotation s) (delc s) lm))\<rparr>)"
  define s4 where "s4 = reset (s3\<lparr>yll := Some (fsub ar (or_zero b) (y_offset ar (rotation s) (delc s) lm))\<rparr>)"
  have not_ll: "origin_loc s \<noteq> ''ll''"
    by (simp add: loc)
  have a1: "assign_xul (or_zero a) s = Inr s1"
    by (simp add: assign_corner s1_def)
  have a2: "assign_yul (or_zero b) s1 = Inr s2"
    by (simp add: assign_corner s2_def)
  have r2: "xul s2 = Some (or_zero a)" "multiplier_operand ext s2 = Inr lm"
    "fmul ar (fmul ar (np_sin ar (theta ar s2)) (yedge0 ar s2)) lm = x_offset ar (rotation s) (delc s) lm"
    by (simp_all add: s2_def s1_def lm offsets)
  have a3: "assign_xll (fsub ar (or_zero a) (x_offset ar (rotation s) (delc s) lm)) s2 = Inr s3"
    by (simp add: assign_corner s3_def)
  have r3: "yul s3 = Some (or_zero b)" "multiplier_operand ext s3 = Inr lm"
    "fmul ar (fmul ar (np_cos ar (theta ar s3)) (yedge0 ar s3)) lm = y_offset ar (rotation s) (delc s) lm"
    by (simp_all add: s3_def s2_def s1_def lm offsets)
  have a4: "assign_yll (fsub ar (or_zero b) (y_offset ar (rotation s) (delc s) lm)) s3 = Inr s4"
    by (simp add: assign_corner s4_def)
  have fin: "reset s4 =
     reset (s\<lparr>xul := Some (or_zero a), yul := Some (or_zero b),
                xll := Some (fsub ar (or_zero a) (x_offset ar (rotation s) (delc s) lm)),
                yll := Some (fsub ar (or_zero b) (y_offset ar (rotation s) (delc s) lm))\<rparr>)"
    by (simp add: s4_def s3_def s2_def s1_def reset_def)
  show ?thesis
    by (simp add: set_origin_def not_ll loc bindE_Inr a1 a2 r2 a3 r3 a4 number_operand_def fin)
qed

lemma set_origin_ll:
  assumes loc: "origin_loc s = ''ll''" and lm: "multiplier_operand ext s = Inr lm"
  shows "set_origin ar ext s a b c d =
     Inr (reset (s\<lparr>xll := Some (or_zero c), yll := Some (or_zero d),
                    xul := Some (fadd ar (or_zero c) (x_offset ar (rotation s) (delc s) lm)),
                    yul := Some (fadd ar (or_zero d) (y_offset ar (rotation s) (delc s) lm))\<rparr>))"
proof -
  define s1 where "s1 = reset (s\<lparr>xll := Some (or_zero c)\<rparr>)"
  define s2 where "s2 = reset (s1\<lparr>yll := Some (or_zero d)\<rparr>)"
  define s3 where "s3 = reset (s2\<lparr>xul := Some (fadd ar (or_zero c) (x_offset ar (rotation s) (delc s) lm))\<rparr>)"
  define s4 where "s4 = reset (s3\<lparr>yul := Some (fadd ar (or_zero d) (y_offset ar (rotation s) (delc s) lm))\<rparr>)"
  have a1: "assign_xll (or_zero c) s = Inr s1"
    by (simp add: assign_corner s1_def)
  have a2: "assign_yll (or_zero d) s1 = Inr s2"
    by (simp add: assign_corner s2_def)
  have r2: "xll s2 = Some (or_zero c)" "multiplier_operand ext s2 = Inr lm"
    "fmul ar (fmul ar (np_sin ar (theta ar s2)) (yedge0 ar s2)) lm = x_offset ar (rotation s) (delc s) lm"
    by (simp_all add: s2_def s1_def lm offsets)
  have a3: "assign_xul (fadd ar (or_zero c) (x_offset ar (rotation s) (delc s) lm)) s2 = Inr s3"
    by (simp add: assign_corner s3_def)
  have r3: "yll s3 = Some (or_zero d)" "multiplier_operand ext s3 = Inr lm"
    "fmul ar (fmul ar (np_cos ar (theta ar s3)) (yedge0 ar s3)) lm = y_offset ar (rotation s) (delc s) lm"
    by (simp_all add: s3_def s2_def s1_def lm offsets)
  have a4: "assign_yul (fadd ar (or_zero d) (y_offset ar (rotation s) (delc s) lm)) s3 = Inr s4"
    by (simp add: assign_corner s4_def)
  have not_ul: "origin_loc s4 \<noteq> ''ul''"
    by (simp add: s4_def s3_def s2_def s1_def loc)
  have fin: "reset s4 =
     reset (s\<lparr>xll := Some (or_zero c), yll := Some (or_zero d),
                xul := Some (fadd ar (or_zero c) (x_offset ar (rotation s) (delc s) lm)),
                yul := Some (fadd ar (or_zero d) (y_offset ar (rotation s) (delc s) lm))\<rparr>)"
    by (simp add: s4_def s3_def s2_def s1_def reset_def)
  show ?thesis
    by (simp add: set_origin_def not_ul loc bindE_Inr a1 a2 r2 a3 r3 a4 number_operand_def fin)
qed

lemma set_origin_raises:
  assumes loc: "origin_loc s = ''ul'' \<or> origin_loc s = ''ll''"
    and lm: "multiplier_operand ext s = Inl e"
  shows "set_origin ar ext s a b c d = Inl e"
proof -
  from loc show ?thesis
  proof
    assume "origin_loc s = ''ul''"
    then show ?thesis
      by (simp add: set_origin_def bindE_Inr bindE_Inl assign_corner number_operand_def lm)
  next
    assume "origin_loc s = ''ll''"
    then show ?thesis
      by (simp add: set_origin_def bindE_Inr bindE_Inl assign_corner number_operand_def lm)
  qed
qed

lemma set_origin_other:
  "origin_loc s \<noteq> ''ul'' \<Longrightarrow> origin_loc s \<noteq> ''ll'' \<Longrightarrow>
     set_origin ar ext s a b c d = Inr (reset s)"
  by (simp add: set_origin_def bindE_Inr)


subsection \<open>The transform and the rotation\<close>

lemma np_map_fields [simp]:
  "dtype (np_map f a) = dtype a" "shape (np_map f a) = shape a"
  "data (np_map f a) = map f (data a)"
  by (simp_all add: np_map_def)

lemma np_map_scalar: "np_map f (np_scalar v) = np_scalar (f v)"
  by (simp add: np_map_def np_scalar_def)

lemma same_shape_np_map: "same_shape (np_map f x) (np_map g y) = same_shape x y"
  by (simp add: same_shape_def)

lemma in_place_float:
  "dtype a = Float64 \<Longrightarrow> np_imul ar a m = Inr (np_map (\<lambda>v. fmul ar v m) a)"
  "dtype a = Float64 \<Longrightarrow> np_iadd ar a m = Inr (np_map (\<lambda>v. fadd ar v m) a)"
  by (simp_all add: np_imul_def np_iadd_def)

lemma in_place_int:
  "dtype a = Int64 \<Longrightarrow> \<exists>msg. np_imul ar a m = Inl (TypeError msg)"
  "dtype a = Int64 \<Longrightarrow> \<exists>msg. np_iadd ar a m = Inl (TypeError msg)"
  by (simp_all add: np_imul_def np_iadd_def)

lemma transform_eq:
  assumes so: "set_origin ar ext s (xul s) (yul s) (xll s) (yll s) = Inr s'"
    and lm: "multiplier_operand ext s' = Inr lm"
    and xo: "xll s' = Some xo" and yo: "yll s' = Some yo"
    and fx: "dtype x = Float64" and fy: "dtype y = Float64"
  shows "transform ar ext s x y =
     bindE (rotate_xy ar (np_map (\<lambda>v. fadd ar v xo) (np_map (\<lambda>v. fmul ar v lm) x))
                         (np_map (\<lambda>v. fadd ar v yo) (np_map (\<lambda>v. fmul ar v lm) y))
                         (rotation s') xo yo)
       (\<lambda>xy. Inr (xy, s'))"
  by (simp add: transform_def so lm xo yo fx fy bindE_Inr number_operand_def in_place_float)

lemma transform_int:
  assumes so: "set_origin ar ext s (xul s) (yul s) (xll s) (yll s) = Inr s'"
    and lm: "multiplier_operand ext s' = Inr lm"
    and int: "dtype x = Int64 \<or> dtype y = Int64"
  shows "\<exists>msg. transform ar ext s x y = Inl (TypeError msg)"
proof (cases "dtype x")
  case Int64
  then show ?thesis
    by (simp add: transform_def so lm bindE_Inr bindE_Inl np_imul_def)
next
  case Float64
  with int have "dtype y = Int64"
    by simp
  with Float64 show ?thesis
    by (simp add: transform_def so lm bindE_Inr bindE_Inl np_imul_def)
qed

lemma map2_first: "length xs = length ys \<Longrightarrow> map2 (\<lambda>x y. x) xs ys = xs"
  by (induction xs ys rule: list_induct2) simp_all

lemma map2_second: "length xs = length ys \<Longrightarrow> map2 (\<lambda>x y. y) xs ys = ys"
  by (induction xs ys rule: list_induct2) simp_all

lemma rotate_xy_data:
  assumes "same_shape x y"
  shows "rotate_xy ar x y t xo yo =
     Inr (\<lparr>dtype = Float64, shape = shape x,
           data = map2 (\<lambda>xv yv. fsub ar (fadd ar xo (fmul ar (np_cos ar (fdiv ar (fmul ar t (np_pi ar)) 180))
                                                      (fsub ar xv xo)))
                                  (fmul ar (np_sin ar (fdiv ar (fmul ar t (np_pi ar)) 180)) (fsub ar yv yo)))
                    (floats ar x) (floats ar y)\<rparr>,
          \<lparr>dtype = Float64, shape = shape x,
           data = map2 (\<lambda>xv yv. fadd ar (fadd ar yo (fmul ar (np_sin ar (fdiv ar (fmul ar t (np_pi ar)) 180))
                                                      (fsub ar xv xo)))
                                  (fmul ar (np_cos ar (fdiv ar (fmul ar t (np_pi ar)) 180)) (fsub ar yv yo)))
                    (floats ar x) (floats ar y)\<rparr>)"
  by (simp add: rotate_xy_def np_map2_same [OF assms] bindE_Inr Let_def)

lemma rotate_xy_exact:
  assumes "same_shape x y"
  shows "rotate_xy exact x y t xo yo =
     Inr (\<lparr>dtype = Float64, shape = shape x,
           data = map2 (\<lambda>xv yv. xo + cos (t * pi / 180) * (xv - xo)
                                  - sin (t * pi / 180) * (yv - yo)) (data x) (data y)\<rparr>,
          \<lparr>dtype = Float64, shape = shape x,
           data = map2 (\<lambda>xv yv. yo + sin (t * pi / 180) * (xv - xo)
                                  + cos (t * pi / 180) * (yv - yo)) (data x) (data y)\<rparr>)"
  by (simp add: rotate_xy_data [OF assms])

lemma rotate_xy_zero:
  assumes "same_shape x y"
  shows "rotate_xy exact x y 0 xo yo = Inr (x\<lparr>dtype := Float64\<rparr>, y\<lparr>dtype := Float64\<rparr>)"
  using assms
  by (simp add: rotate_xy_exact [OF assms] map2_first map2_second same_shape_length)
     (simp add: same_shape_def)

lemma rotate_xy_returns:
  "same_shape x y \<Longrightarrow> \<exists>x' y'. rotate_xy ar x y t xo yo = Inr (x', y')"
  by (simp add: rotate_xy_data)

lemma rotate_xy_scalar:
  "rotate_xy exact (np_scalar u) (np_scalar v) t xo yo =
     Inr (np_scalar (xo + cos (t * pi / 180) * (u - xo) - sin (t * pi / 180) * (v - yo)),
          np_scalar (yo + sin (t * pi / 180) * (u - xo) + cos (t * pi / 180) * (v - yo)))"
  by (simp add: rotate_xy_exact) (simp add: np_scalar_def)

lemma theta_rotation:
  "sin (theta exact s) = - sin (rotation s * pi / 180)"
  "cos (theta exact s) = cos (rotation s * pi / 180)"
  by (simp_all add: theta_def)

lemma offsets_exact:
  "x_offset exact r dc lm = - sin (r * pi / 180) * add_reduce exact dc * lm"
  "y_offset exact r dc lm = cos (r * pi / 180) * add_reduce exact dc * lm"
  by (simp_all add: x_offset_def y_offset_def)

subsection \<open>Rotation\<close>

lemma pythagoras_scaled: "a * (cos t * cos t) + a * (sin t * sin t) = (a::real)"
proof -
  have "a * (cos t * cos t) + a * (sin t * sin t) = a * (cos t * cos t + sin t * sin t)"
    by (simp only: distrib_left)
  then show ?thesis by simp
qed

lemma rot_back_x:
  "xo + cos t * (cos t * a - sin t * b) + sin t * (sin t * a + cos t * b) = xo + (a::real)"
  by (simp add: algebra_simps pythagoras_scaled)

lemma rot_back_y:
  "yo - sin t * (cos t * a - sin t * b) + cos t * (sin t * a + cos t * b) = yo + (b::real)"
  by (simp add: algebra_simps pythagoras_scaled)

lemma map2_rot_back_x:
  "length (xs::real list) = length ys \<Longrightarrow>
   map2 (\<lambda>xv yv. xo + cos t * (xv - xo) + sin t * (yv - yo))
     (map2 (\<lambda>xv yv. xo + cos t * (xv - xo) - sin t * (yv - yo)) xs ys)
     (map2 (\<lambda>xv yv. yo + sin t * (xv - xo) + cos t * (yv - yo)) xs ys) = xs"
  by (induction xs ys rule: list_induct2) (simp_all add: rot_back_x)

lemma map2_rot_back_y:
  "length (xs::real list) = length ys \<Longrightarrow>
   map2 (\<lambda>xv yv. yo - sin t * (xv - xo) + cos t * (yv - yo))
     (map2 (\<lambda>xv yv. xo + cos t * (xv - xo) - sin t * (yv - yo)) xs ys)
     (map2 (\<lambda>xv yv. yo + sin t * (xv - xo) + cos t * (yv - yo)) xs ys) = ys"
  by (induction xs ys rule: list_induct2) (simp_all add: rot_back_y)


subsection \<open>Assigning the rotation, placing the frame\<close>

lemma multiplier_operand_other [simp]:
  "multiplier_operand ext (emit d s) = multiplier_operand ext s"
  "multiplier_operand ext (s\<lparr>origin_loc := l\<rparr>) = multiplier_operand ext s"
  "multiplier_operand ext (s\<lparr>rotation := r\<rparr>) = multiplier_operand ext s"
  "multiplier_operand ext (s\<lparr>diagnostics := ds\<rparr>) = multiplier_operand ext s"
  by (rule multiplier_operand_cong; simp add: emit_def)+

lemma length_multiplier_other [simp]:
  "length_multiplier ext (emit d s) = length_multiplier ext s"
  "length_multiplier ext (s\<lparr>origin_loc := l\<rparr>) = length_multiplier ext s"
  "length_multiplier ext (s\<lparr>rotation := r\<rparr>) = length_multiplier ext s"
  "length_multiplier ext (s\<lparr>diagnostics := ds\<rparr>) = length_multiplier ext s"
  by (rule length_multiplier_cong; simp add: emit_def)+

lemma emit_rotation_warning:
  "(if r \<noteq> 0 then emit (Warned rotation_msg) s else s)
     = s\<lparr>diagnostics := diagnostics s @ rotation_warning r\<rparr>"
  by (simp add: emit_def rotation_warning_def)

lemma setattr_rotation_unfold:
  "setattr ar ext (Assign_rotation r) s =
     bindE (object_setattr ''rotation'' (\<lambda>s. s\<lparr>rotation := r\<rparr>)
              (s\<lparr>diagnostics := diagnostics s @ rotation_warning r\<rparr>)) (\<lambda>s.
     bindE (set_origin ar ext s (xul s) (yul s) (xll s) (yll s)) (\<lambda>s.
     Inr (reset s)))"
  by (simp only: setattr.simps Let_def emit_rotation_warning)

lemma store_rotation:
  "object_setattr ''rotation'' (\<lambda>s. s\<lparr>rotation := r\<rparr>) s = Inr (s\<lparr>rotation := r\<rparr>)"
  by (simp add: object_setattr_def getter_only_properties_def)

lemma setattr_rotation_ul:
  assumes loc: "origin_loc s = ''ul''" and lm: "multiplier_operand ext s = Inr lm"
  shows "setattr ar ext (Assign_rotation r) s =
     Inr (reset (s\<lparr>diagnostics := diagnostics s @ rotation_warning r, rotation := r,
                    xul := Some (or_zero (xul s)), yul := Some (or_zero (yul s)),
                    xll := Some (fsub ar (or_zero (xul s)) (x_offset ar r (delc s) lm)),
                    yll := Some (fsub ar (or_zero (yul s)) (y_offset ar r (delc s) lm))\<rparr>))"
proof -
  define s1 where "s1 = s\<lparr>diagnostics := diagnostics s @ rotation_warning r, rotation := r\<rparr>"
  have f: "origin_loc s1 = ''ul''" "multiplier_operand ext s1 = Inr lm"
    by (simp_all add: s1_def loc lm)
  have st: "object_setattr ''rotation'' (\<lambda>s. s\<lparr>rotation := r\<rparr>)
              (s\<lparr>diagnostics := diagnostics s @ rotation_warning r\<rparr>) = Inr s1"
    by (simp add: store_rotation s1_def)
  have "setattr ar ext (Assign_rotation r) s =
      Inr (reset (reset (s1\<lparr>xul := Some (or_zero (xul s1)), yul := Some (or_zero (yul s1)),
                    xll := Some (fsub ar (or_zero (xul s1)) (x_offset ar (rotation s1) (delc s1) lm)),
                    yll := Some (fsub ar (or_zero (yul s1)) (y_offset ar (rotation s1) (delc s1) lm))\<rparr>)))"
    by (simp only: setattr_rotation_unfold st bindE_Inr set_origin_ul [OF f])
  also have "\<dots> = Inr (reset (s\<lparr>diagnostics := diagnostics s @ rotation_warning r, rotation := r,
                    xul := Some (or_zero (xul s)), yul := Some (or_zero (yul s)),
                    xll := Some (fsub ar (or_zero (xul s)) (x_offset ar r (delc s) lm)),
                    yll := Some (fsub ar (or_zero (yul s)) (y_offset ar r (delc s) lm))\<rparr>))"
    by (simp add: s1_def reset_def)
  finally show ?thesis .
qed

lemma setattr_rotation_ll:
  assumes loc: "origin_loc s = ''ll''" and lm: "multiplier_operand ext s = Inr lm"
  shows "setattr ar ext (Assign_rotation r) s =
     Inr (reset (s\<lparr>diagnostics := diagnostics s @ rotation_warning r, rotation := r,
                    xll := Some (or_zero (xll s)), yll := Some (or_zero (yll s)),
                    xul := Some (fadd ar (or_zero (xll s)) (x_offset ar r (delc s) lm)),
                    yul := Some (fadd ar (or_zero (yll s)) (y_offset ar r (delc s) lm))\<rparr>))"
proof -
  define s1 where "s1 = s\<lparr>diagnostics := diagnostics s @ rotation_warning r, rotation := r\<rparr>"
  have f: "origin_loc s1 = ''ll''" "multiplier_operand ext s1 = Inr lm"
    by (simp_all add: s1_def loc lm)
  have st: "object_setattr ''rotation'' (\<lambda>s. s\<lparr>rotation := r\<rparr>)
              (s\<lparr>diagnostics := diagnostics s @ rotation_warning r\<rparr>) = Inr s1"
    by (simp add: store_rotation s1_def)
  have "setattr ar ext (Assign_rotation r) s =
      Inr (reset (reset (s1\<lparr>xll := Some (or_zero (xll s1)), yll := Some (or_zero (yll s1)),
                    xul := Some (fadd ar (or_zero (xll s1)) (x_offset ar (rotation s1) (delc s1) lm)),
                    yul := Some (fadd ar (or_zero (yll s1)) (y_offset ar (rotation s1) (delc s1) lm))\<rparr>)))"
    by (simp only: setattr_rotation_unfold st bindE_Inr set_origin_ll [OF f])
  also have "\<dots> = Inr (reset (s\<lparr>diagnostics := diagnostics s @ rotation_warning r, rotation := r,
                    xll := Some (or_zero (xll s)), yll := Some (or_zero (yll s)),
                    xul := Some (fadd ar (or_zero (xll s)) (x_offset ar r (delc s) lm)),
                    yul := Some (fadd ar (or_zero (yll s)) (y_offset ar r (delc s) lm))\<rparr>))"
    by (simp add: s1_def reset_def)
  finally show ?thesis .
qed

lemma set_spatialreference_ul:
  assumes xl: "xl = None" and ok: "\<not> (yu \<noteq> None \<and> yl \<noteq> None)"
    and lm: "multiplier_operand ext s = Inr lm"
    and xu': "xu' = (if xu = None \<and> yu = None \<and> yl = None then 0 else or_zero xu)"
    and yu': "yu' = (if xu = None \<and> yu = None \<and> yl = None then total_length ar s
                     else or_zero yu)"
  shows "set_spatialreference ar ext s xu yu xl yl r =
     Inr (reset (s\<lparr>diagnostics := diagnostics s @ rotation_warning r @ rotation_warning r,
                    origin_loc := ''ul'', rotation := r,
                    xul := Some xu', yul := Some yu',
                    xll := Some (fsub ar xu' (x_offset ar r (delc s) lm)),
                    yll := Some (fsub ar yu' (y_offset ar r (delc s) lm))\<rparr>))"
proof -
  define s0 where
    "s0 = s\<lparr>diagnostics := diagnostics s @ rotation_warning r, origin_loc := ''ul''\<rparr>"
  define xa where
    "xa = (if xu = None \<and> yu = None \<and> yl = None then Some 0 else xu)"
  define ya where
    "ya = (if xu = None \<and> yu = None \<and> yl = None then Some (total_length ar s) else yu)"
  have args: "or_zero xa = xu'" "or_zero ya = yu'"
    by (simp_all add: xa_def ya_def xu' yu' or_zero_def)
  have total: "total_length ar (s\<lparr>diagnostics := ds\<rparr>) = total_length ar s" for ds
    by (simp add: total_length_def)
  have unfold: "set_spatialreference ar ext s xu yu xl yl r =
      bindE (setattr ar ext (Assign_rotation r) s0) (\<lambda>s. set_origin ar ext s xa ya xl yl)"
    using xl ok
    by (cases xu; cases yu; cases yl)
       (simp_all add: set_spatialreference_def emit_rotation_warning Let_def s0_def xa_def
          ya_def total del: setattr.simps)
  have f0: "origin_loc s0 = ''ul''" "multiplier_operand ext s0 = Inr lm"
    by (simp_all add: s0_def lm)
  define s1 where
    "s1 = reset (s0\<lparr>diagnostics := diagnostics s0 @ rotation_warning r, rotation := r,
                    xul := Some (or_zero (xul s0)), yul := Some (or_zero (yul s0)),
                    xll := Some (fsub ar (or_zero (xul s0)) (x_offset ar r (delc s0) lm)),
                    yll := Some (fsub ar (or_zero (yul s0)) (y_offset ar r (delc s0) lm))\<rparr>)"
  have rot: "setattr ar ext (Assign_rotation r) s0 = Inr s1"
    unfolding s1_def by (rule setattr_rotation_ul [OF f0])
  have f1: "origin_loc s1 = ''ul''" "multiplier_operand ext s1 = Inr lm"
    by (simp_all add: s1_def f0)
  have "set_spatialreference ar ext s xu yu xl yl r =
     Inr (reset (s1\<lparr>xul := Some (or_zero xa), yul := Some (or_zero ya),
                    xll := Some (fsub ar (or_zero xa) (x_offset ar (rotation s1) (delc s1) lm)),
                    yll := Some (fsub ar (or_zero ya) (y_offset ar (rotation s1) (delc s1) lm))\<rparr>))"
    by (simp only: unfold rot bindE_Inr set_origin_ul [OF f1])
  also have "\<dots> =
     Inr (reset (s\<lparr>diagnostics := diagnostics s @ rotation_warning r @ rotation_warning r,
                    origin_loc := ''ul'', rotation := r,
                    xul := Some xu', yul := Some yu',
                    xll := Some (fsub ar xu' (x_offset ar r (delc s) lm)),
                    yll := Some (fsub ar yu' (y_offset ar r (delc s) lm))\<rparr>))"
    by (simp add: args) (simp add: s1_def s0_def reset_def)
  finally show ?thesis .
qed

lemma set_spatialreference_ll:
  assumes xl: "xl \<noteq> None" and xu: "xu = None" and ok: "\<not> (yu \<noteq> None \<and> yl \<noteq> None)"
    and lm: "multiplier_operand ext s = Inr lm"
  shows "set_spatialreference ar ext s xu yu xl yl r =
     Inr (reset (s\<lparr>diagnostics := diagnostics s @ rotation_warning r @ rotation_warning r,
                    origin_loc := ''ll'', rotation := r,
                    xll := Some (or_zero xl), yll := Some (or_zero yl),
                    xul := Some (fadd ar (or_zero xl) (x_offset ar r (delc s) lm)),
                    yul := Some (fadd ar (or_zero yl) (y_offset ar r (delc s) lm))\<rparr>))"
proof -
  define s0 where
    "s0 = s\<lparr>diagnostics := diagnostics s @ rotation_warning r, origin_loc := ''ll''\<rparr>"
  have unfold: "set_spatialreference ar ext s xu yu xl yl r =
      bindE (setattr ar ext (Assign_rotation r) s0) (\<lambda>s. set_origin ar ext s xu yu xl yl)"
    using xl xu ok
    by (cases xl; cases yu; cases yl)
       (simp_all add: set_spatialreference_def emit_rotation_warning Let_def s0_def
          del: setattr.simps)
  have f0: "origin_loc s0 = ''ll''" "multiplier_operand ext s0 = Inr lm"
    by (simp_all add: s0_def lm)
  define s1 where
    "s1 = reset (s0\<lparr>diagnostics := diagnostics s0 @ rotation_warning r, rotation := r,
                    xll := Some (or_zero (xll s0)), yll := Some (or_zero (yll s0)),
                    xul := Some (fadd ar (or_zero (xll s0)) (x_offset ar r (delc s0) lm)),
                    yul := Some (fadd ar (or_zero (yll s0)) (y_offset ar r (delc s0) lm))\<rparr>)"
  have rot: "setattr ar ext (Assign_rotation r) s0 = Inr s1"
    unfolding s1_def by (rule setattr_rotation_ll [OF f0])
  have f1: "origin_loc s1 = ''ll''" "multiplier_operand ext s1 = Inr lm"
    by (simp_all add: s1_def f0)
  have "set_spatialreference ar ext s xu yu xl yl r =
     Inr (reset (s1\<lparr>xll := Some (or_zero xl), yll := Some (or_zero yl),
                    xul := Some (fadd ar (or_zero xl) (x_offset ar (rotation s1) (delc s1) lm)),
                    yul := Some (fadd ar (or_zero yl) (y_offset ar (rotation s1) (delc s1) lm))\<rparr>))"
    by (simp only: unfold rot bindE_Inr set_origin_ll [OF f1])
  also have "\<dots> =
     Inr (reset (s\<lparr>diagnostics := diagnostics s @ rotation_warning r @ rotation_warning r,
                    origin_loc := ''ll'', rotation := r,
                    xll := Some (or_zero xl), yll := Some (or_zero yl),
                    xul := Some (fadd ar (or_zero xl) (x_offset ar r (delc s) lm)),
                    yul := Some (fadd ar (or_zero yl) (y_offset ar r (delc s) lm))\<rparr>))"
    by (simp add: s1_def s0_def reset_def)
  finally show ?thesis .
qed

lemma set_spatialreference_conflict:
  "xu \<noteq> None \<Longrightarrow> xl \<noteq> None \<Longrightarrow>
     set_spatialreference ar ext s xu yu xl yl r = Inl (ValueError both_x_msg)"
  "\<not> (xu \<noteq> None \<and> xl \<noteq> None) \<Longrightarrow> yu \<noteq> None \<Longrightarrow> yl \<noteq> None \<Longrightarrow>
     set_spatialreference ar ext s xu yu xl yl r = Inl (ValueError both_y_msg)"
  by (cases xu; cases xl; simp add: set_spatialreference_def del: setattr.simps)+


subsection \<open>The constructor\<close>

lemma init_scalar:
  "is_number (arg_delr a) \<or> is_number (arg_delc a) \<Longrightarrow> init ar ext a = Inl (TypeError spacing_msg)"
  by (simp add: init_def)

lemma atleast_1d_shape: "shape (atleast_1d ar v) \<noteq> []"
  by (cases v) (simp_all add: np_array_def)

lemma atleast_1d_twice: "atleast_1d ar (Array (atleast_1d ar v)) = atleast_1d ar v"
  using atleast_1d_shape [of ar v] by simp

lemma init_unfold:
  assumes seq: "\<not> is_number (arg_delr a)" "\<not> is_number (arg_delc a)"
    and pr: "proj4_lookup ext a = Inr p"
  shows "init ar ext a =
     set_spatialreference ar ext (before_placing ar a p)
       (if degenerate ar a then None else arg_xul a) (if degenerate ar a then None else arg_yul a)
       (if degenerate ar a then Some 0 else arg_xll a) (if degenerate ar a then Some 0 else arg_yll a)
       (arg_rotation a)"
proof -
  have stored: "bindE (case arg_epsg a of None \<Rightarrow> Inr s
            | Some code \<Rightarrow> bindE (getproj4 ext code) (\<lambda>p. Inr (s\<lparr>p_proj4_str := Some p\<rparr>))) f
        = f (s\<lparr>p_proj4_str := p\<rparr>)"
    if "p_proj4_str s = arg_proj4_str a" for s :: SpatialReference and f :: "SpatialReference \<Rightarrow> error + SpatialReference"
  proof (cases "arg_epsg a")
    case None
    with pr have "p = p_proj4_str s"
      by (simp add: proj4_lookup_def that)
    then have "s\<lparr>p_proj4_str := p\<rparr> = s"
      by simp
    with None show ?thesis
      by (simp add: bindE_Inr)
  next
    case (Some code)
    with pr obtain q where "getproj4 ext code = Inr q" "p = Some q"
      by (cases "getproj4 ext code") (auto simp add: proj4_lookup_def bindE_def)
    with Some show ?thesis
      by (simp add: bindE_Inr)
  qed
  show ?thesis
    using seq
    by (simp add: init_def bindE_Inr object_setattr_def getter_only_properties_def
          Let_def reset_def emit_def new_object_def before_placing_def stored
          atleast_1d_twice degenerate_def [symmetric] del: atleast_1d.simps)
qed

lemma multiplier_operand_no_value_error:
  "multiplier_operand ext s \<noteq> Inl (ValueError msg)"
  by (auto simp add: multiplier_operand_def length_multiplier_def number_operand_def
      model_length_units_def units_def bindE_def Let_def
      split: option.splits sum.splits if_splits)

lemma setattr_rotation_raises:
  assumes loc: "origin_loc s = ''ul'' \<or> origin_loc s = ''ll''"
    and lm: "multiplier_operand ext s = Inl e"
  shows "setattr ar ext (Assign_rotation r) s = Inl e"
proof -
  define s1 where "s1 = s\<lparr>diagnostics := diagnostics s @ rotation_warning r, rotation := r\<rparr>"
  have f: "origin_loc s1 = ''ul'' \<or> origin_loc s1 = ''ll''" "multiplier_operand ext s1 = Inl e"
    using loc by (simp_all add: s1_def lm)
  have st: "object_setattr ''rotation'' (\<lambda>s. s\<lparr>rotation := r\<rparr>)
              (s\<lparr>diagnostics := diagnostics s @ rotation_warning r\<rparr>) = Inr s1"
    by (simp add: store_rotation s1_def)
  show ?thesis
    by (simp only: setattr_rotation_unfold st bindE_Inr set_origin_raises [OF f] bindE_Inl)
qed

lemma set_spatialreference_raises:
  assumes ok: "\<not> (xu \<noteq> None \<and> xl \<noteq> None)" "\<not> (yu \<noteq> None \<and> yl \<noteq> None)"
    and lm: "multiplier_operand ext s = Inl e"
  shows "set_spatialreference ar ext s xu yu xl yl r = Inl e"
proof -
  have rot: "setattr ar ext (Assign_rotation r)
               (s\<lparr>diagnostics := diagnostics s @ rotation_warning r, origin_loc := l\<rparr>) = Inl e"
    if "l = ''ul'' \<or> l = ''ll''" for l
    by (rule setattr_rotation_raises) (simp_all add: that lm)
  from ok show ?thesis
    by (cases xu; cases yu; cases xl; cases yl)
       (simp_all add: set_spatialreference_def emit_rotation_warning Let_def rot bindE_Inl
          del: setattr.simps)
qed

lemma set_spatialreference_returns:
  assumes ok: "\<not> (xu \<noteq> None \<and> xl \<noteq> None)" "\<not> (yu \<noteq> None \<and> yl \<noteq> None)"
    and lm: "multiplier_operand ext s = Inr lm"
  shows "\<exists>s'. set_spatialreference ar ext s xu yu xl yl r = Inr s'
     \<and> rotation s' = r \<and> delr s' = delr s \<and> delc s' = delc s
     \<and> origin_loc s' = (if xl = None then ''ul'' else ''ll'')"
proof (cases xl)
  case None
  from set_spatialreference_ul [OF None ok(2) lm refl refl, of ar xu r] None show ?thesis
    by simp
next
  case (Some v)
  with ok(1) have xu: "xu = None" and xl: "xl \<noteq> None"
    by simp_all
  from set_spatialreference_ll [OF xl xu ok(2) lm, of ar r] Some show ?thesis
    by simp
qed

lemma set_spatialreference_no_value_error:
  assumes ok: "\<not> (xu \<noteq> None \<and> xl \<noteq> None)" "\<not> (yu \<noteq> None \<and> yl \<noteq> None)"
  shows "set_spatialreference ar ext s xu yu xl yl r \<noteq> Inl (ValueError msg)"
proof (cases "multiplier_operand ext s")
  case (Inl e)
  with multiplier_operand_no_value_error [of ext s msg] have "e \<noteq> ValueError msg"
    by auto
  with set_spatialreference_raises [OF ok Inl] show ?thesis
    by simp
next
  case (Inr lm)
  from set_spatialreference_returns [OF ok Inr, of ar r] show ?thesis
    by auto
qed

lemma before_placing_corners [simp]:
  "before_placing ar (a\<lparr>arg_xul := u\<rparr>) p = before_placing ar a p"
  "before_placing ar (a\<lparr>arg_yul := v\<rparr>) p = before_placing ar a p"
  by (simp_all add: before_placing_def degenerate_def)

lemma degenerate_corners [simp]:
  "degenerate ar (a\<lparr>arg_xul := u\<rparr>) = degenerate ar a"
  "degenerate ar (a\<lparr>arg_yul := v\<rparr>) = degenerate ar a"
  by (simp_all add: degenerate_def)

lemma proj4_lookup_corners [simp]:
  "proj4_lookup ext (a\<lparr>arg_xul := u\<rparr>) = proj4_lookup ext a"
  "proj4_lookup ext (a\<lparr>arg_yul := v\<rparr>) = proj4_lookup ext a"
  by (cases "arg_epsg a"; simp add: proj4_lookup_def)+

lemma before_placing_fields [simp]:
  "delc (before_placing ar a p) = atleast_1d ar (arg_delc a)"
  "delr (before_placing ar a p) = atleast_1d ar (arg_delr a)"
  "diagnostics (before_placing ar a p) = (if degenerate ar a then [Printed no_spacing_msg] else [])"
  by (simp_all add: before_placing_def)

lemma default_multiplier:
  "arg_lenuni a = 2 \<Longrightarrow> arg_units a = None \<Longrightarrow> arg_length_multiplier a = None \<Longrightarrow>
   length_multiplier ext (before_placing ar a None) = Inr (Some 1)"
  by (simp add: length_multiplier_def model_length_units_code units_def
      parse_units_from_proj4_def bindE_Inr before_placing_def new_object_def)


subsection \<open>Caches and grids\<close>

lemma multiplier_operand_cache [simp]:
  "multiplier_operand ext (s\<lparr>p_xgrid := g\<rparr>) = multiplier_operand ext s"
  "multiplier_operand ext (s\<lparr>p_ygrid := g\<rparr>) = multiplier_operand ext s"
  "multiplier_operand ext (s\<lparr>p_xcentergrid := g\<rparr>) = multiplier_operand ext s"
  "multiplier_operand ext (s\<lparr>p_ycentergrid := g\<rparr>) = multiplier_operand ext s"
  "multiplier_operand ext (s\<lparr>p_vertices := v\<rparr>) = multiplier_operand ext s"
  by (rule multiplier_operand_cong; simp)+

lemma reset_cache [simp]:
  "reset (s\<lparr>p_xgrid := g\<rparr>) = reset s" "reset (s\<lparr>p_ygrid := g\<rparr>) = reset s"
  "reset (s\<lparr>p_xcentergrid := g\<rparr>) = reset s" "reset (s\<lparr>p_ycentergrid := g\<rparr>) = reset s"
  "reset (s\<lparr>p_vertices := v\<rparr>) = reset s"
  by (simp_all add: reset_def)

lemma set_origin_cases:
  "set_origin ar ext s a b c d =
     (if origin_loc s = ''ul'' then
        (case multiplier_operand ext s of
           Inl e \<Rightarrow> Inl e
         | Inr lm \<Rightarrow>
             Inr (reset (s\<lparr>xul := Some (or_zero a), yul := Some (or_zero b),
                    xll := Some (fsub ar (or_zero a) (x_offset ar (rotation s) (delc s) lm)),
                    yll := Some (fsub ar (or_zero b) (y_offset ar (rotation s) (delc s) lm))\<rparr>)))
      else if origin_loc s = ''ll'' then
        (case multiplier_operand ext s of
           Inl e \<Rightarrow> Inl e
         | Inr lm \<Rightarrow>
             Inr (reset (s\<lparr>xll := Some (or_zero c), yll := Some (or_zero d),
                    xul := Some (fadd ar (or_zero c) (x_offset ar (rotation s) (delc s) lm)),
                    yul := Some (fadd ar (or_zero d) (y_offset ar (rotation s) (delc s) lm))\<rparr>)))
      else Inr (reset s))"
proof (cases "multiplier_operand ext s")
  case (Inl e)
  then show ?thesis
    by (simp add: set_origin_raises set_origin_other)
next
  case (Inr lm)
  then show ?thesis
    by (simp add: set_origin_ul set_origin_ll set_origin_other)
qed

lemma set_origin_cache:
  "set_origin ar ext (s\<lparr>p_xgrid := g, p_ygrid := h\<rparr>) a b c d = set_origin ar ext s a b c d"
  "set_origin ar ext (s\<lparr>p_xcentergrid := g, p_ycentergrid := h\<rparr>) a b c d = set_origin ar ext s a b c d"
  by (simp_all add: set_origin_cases split: sum.splits)
     (simp_all add: reset_def)

lemma set_origin_keeps:
  assumes "set_origin ar ext s a b c d = Inr s1"
  shows "delr s1 = delr s" "delc s1 = delc s" "rotation s1 = rotation s"
    "origin_loc s1 = origin_loc s" "multiplier_operand ext s1 = multiplier_operand ext s"
    "length_multiplier ext s1 = length_multiplier ext s"
    "p_xgrid s1 = None" "p_ygrid s1 = None" "p_xcentergrid s1 = None"
    "p_ycentergrid s1 = None" "p_vertices s1 = None" "diagnostics s1 = diagnostics s"
  using assms
  by (auto simp add: set_origin_cases split: if_splits sum.splits)

lemma set_origin_stable:
  assumes so: "set_origin ar ext s a b c d = Inr s1"
  shows "set_origin ar ext s1 (xul s1) (yul s1) (xll s1) (yll s1) = Inr s1"
proof -
  note k = set_origin_keeps [OF so]
  consider (ul) "origin_loc s = ''ul''" | (ll) "origin_loc s = ''ll''"
    | (other) "origin_loc s \<noteq> ''ul''" "origin_loc s \<noteq> ''ll''"
    by blast
  then show ?thesis
  proof cases
    case ul
    with so obtain lm where m: "multiplier_operand ext s = Inr lm"
      and s1: "s1 = reset (s\<lparr>xul := Some (or_zero a), yul := Some (or_zero b),
                    xll := Some (fsub ar (or_zero a) (x_offset ar (rotation s) (delc s) lm)),
                    yll := Some (fsub ar (or_zero b) (y_offset ar (rotation s) (delc s) lm))\<rparr>)"
      by (auto simp add: set_origin_cases split: sum.splits)
    from ul k m have f: "origin_loc s1 = ''ul''" "multiplier_operand ext s1 = Inr lm"
      by simp_all
    show ?thesis
      by (simp add: set_origin_ul [OF f]) (simp add: s1 reset_def or_zero_def)
  next
    case ll
    with so obtain lm where m: "multiplier_operand ext s = Inr lm"
      and s1: "s1 = reset (s\<lparr>xll := Some (or_zero c), yll := Some (or_zero d),
                    xul := Some (fadd ar (or_zero c) (x_offset ar (rotation s) (delc s) lm)),
                    yul := Some (fadd ar (or_zero d) (y_offset ar (rotation s) (delc s) lm))\<rparr>)"
      by (auto simp add: set_origin_cases split: sum.splits)
    from ll k m have f: "origin_loc s1 = ''ll''" "multiplier_operand ext s1 = Inr lm"
      by simp_all
    show ?thesis
      by (simp add: set_origin_ll [OF f]) (simp add: s1 reset_def or_zero_def)
  next
    case other
    with so have s1: "s1 = reset s"
      by (simp add: set_origin_other)
    from other k have "origin_loc s1 \<noteq> ''ul''" "origin_loc s1 \<noteq> ''ll''"
      by simp_all
    then show ?thesis
      by (simp add: set_origin_other) (simp add: s1 reset_def)
  qed
qed

lemma set_origin_returns:
  assumes "multiplier_operand ext s = Inr lm"
  shows "\<exists>s1. set_origin ar ext s a b c d = Inr s1"
  using assms by (simp add: set_origin_cases)

lemma reset_idem [simp]: "reset (reset s) = reset s"
  by (simp add: reset_def)

lemma set_origin_is_reset:
  "set_origin ar ext s a b c d = Inr s1 \<Longrightarrow> reset s1 = s1"
  by (auto simp add: set_origin_cases split: if_splits sum.splits)

lemma setattr_rotation_result:
  assumes lm: "multiplier_operand ext s = Inr lm"
  shows "\<exists>s'. setattr ar ext (Assign_rotation r) s = Inr s' \<and> rotation s' = r
     \<and> reset s' = s'
     \<and> set_origin ar ext s' (xul s') (yul s') (xll s') (yll s') = Inr s'
     \<and> set_origin ar ext (s\<lparr>diagnostics := diagnostics s @ rotation_warning r, rotation := r\<rparr>)
           (xul s) (yul s) (xll s) (yll s) = Inr s'"
proof -
  define s0 where "s0 = s\<lparr>diagnostics := diagnostics s @ rotation_warning r, rotation := r\<rparr>"
  have st: "object_setattr ''rotation'' (\<lambda>s. s\<lparr>rotation := r\<rparr>)
              (s\<lparr>diagnostics := diagnostics s @ rotation_warning r\<rparr>) = Inr s0"
    by (simp add: store_rotation s0_def)
  have "multiplier_operand ext s0 = Inr lm"
    by (simp add: s0_def lm)
  then obtain s1 where so: "set_origin ar ext s0 (xul s0) (yul s0) (xll s0) (yll s0) = Inr s1"
    using set_origin_returns by blast
  have res: "setattr ar ext (Assign_rotation r) s = Inr s1"
    by (simp only: setattr_rotation_unfold st bindE_Inr so set_origin_is_reset [OF so])
  have "rotation s1 = r"
    using set_origin_keeps(3) [OF so] by (simp add: s0_def)
  moreover have "set_origin ar ext s0 (xul s) (yul s) (xll s) (yll s) = Inr s1"
    using so by (simp add: s0_def)
  ultimately show ?thesis
    using res set_origin_is_reset [OF so] set_origin_stable [OF so]
    unfolding s0_def by blast
qed

lemma rotate_xy_shape:
  assumes "same_shape x y" "rotate_xy ar x y t xo yo = Inr (x', y')"
  shows "shape x' = shape x" "shape y' = shape x"
    "length (data x') = length (data x)" "length (data y') = length (data x)"
    "dtype x' = Float64" "dtype y' = Float64"
  using assms(2) same_shape_length [OF assms(1)]
  by (auto simp add: rotate_xy_data [OF assms(1)])

lemma transform_returns:
  assumes lm: "multiplier_operand ext s = Inr lm"
    and loc: "origin_loc s = ''ul'' \<or> origin_loc s = ''ll''"
    and sh: "same_shape x y"
    and fx: "dtype x = Float64" and fy: "dtype y = Float64"
  shows "\<exists>x' y' s1. transform ar ext s x y = Inr ((x', y'), s1)
     \<and> set_origin ar ext s (xul s) (yul s) (xll s) (yll s) = Inr s1
     \<and> shape x' = shape x \<and> shape y' = shape x
     \<and> length (data x') = length (data x) \<and> length (data y') = length (data x)"
proof -
  from lm obtain s1 where so: "set_origin ar ext s (xul s) (yul s) (xll s) (yll s) = Inr s1"
    using set_origin_returns by blast
  from so loc lm obtain xo yo where c: "xll s1 = Some xo" "yll s1 = Some yo"
    by (auto simp add: set_origin_cases split: if_splits)
  from lm have m1: "multiplier_operand ext s1 = Inr lm"
    by (simp add: set_origin_keeps(5) [OF so])
  let ?x = "np_map (\<lambda>v. fadd ar v xo) (np_map (\<lambda>v. fmul ar v lm) x)"
  let ?y = "np_map (\<lambda>v. fadd ar v yo) (np_map (\<lambda>v. fmul ar v lm) y)"
  from sh have same: "same_shape ?x ?y"
    by (simp add: same_shape_np_map)
  then obtain x' y' where rot: "rotate_xy ar ?x ?y (rotation s1) xo yo = Inr (x', y')"
    using rotate_xy_returns by blast
  have "transform ar ext s x y = Inr ((x', y'), s1)"
    by (simp add: transform_eq [OF so m1 c fx fy] rot bindE_Inr)
  with so rotate_xy_shape [OF same rot] show ?thesis
    by simp
qed

lemma transform_cache:
  "transform ar ext (s\<lparr>p_xgrid := g, p_ygrid := h\<rparr>) x y = transform ar ext s x y"
  "transform ar ext (s\<lparr>p_xcentergrid := g, p_ycentergrid := h\<rparr>) x y = transform ar ext s x y"
  by (simp_all add: transform_def set_origin_cache)

lemma meshgrid_shape:
  "same_shape (fst (meshgrid xs ys)) (snd (meshgrid xs ys))"
  "shape (fst (meshgrid xs ys)) = [length (data ys), length (data xs)]"
  "dtype (fst (meshgrid xs ys)) = dtype xs" "dtype (snd (meshgrid xs ys)) = dtype ys"
  by (simp_all add: meshgrid_def same_shape_def length_concat comp_def sum_list_triv)

lemma set_xygrid_eq:
  "set_xygrid ar ext s =
     bindE (transform ar ext s (fst (meshgrid (get_xedge_array ar s) (get_yedge_array ar s)))
                            (snd (meshgrid (get_xedge_array ar s) (get_yedge_array ar s))))
       (\<lambda>((xg, yg), s). Inr (s\<lparr>p_xgrid := Some xg, p_ygrid := Some yg\<rparr>))"
  by (simp add: set_xygrid_def split_def Let_def transform_cache)

lemma set_xycentergrid_eq:
  "set_xycentergrid ar ext s =
     bindE (transform ar ext s (fst (meshgrid (get_xcenter_array ar s) (get_ycenter_array ar s)))
                            (snd (meshgrid (get_xcenter_array ar s) (get_ycenter_array ar s))))
       (\<lambda>((xg, yg), s). Inr (s\<lparr>p_xcentergrid := Some xg, p_ycentergrid := Some yg\<rparr>))"
  by (simp add: set_xycentergrid_def split_def Let_def transform_cache)

lemma grids_rebuilt:
  assumes tr: "transform ar ext s (fst (meshgrid (get_xedge_array ar s) (get_yedge_array ar s)))
                 (snd (meshgrid (get_xedge_array ar s) (get_yedge_array ar s))) = Inr ((gx, gy), s1)"
  shows "p_xgrid s = None \<Longrightarrow>
           xgrid ar ext s = Inr (Some gx, s1\<lparr>p_xgrid := Some gx, p_ygrid := Some gy\<rparr>)"
    and "p_ygrid s = None \<Longrightarrow>
           ygrid ar ext s = Inr (Some gy, s1\<lparr>p_xgrid := Some gx, p_ygrid := Some gy\<rparr>)"
  by (simp_all add: xgrid_def ygrid_def set_xygrid_eq tr bindE_Inr)

lemma centergrids_rebuilt:
  assumes tr: "transform ar ext s (fst (meshgrid (get_xcenter_array ar s) (get_ycenter_array ar s)))
                 (snd (meshgrid (get_xcenter_array ar s) (get_ycenter_array ar s))) = Inr ((gx, gy), s1)"
  shows "p_xcentergrid s = None \<Longrightarrow>
           xcentergrid ar ext s
             = Inr (Some gx, s1\<lparr>p_xcentergrid := Some gx, p_ycentergrid := Some gy\<rparr>)"
    and "p_ycentergrid s = None \<Longrightarrow>
           ycentergrid ar ext s
             = Inr (Some gy, s1\<lparr>p_xcentergrid := Some gx, p_ycentergrid := Some gy\<rparr>)"
  by (simp_all add: xcentergrid_def ycentergrid_def set_xycentergrid_eq tr bindE_Inr)

lemma axis_index_nat: "i < n \<Longrightarrow> axis_index (int i) n = Inr i"
  by (simp add: axis_index_def)

lemma item2_nat:
  "shape a = [n, m] \<Longrightarrow> i < n \<Longrightarrow> j < m \<Longrightarrow>
     item2 a (int i) (int j) = Inr (data a ! (i * m + j))"
  by (simp add: item2_def axis_index_nat bindE_Inr)

lemma point2_nat:
  "shape xg = [n, m] \<Longrightarrow> shape yg = [n, m] \<Longrightarrow> i < n \<Longrightarrow> j < m \<Longrightarrow>
     point2 xg yg (int i) (int j) = Inr [data xg ! (i * m + j), data yg ! (i * m + j)]"
  by (simp add: point2_def item2_nat bindE_Inr)

lemma int_Suc_plus: "int i + 1 = int (Suc i)"
  by simp

lemma cell_points_nat:
  assumes "shape xg = [Suc n, Suc m]" "shape yg = [Suc n, Suc m]" "i < n" "j < m"
  shows "cell_points xg yg (int i) (int j) =
     Inr [[data xg ! (i * Suc m + j), data yg ! (i * Suc m + j)],
          [data xg ! (Suc i * Suc m + j), data yg ! (Suc i * Suc m + j)],
          [data xg ! (Suc i * Suc m + Suc j), data yg ! (Suc i * Suc m + Suc j)],
          [data xg ! (i * Suc m + Suc j), data yg ! (i * Suc m + Suc j)],
          [data xg ! (i * Suc m + j), data yg ! (i * Suc m + j)]]"
  using assms
  by (simp only: cell_points_def int_Suc_plus)
     (simp add: point2_nat [where n = "Suc n" and m = "Suc m"] bindE_Inr del: of_nat_Suc)

lemma mapE_returns:
  "(\<And>x. x \<in> set xs \<Longrightarrow> \<exists>y. f x = Inr y) \<Longrightarrow> \<exists>ys. mapE f xs = Inr ys \<and> length ys = length xs"
proof (induction xs)
  case Nil
  then show ?case by simp
next
  case (Cons x xs)
  then obtain y ys where "f x = Inr y" "mapE f xs = Inr ys" "length ys = length xs"
    by (metis list.set_intros(1) list.set_intros(2))
  then show ?case
    by (simp add: bindE_Inr)
qed

lemma set_cells: "set (cells s) = {(i, j). i < nrow s \<and> j < ncol s}"
  by (auto simp add: cells_def)

lemma length_cells: "length (cells s) = nrow s * ncol s"
  by (simp add: cells_def length_concat comp_def sum_list_triv)

lemma cells_cong: "delr s' = delr s \<Longrightarrow> delc s' = delc s \<Longrightarrow> cells s' = cells s"
  by (simp add: cells_def nrow_def ncol_def)

lemma set_vertices_eq:
  "set_vertices ar ext s =
     bindE (both_grids ar ext s) (\<lambda>((xg, yg), s).
     bindE (mapE (\<lambda>(i, j). cell_points xg yg (int i) (int j)) (cells s)) (\<lambda>vrts.
     Inr (s\<lparr>p_vertices := Some vrts\<rparr>)))"
  by (simp add: set_vertices_def cells_def)

lemma vertices_rebuilt:
  assumes none: "p_xgrid s = None" "p_vertices s = None"
    and tr: "transform ar ext s (fst (meshgrid (get_xedge_array ar s) (get_yedge_array ar s)))
                 (snd (meshgrid (get_xedge_array ar s) (get_yedge_array ar s))) = Inr ((gx, gy), s1)"
    and so: "set_origin ar ext s (xul s) (yul s) (xll s) (yll s) = Inr s1"
    and sh: "shape gx = [Suc (nrow s), Suc (ncol s)]" "shape gy = [Suc (nrow s), Suc (ncol s)]"
  shows "\<exists>vs. mapE (\<lambda>(i, j). cell_points gx gy (int i) (int j)) (cells s) = Inr vs
      \<and> length vs = nrow s * ncol s
      \<and> vertices ar ext s
          = Inr (Some vs, s1\<lparr>p_xgrid := Some gx, p_ygrid := Some gy, p_vertices := Some vs\<rparr>)"
proof -
  let ?s2 = "s1\<lparr>p_xgrid := Some gx, p_ygrid := Some gy\<rparr>"
  have bg: "both_grids ar ext s = Inr ((gx, gy), ?s2)"
    by (simp add: both_grids_def grids_rebuilt(1) [OF tr none(1)] bindE_Inr ygrid_def)
  have c: "cells ?s2 = cells s"
    by (rule cells_cong) (simp_all add: set_origin_keeps [OF so])
  have "\<exists>y. (\<lambda>(i, j). cell_points gx gy (int i) (int j)) x = Inr y" if "x \<in> set (cells s)" for x
    using that by (auto simp add: set_cells cell_points_nat [OF sh])
  then obtain vs where vs: "mapE (\<lambda>(i, j). cell_points gx gy (int i) (int j)) (cells s) = Inr vs"
    and len: "length vs = length (cells s)"
    using mapE_returns [of "cells s" "\<lambda>(i, j). cell_points gx gy (int i) (int j)"] by blast
  have "set_vertices ar ext s = Inr (?s2\<lparr>p_vertices := Some vs\<rparr>)"
    by (simp add: set_vertices_eq bg bindE_Inr c vs)
  then have "vertices ar ext s
      = Inr (Some vs, s1\<lparr>p_xgrid := Some gx, p_ygrid := Some gy, p_vertices := Some vs\<rparr>)"
    by (simp add: vertices_def none bindE_Inr)
  with vs len show ?thesis
    by (simp add: length_cells)
qed

lemma reset_fixed:
  "reset t = t \<Longrightarrow> p_xgrid t = None \<and> p_ygrid t = None \<and> p_xcentergrid t = None
     \<and> p_ycentergrid t = None \<and> p_vertices t = None"
  by (metis reset_fields(10-14))

lemma setattr_units:
  "lower u \<in> set (supported_units s) \<Longrightarrow>
     setattr ar ext (Assign_units u) s = Inr (reset (s\<lparr>p_units := Some (lower u)\<rparr>))"
  by (simp add: Let_def object_setattr_def getter_only_properties_def bindE_Inr)

lemma setattr_length_multiplier_raises:
  "setattr ar ext (Assign_length_multiplier v) s = Inl (AttributeError ''can't set attribute'')"
  by (simp add: object_setattr_def getter_only_properties_def bindE_Inl)


subsection \<open>Point lookup\<close>

lemma argmin_list_less: "vs \<noteq> [] \<Longrightarrow> argmin_list vs < length vs"
  by (induction vs rule: argmin_list.induct) (simp_all add: Let_def)

lemma argmin_list_least: "j < length vs \<Longrightarrow> vs ! argmin_list vs \<le> vs ! j"
proof (induction vs arbitrary: j rule: argmin_list.induct)
  case 1
  then show ?case by simp
next
  case (2 v)
  then show ?case by simp
next
  case (3 v w ws)
  let ?k = "argmin_list (w # ws)"
  show ?case
  proof (cases j)
    case 0
    then show ?thesis
      by (simp add: Let_def)
  next
    case (Suc i)
    with "3.prems" have "i < length (w # ws)" by simp
    from "3.IH" [OF this] have "(w # ws) ! ?k \<le> (w # ws) ! i" .
    with Suc show ?thesis
      by (auto simp add: Let_def)
  qed
qed

lemma argmin_list_first: "j < argmin_list vs \<Longrightarrow> vs ! argmin_list vs < vs ! j"
proof (induction vs arbitrary: j rule: argmin_list.induct)
  case 1
  then show ?case by simp
next
  case (2 v)
  then show ?case by simp
next
  case (3 v w ws)
  let ?k = "argmin_list (w # ws)"
  from "3.prems" have pos: "\<not> v \<le> (w # ws) ! ?k"
    by (auto simp add: Let_def split: if_splits)
  then have k: "argmin_list (v # w # ws) = Suc ?k"
    by (simp add: Let_def)
  show ?case
  proof (cases j)
    case 0
    with pos k show ?thesis by simp
  next
    case (Suc i)
    with "3.prems" k have "i < ?k" by simp
    from "3.IH" [OF this] Suc k show ?thesis by simp
  qed
qed

lemma nearest_eq:
  "cs \<noteq> [] \<Longrightarrow> nearest ar cs q = Inr (argmin_list (map (\<lambda>c. \<bar>fsub ar c q\<bar>) cs))"
  by (simp add: nearest_def argmin_def)

lemma mapE_nearest:
  "cs \<noteq> [] \<Longrightarrow>
     mapE (nearest ar cs) qs = Inr (map (\<lambda>q. argmin_list (map (\<lambda>c. \<bar>fsub ar c q\<bar>) cs)) qs)"
  by (induction qs) (simp_all add: nearest_eq bindE_Inr)

lemma nth_concat_blocks:
  "\<forall>b \<in> set bs. length b = n \<Longrightarrow> i < length bs \<Longrightarrow> j < n \<Longrightarrow>
     concat bs ! (i * n + j) = bs ! i ! j"
proof (induction bs arbitrary: i)
  case Nil
  then show ?case by simp
next
  case (Cons b bs)
  show ?case
  proof (cases i)
    case 0
    with Cons.prems show ?thesis
      by (simp add: nth_append)
  next
    case (Suc k)
    with Cons.prems have "k < length bs" and len: "length b = n"
      by simp_all
    with Cons have "concat bs ! (k * n + j) = bs ! k ! j"
      by simp
    with Suc len show ?thesis
      by (simp add: nth_append)
  qed
qed

lemma meshgrid_nth:
  assumes "i < length (data ys)" "j < length (data xs)"
  shows "data (fst (meshgrid xs ys)) ! (i * length (data xs) + j) = data xs ! j"
    and "data (snd (meshgrid xs ys)) ! (i * length (data xs) + j) = data ys ! i"
  using assms
  by (simp_all add: meshgrid_def nth_concat_blocks [where n = "length (data xs)"])

lemma meshgrid_length:
  "length (data (fst (meshgrid xs ys))) = length (data ys) * length (data xs)"
  "length (data (snd (meshgrid xs ys))) = length (data ys) * length (data xs)"
  by (simp_all add: meshgrid_def length_concat comp_def sum_list_triv)

lemma world_exact:
  "world_x exact r lm xo yo u v
     = xo + cos (r * pi / 180) * (u * lm) - sin (r * pi / 180) * (v * lm)"
  "world_y exact r lm xo yo u v
     = yo + sin (r * pi / 180) * (u * lm) + cos (r * pi / 180) * (v * lm)"
  by (simp_all add: world_x_def world_y_def)

lemma transform_nth:
  assumes lm: "multiplier_operand ext s = Inr lm"
    and loc: "origin_loc s = ''ul'' \<or> origin_loc s = ''ll''"
    and sh: "same_shape x y"
    and fx: "dtype x = Float64" and fy: "dtype y = Float64"
  shows "\<exists>x' y' s1 xo yo. transform ar ext s x y = Inr ((x', y'), s1)
     \<and> set_origin ar ext s (xul s) (yul s) (xll s) (yll s) = Inr s1
     \<and> xll s1 = Some xo \<and> yll s1 = Some yo
     \<and> dtype x' = Float64 \<and> dtype y' = Float64
     \<and> shape x' = shape x \<and> shape y' = shape x
     \<and> length (data x') = length (data x) \<and> length (data y') = length (data x)
     \<and> (\<forall>k<length (data x).
          data x' ! k = world_x ar (rotation s) lm xo yo (data x ! k) (data y ! k)
        \<and> data y' ! k = world_y ar (rotation s) lm xo yo (data x ! k) (data y ! k))"
proof -
  from lm obtain s1 where so: "set_origin ar ext s (xul s) (yul s) (xll s) (yll s) = Inr s1"
    using set_origin_returns by blast
  from so loc lm obtain xo yo where c: "xll s1 = Some xo" "yll s1 = Some yo"
    by (auto simp add: set_origin_cases split: if_splits)
  from lm have m1: "multiplier_operand ext s1 = Inr lm"
    by (simp add: set_origin_keeps(5) [OF so])
  have r1: "rotation s1 = rotation s"
    by (rule set_origin_keeps(3) [OF so])
  let ?x = "np_map (\<lambda>v. fadd ar v xo) (np_map (\<lambda>v. fmul ar v lm) x)"
  let ?y = "np_map (\<lambda>v. fadd ar v yo) (np_map (\<lambda>v. fmul ar v lm) y)"
  from sh have same: "same_shape ?x ?y"
    by (simp add: same_shape_np_map)
  from sh have len: "length (data y) = length (data x)"
    by (simp add: same_shape_def)
  have fl: "floats ar ?x = data ?x" "floats ar ?y = data ?y"
    by (simp_all add: fx fy)
  obtain x' y' where rot: "rotate_xy ar ?x ?y (rotation s) xo yo = Inr (x', y')"
    using rotate_xy_returns [OF same] by blast
  have tr: "transform ar ext s x y = Inr ((x', y'), s1)"
    by (simp only: transform_eq [OF so m1 c fx fy] r1 rot bindE_Inr)
  note shp = rotate_xy_shape [OF same rot]
  have nth: "\<forall>k<length (data x).
          data x' ! k = world_x ar (rotation s) lm xo yo (data x ! k) (data y ! k)
        \<and> data y' ! k = world_y ar (rotation s) lm xo yo (data x ! k) (data y ! k)"
    using rot unfolding rotate_xy_data [OF same] fl
    by (auto simp add: len world_x_def world_y_def)
  from tr so c shp nth show ?thesis
    by (intro exI [of _ x'] exI [of _ y'] exI [of _ s1] exI [of _ xo] exI [of _ yo]) simp
qed

lemma centers_transformed:
  assumes lm: "multiplier_operand ext s = Inr lm"
    and loc: "origin_loc s = ''ul'' \<or> origin_loc s = ''ll''"
    and rows: "0 < nrow s" and cols: "0 < ncol s"
  shows "\<exists>gx gy s1 xo yo.
       transform ar ext s (fst (meshgrid (get_xcenter_array ar s) (get_ycenter_array ar s)))
                          (snd (meshgrid (get_xcenter_array ar s) (get_ycenter_array ar s)))
         = Inr ((gx, gy), s1)
     \<and> set_origin ar ext s (xul s) (yul s) (xll s) (yll s) = Inr s1
     \<and> xll s1 = Some xo \<and> yll s1 = Some yo
     \<and> first_row (Some gx)
         = Inr (map (\<lambda>j. world_x ar (rotation s) lm xo yo
                            (data (get_xcenter_array ar s) ! j) (data (get_ycenter_array ar s) ! 0))
                  [0..<ncol s])
     \<and> first_column (Some gy)
         = Inr (map (\<lambda>i. world_y ar (rotation s) lm xo yo
                            (data (get_xcenter_array ar s) ! 0) (data (get_ycenter_array ar s) ! i))
                  [0..<nrow s])"
proof -
  let ?xs = "get_xcenter_array ar s" and ?ys = "get_ycenter_array ar s"
  let ?X = "fst (meshgrid ?xs ?ys)" and ?Y = "snd (meshgrid ?xs ?ys)"
  have lx: "length (data ?xs) = ncol s" and ly: "length (data ?ys) = nrow s"
    by (simp_all add: length_xcenter length_ycenter)
  have lX: "length (data ?X) = nrow s * ncol s"
    by (simp add: meshgrid_length lx ly)
  have shX: "shape ?X = [nrow s, ncol s]"
    by (simp add: meshgrid_shape lx ly)
  have ft: "dtype ?X = Float64" "dtype ?Y = Float64"
    by (simp_all add: meshgrid_shape)
  from transform_nth [OF lm loc meshgrid_shape(1) ft]
  obtain gx gy s1 xo yo where tr: "transform ar ext s ?X ?Y = Inr ((gx, gy), s1)"
    and so: "set_origin ar ext s (xul s) (yul s) (xll s) (yll s) = Inr s1"
    and c: "xll s1 = Some xo" "yll s1 = Some yo"
    and sh: "shape gx = shape ?X" "shape gy = shape ?X"
    and len: "length (data gx) = length (data ?X)" "length (data gy) = length (data ?X)"
    and nth: "\<And>k. k < length (data ?X) \<Longrightarrow>
          data gx ! k = world_x ar (rotation s) lm xo yo (data ?X ! k) (data ?Y ! k)
        \<and> data gy ! k = world_y ar (rotation s) lm xo yo (data ?X ! k) (data ?Y ! k)"
    by blast
  have cell: "data ?X ! (i * ncol s + j) = data ?xs ! j" "data ?Y ! (i * ncol s + j) = data ?ys ! i"
    if "i < nrow s" "j < ncol s" for i j
    using that meshgrid_nth [of i ?ys j ?xs] by (simp_all add: lx ly)
  have inside: "i * ncol s + j < nrow s * ncol s" if "i < nrow s" "j < ncol s" for i j
  proof -
    from that have "i * ncol s + j < Suc i * ncol s"
      by simp
    also from that have "\<dots> \<le> nrow s * ncol s"
      by (intro mult_le_mono1) simp
    finally show ?thesis .
  qed
  have row: "take (ncol s) (data gx)
       = map (\<lambda>j. world_x ar (rotation s) lm xo yo (data ?xs ! j) (data ?ys ! 0)) [0..<ncol s]"
  proof (rule nth_equalityI)
    from rows have "ncol s \<le> nrow s * ncol s"
      by simp
    then show "length (take (ncol s) (data gx))
        = length (map (\<lambda>j. world_x ar (rotation s) lm xo yo (data ?xs ! j) (data ?ys ! 0))
                    [0..<ncol s])"
      by (simp add: len lX)
  next
    fix j
    assume "j < length (take (ncol s) (data gx))"
    then have j: "j < ncol s"
      by simp
    from inside [OF rows j] have k: "j < length (data ?X)"
      by (simp add: lX)
    from cell [OF rows j] have "data ?X ! j = data ?xs ! j" "data ?Y ! j = data ?ys ! 0"
      by simp_all
    with nth [OF k] j show "take (ncol s) (data gx) ! j
       = map (\<lambda>j. world_x ar (rotation s) lm xo yo (data ?xs ! j) (data ?ys ! 0)) [0..<ncol s] ! j"
      by simp
  qed
  have col: "map (\<lambda>i. data gy ! (i * ncol s)) [0..<nrow s]
       = map (\<lambda>i. world_y ar (rotation s) lm xo yo (data ?xs ! 0) (data ?ys ! i)) [0..<nrow s]"
  proof (rule map_cong [OF refl])
    fix i
    assume "i \<in> set [0..<nrow s]"
    then have i: "i < nrow s"
      by simp
    from inside [OF i cols] have k: "i * ncol s < length (data ?X)"
      by (simp add: lX)
    from cell [OF i cols] have "data ?X ! (i * ncol s) = data ?xs ! 0"
      "data ?Y ! (i * ncol s) = data ?ys ! i"
      by simp_all
    with nth [OF k] show "data gy ! (i * ncol s)
        = world_y ar (rotation s) lm xo yo (data ?xs ! 0) (data ?ys ! i)"
      by simp
  qed
  from rows have fr: "first_row (Some gx) = Inr (take (ncol s) (data gx))"
    by (simp add: first_row_def sh shX)
  from cols have fc: "first_column (Some gy) = Inr (map (\<lambda>i. data gy ! (i * ncol s)) [0..<nrow s])"
    by (simp add: first_column_def sh shX)
  from tr so c fr fc row col show ?thesis
    by (intro exI [of _ gx] exI [of _ gy] exI [of _ s1] exI [of _ xo] exI [of _ yo])
       (simp only: simp_thms)
qed


lemma get_rc_centers:
  assumes lm: "length_multiplier ext s = Inr (Some lm)"
    and loc: "origin_loc s = ''ul'' \<or> origin_loc s = ''ll''"
    and fresh: "p_xcentergrid s = None" "p_ycentergrid s = None"
    and rows: "0 < nrow s" and cols: "0 < ncol s"
  shows "\<exists>s1 xo yo xc0 yc0 s2.
       set_origin ar ext s (xul s) (yul s) (xll s) (yll s) = Inr s1
     \<and> xll s1 = Some xo \<and> yll s1 = Some yo
     \<and> xc0 = map (\<lambda>j. world_x ar (rotation s) lm xo yo
                          (data (get_xcenter_array ar s) ! j) (data (get_ycenter_array ar s) ! 0))
                [0..<ncol s]
     \<and> yc0 = map (\<lambda>i. world_y ar (rotation s) lm xo yo
                          (data (get_xcenter_array ar s) ! 0) (data (get_ycenter_array ar s) ! i))
                [0..<nrow s]
     \<and> (\<forall>x y. get_rc ar ext s (Point x) (Point y)
          = Inr ((Index (argmin_list (map (\<lambda>c. \<bar>fsub ar c (float_of ar y)\<bar>) yc0)),
                  Index (argmin_list (map (\<lambda>c. \<bar>fsub ar c (float_of ar x)\<bar>) xc0))), s2))
     \<and> (\<forall>xs ys. xs \<noteq> [] \<and> length ys = length xs \<longrightarrow>
          get_rc ar ext s (Points xs) (Points ys)
          = Inr ((Indices (map (\<lambda>q. argmin_list (map (\<lambda>c. \<bar>fsub ar c (float_of ar q)\<bar>) yc0)) ys),
                  Indices (map (\<lambda>q. argmin_list (map (\<lambda>c. \<bar>fsub ar c (float_of ar q)\<bar>) xc0)) xs)),
                 s2))
     \<and> (\<forall>x y. get_rc ar ext s2 x y = get_rc ar ext s x y)
     \<and> (\<exists>gx gy. xcentergrid ar ext s = Inr (Some gx, s2)
           \<and> ycentergrid ar ext s = Inr (Some gy, s2)
           \<and> first_row (Some gx) = Inr xc0 \<and> first_column (Some gy) = Inr yc0)"
proof -
  let ?xc0 = "\<lambda>xo yo. map (\<lambda>j. world_x ar (rotation s) lm xo yo
                          (data (get_xcenter_array ar s) ! j) (data (get_ycenter_array ar s) ! 0))
                [0..<ncol s]"
  let ?yc0 = "\<lambda>xo yo. map (\<lambda>i. world_y ar (rotation s) lm xo yo
                          (data (get_xcenter_array ar s) ! 0) (data (get_ycenter_array ar s) ! i))
                [0..<nrow s]"
  from centers_transformed [OF multiplier_operand_Some [OF lm] loc rows cols]
  obtain gx gy s1 xo yo where
    tr: "transform ar ext s (fst (meshgrid (get_xcenter_array ar s) (get_ycenter_array ar s)))
                       (snd (meshgrid (get_xcenter_array ar s) (get_ycenter_array ar s)))
         = Inr ((gx, gy), s1)"
    and so: "set_origin ar ext s (xul s) (yul s) (xll s) (yll s) = Inr s1"
    and c: "xll s1 = Some xo" "yll s1 = Some yo"
    and fr: "first_row (Some gx) = Inr (?xc0 xo yo)"
    and fc: "first_column (Some gy) = Inr (?yc0 xo yo)"
    by blast
  define s2 where "s2 = s1\<lparr>p_xcentergrid := Some gx, p_ycentergrid := Some gy\<rparr>"
  define xc0 where "xc0 = ?xc0 xo yo"
  define yc0 where "yc0 = ?yc0 xo yo"
  from cols have nx: "xc0 \<noteq> []"
    by (simp add: xc0_def)
  from rows have ny: "yc0 \<noteq> []"
    by (simp add: yc0_def)
  have xg: "xcentergrid ar ext s = Inr (Some gx, s2)"
    unfolding s2_def by (rule centergrids_rebuilt(1) [OF tr fresh(1)])
  have yg: "ycentergrid ar ext s2 = Inr (Some gy, s2)"
    by (simp add: ycentergrid_def s2_def bindE_Inr)
  have xg2: "xcentergrid ar ext s2 = Inr (Some gx, s2)"
    by (simp add: xcentergrid_def s2_def bindE_Inr)
  have scalar: "get_rc ar ext s (Point x) (Point y)
          = Inr ((Index (argmin_list (map (\<lambda>c. \<bar>fsub ar c (float_of ar y)\<bar>) yc0)),
                  Index (argmin_list (map (\<lambda>c. \<bar>fsub ar c (float_of ar x)\<bar>) xc0))), s2)" for x y
    by (simp add: get_rc_def xg bindE_Inr fr fc yg nearest_eq [OF nx] nearest_eq [OF ny]
        xc0_def [symmetric] yc0_def [symmetric])
  have batch: "get_rc ar ext s (Points xs) (Points ys)
          = Inr ((Indices (map (\<lambda>q. argmin_list (map (\<lambda>c. \<bar>fsub ar c (float_of ar q)\<bar>) yc0)) ys),
                  Indices (map (\<lambda>q. argmin_list (map (\<lambda>c. \<bar>fsub ar c (float_of ar q)\<bar>) xc0)) xs)),
                 s2)"
    if "xs \<noteq> []" "length ys = length xs" for xs ys
    using that
    by (simp add: get_rc_def xg bindE_Inr fr fc yg mapE_nearest [OF nx] mapE_nearest [OF ny]
        xc0_def [symmetric] yc0_def [symmetric] comp_def)
  have again: "get_rc ar ext s2 x y = get_rc ar ext s x y" for x y
    by (cases x) (simp_all add: get_rc_def xg xg2 bindE_Inr)
  have yg0: "ycentergrid ar ext s = Inr (Some gy, s2)"
    unfolding s2_def by (rule centergrids_rebuilt(2) [OF tr fresh(2)])
  from xg yg0 fr fc have grids: "\<exists>gx gy. xcentergrid ar ext s = Inr (Some gx, s2)
      \<and> ycentergrid ar ext s = Inr (Some gy, s2)
      \<and> first_row (Some gx) = Inr xc0 \<and> first_column (Some gy) = Inr yc0"
    by (simp add: xc0_def yc0_def)
  have scalar': "\<forall>x y. get_rc ar ext s (Point x) (Point y)
          = Inr ((Index (argmin_list (map (\<lambda>c. \<bar>fsub ar c (float_of ar y)\<bar>) yc0)),
                  Index (argmin_list (map (\<lambda>c. \<bar>fsub ar c (float_of ar x)\<bar>) xc0))), s2)"
    by (intro allI) (rule scalar)
  have batch': "\<forall>xs ys. xs \<noteq> [] \<and> length ys = length xs \<longrightarrow>
          get_rc ar ext s (Points xs) (Points ys)
          = Inr ((Indices (map (\<lambda>q. argmin_list (map (\<lambda>c. \<bar>fsub ar c (float_of ar q)\<bar>) yc0)) ys),
                  Indices (map (\<lambda>q. argmin_list (map (\<lambda>c. \<bar>fsub ar c (float_of ar q)\<bar>) xc0)) xs)),
                 s2)"
    by (intro allI impI, elim conjE) (rule batch)
  have again': "\<forall>x y. get_rc ar ext s2 x y = get_rc ar ext s x y"
    by (intro allI) (rule again)
  show ?thesis
    by (rule exI [where x = s1], rule exI [where x = xo], rule exI [where x = yo],
        rule exI [where x = xc0], rule exI [where x = yc0], rule exI [where x = s2],
        intro conjI)
      (rule so c xc0_def yc0_def scalar' batch' again' grids)+
qed

lemma get_rc_point:
  assumes lm: "length_multiplier ext s = Inr (Some lm)"
    and loc: "origin_loc s = ''ul'' \<or> origin_loc s = ''ll''"
    and fresh: "p_xcentergrid s = None" "p_ycentergrid s = None"
    and rows: "0 < nrow s" and cols: "0 < ncol s"
    and origin: "set_origin ar ext s (xul s) (yul s) (xll s) (yll s) = Inr s1"
    and corner: "xll s1 = Some xo" "yll s1 = Some yo"
  shows "\<exists>s2. get_rc ar ext s (Point x) (Point y)
          = Inr ((Index (argmin_list (map (\<lambda>c. \<bar>fsub ar c (float_of ar y)\<bar>)
                    (map (\<lambda>i. world_y ar (rotation s) lm xo yo
                          (data (get_xcenter_array ar s) ! 0) (data (get_ycenter_array ar s) ! i))
                [0..<nrow s]))),
                  Index (argmin_list (map (\<lambda>c. \<bar>fsub ar c (float_of ar x)\<bar>)
                    (map (\<lambda>j. world_x ar (rotation s) lm xo yo
                          (data (get_xcenter_array ar s) ! j) (data (get_ycenter_array ar s) ! 0))
                [0..<ncol s])))), s2)"
proof -
  from get_rc_centers [OF lm loc fresh rows cols, of ar]
  obtain t1 xt yt xc0 yc0 s2 where found:
    "set_origin ar ext s (xul s) (yul s) (xll s) (yll s) = Inr t1
     \<and> xll t1 = Some xt \<and> yll t1 = Some yt
     \<and> xc0 = map (\<lambda>j. world_x ar (rotation s) lm xt yt
                          (data (get_xcenter_array ar s) ! j) (data (get_ycenter_array ar s) ! 0))
                [0..<ncol s]
     \<and> yc0 = map (\<lambda>i. world_y ar (rotation s) lm xt yt
                          (data (get_xcenter_array ar s) ! 0) (data (get_ycenter_array ar s) ! i))
                [0..<nrow s]
     \<and> (\<forall>x y. get_rc ar ext s (Point x) (Point y)
          = Inr ((Index (argmin_list (map (\<lambda>c. \<bar>fsub ar c (float_of ar y)\<bar>) yc0)),
                  Index (argmin_list (map (\<lambda>c. \<bar>fsub ar c (float_of ar x)\<bar>) xc0))), s2))
     \<and> (\<forall>xs ys. xs \<noteq> [] \<and> length ys = length xs \<longrightarrow>
          get_rc ar ext s (Points xs) (Points ys)
          = Inr ((Indices (map (\<lambda>q. argmin_list (map (\<lambda>c. \<bar>fsub ar c (float_of ar q)\<bar>) yc0)) ys),
                  Indices (map (\<lambda>q. argmin_list (map (\<lambda>c. \<bar>fsub ar c (float_of ar q)\<bar>) xc0)) xs)),
                 s2))
     \<and> (\<forall>x y. get_rc ar ext s2 x y = get_rc ar ext s x y)
     \<and> (\<exists>gx gy. xcentergrid ar ext s = Inr (Some gx, s2)
           \<and> ycentergrid ar ext s = Inr (Some gy, s2)
           \<and> first_row (Some gx) = Inr xc0 \<and> first_column (Some gy) = Inr yc0)"
    by (elim exE) (rule that)
  note so = found [THEN conjunct1]
  note rest = found [THEN conjunct2]
  note c = rest [THEN conjunct1] rest [THEN conjunct2, THEN conjunct1]
  note rest = rest [THEN conjunct2, THEN conjunct2]
  note xc0 = rest [THEN conjunct1]
  note yc0 = rest [THEN conjunct2, THEN conjunct1]
  note rest = rest [THEN conjunct2, THEN conjunct2]
  note scalar = rest [THEN conjunct1, rule_format]
  note batch = rest [THEN conjunct2, THEN conjunct1, rule_format]
  note again = rest [THEN conjunct2, THEN conjunct2, THEN conjunct1, rule_format]
  note grids = rest [THEN conjunct2, THEN conjunct2, THEN conjunct2]
  from so origin have "t1 = s1"
    by simp
  with c corner have "xt = xo" "yt = yo"
    by simp_all
  with scalar [of x y] xc0 yc0 show ?thesis
    by simp
qed

lemma nearest_position:
  fixes cs :: "real list"
  assumes "cs \<noteq> []" and k: "k = argmin_list (map f cs)"
  shows "k < length cs" "\<forall>j<length cs. f (cs ! k) \<le> f (cs ! j)"
    "\<forall>j<k. f (cs ! k) < f (cs ! j)"
proof -
  let ?d = "map f cs"
  from assms(1) have "?d \<noteq> []"
    by simp
  from argmin_list_less [OF this] show less: "k < length cs"
    by (simp add: k)
  show "\<forall>j<length cs. f (cs ! k) \<le> f (cs ! j)"
  proof (intro allI impI)
    fix j
    assume j: "j < length cs"
    then have "?d ! argmin_list ?d \<le> ?d ! j"
      by (intro argmin_list_least) simp
    with j less show "f (cs ! k) \<le> f (cs ! j)"
      by (simp add: k)
  qed
  show "\<forall>j<k. f (cs ! k) < f (cs ! j)"
  proof (intro allI impI)
    fix j
    assume j: "j < k"
    then have "?d ! argmin_list ?d < ?d ! j"
      by (intro argmin_list_first) (simp add: k)
    with j less show "f (cs ! k) < f (cs ! j)"
      by (simp add: k)
  qed
qed

lemma two_items: "length vs = 2 \<Longrightarrow> vs = [vs ! 0, vs ! 1]"
  by (auto simp add: length_Suc_conv numeral_2_eq_2)


subsection \<open>The example frames\<close>

lemma example_multiplier: "length_multiplier ext example_frame = Inr (Some 1)"
  by (simp add: length_multiplier_def model_length_units_code units_def
      parse_units_from_proj4_def bindE_Inr example_frame_def)

lemma rotated_multiplier: "length_multiplier ext rotated_frame = Inr (Some 1)"
  by (simp add: length_multiplier_def model_length_units_code units_def
      parse_units_from_proj4_def bindE_Inr rotated_frame_def)

lemma half_turn_multiplier: "length_multiplier ext half_turn_frame = Inr (Some 1)"
  by (simp add: length_multiplier_def model_length_units_code units_def
      parse_units_from_proj4_def bindE_Inr half_turn_frame_def)

lemma integer_multiplier: "length_multiplier ext integer_frame = Inr (Some 1)"
  by (simp add: length_multiplier_def model_length_units_code units_def
      parse_units_from_proj4_def bindE_Inr integer_frame_def example_frame_def)

lemma example_origin:
  "set_origin exact ext example_frame (xul example_frame) (yul example_frame)
     (xll example_frame) (yll example_frame) = Inr example_frame"
proof -
  have loc: "origin_loc example_frame = ''ul''"
    by (simp add: example_frame_def)
  show ?thesis
    by (simp add: set_origin_ul [OF loc multiplier_operand_Some [OF example_multiplier]]
        offsets_exact)
       (simp add: example_frame_def reset_def or_zero_def add_reduce_def)
qed

lemma quarter_turn: "sin (90 * pi / 180) = 1" "cos (90 * pi / 180) = 0"
  by simp_all

lemma rotated_origin:
  "set_origin exact ext rotated_frame (xul rotated_frame) (yul rotated_frame)
     (xll rotated_frame) (yll rotated_frame) = Inr rotated_frame"
proof -
  have loc: "origin_loc rotated_frame = ''ll''"
    by (simp add: rotated_frame_def)
  show ?thesis
    by (simp add: set_origin_ll [OF loc multiplier_operand_Some [OF rotated_multiplier]]
        offsets_exact)
       (simp add: rotated_frame_def reset_def or_zero_def add_reduce_def)
qed

lemma half_turn_origin:
  "set_origin exact ext half_turn_frame (xul half_turn_frame) (yul half_turn_frame)
     (xll half_turn_frame) (yll half_turn_frame) = Inr half_turn_frame"
proof -
  have loc: "origin_loc half_turn_frame = ''ul''"
    by (simp add: half_turn_frame_def)
  show ?thesis
    by (simp add: set_origin_ul [OF loc multiplier_operand_Some [OF half_turn_multiplier]]
        offsets_exact)
       (simp add: half_turn_frame_def reset_def or_zero_def add_reduce_def)
qed

lemmas init_steps =
  init_def default_args_def new_object_def bindE_def np_array_def
  object_setattr_def getter_only_properties_def reset_def add_reduce_def
  set_spatialreference_def set_origin_def assign_xul_def assign_yul_def assign_xll_def
  assign_yll_def or_zero_def total_length_def yedge0_def
  Let_def emit_def number_operand_def multiplier_operand_def length_multiplier_def
  model_length_units_def lenuni_text_def units_def parse_units_from_proj4_def
  theta_def get_yedge_array_def add_accumulate_def array1_def

lemma init_example: "init exact no_externals example_args = Inr example_frame"
  by (simp add: init_steps example_args_def example_frame_def)

lemma init_rotated: "init exact no_externals rotated_args = Inr rotated_frame"
  by (simp add: init_steps rotated_args_def rotated_frame_def)

lemma init_rows_only: "init exact no_externals rows_only_args = Inr rows_only_frame"
  by (simp add: init_steps rows_only_args_def rows_only_frame_def)

lemma init_half_turn: "init exact no_externals half_turn_args = Inr half_turn_frame"
  by (simp add: init_steps half_turn_args_def example_args_def half_turn_frame_def)

lemma init_integer: "init exact no_externals integer_args = Inr integer_frame"
  by (simp add: init_steps integer_args_def integer_frame_def example_frame_def wrap64_def)

lemma example_centers:
  "data (get_xcenter_array exact example_frame) = [5, 25]"
  "data (get_ycenter_array exact example_frame) = [50, 20]"
  "nrow example_frame = 2" "ncol example_frame = 2"
  by (simp_all add: get_xcenter_array_def get_ycenter_array_def nrow_def ncol_def
      add_accumulate_def add_reduce_def example_frame_def)

lemma half_turn_centers:
  "data (get_xcenter_array exact half_turn_frame) = [5, 25]"
  "data (get_ycenter_array exact half_turn_frame) = [50, 20]"
  "nrow half_turn_frame = 2" "ncol half_turn_frame = 2"
  by (simp_all add: get_xcenter_array_def get_ycenter_array_def nrow_def ncol_def
      add_accumulate_def add_reduce_def half_turn_frame_def)

lemma upt_two: "[0..<2] = [0, Suc 0]"
  by (simp add: numeral_2_eq_2)


subsection \<open>Double precision\<close>

lemma round64_small:
  assumes "2 ^ 52 \<le> \<bar>x\<bar> * 2 ^ k" "\<bar>x\<bar> * 2 ^ k < 2 ^ 53"
  shows "round64 x = of_int (half_even (x * 2 ^ k)) / 2 ^ k"
proof -
  from assms have nz: "x \<noteq> 0" by auto
  have p: "2 powr real_of_int (52 - int k) = 2 ^ 52 / (2::real) ^ k"
    by (simp add: powr_diff powr_realpow)
  have q: "2 powr (real_of_int (52 - int k) + 1) = 2 ^ 53 / (2::real) ^ k"
    by (simp add: powr_diff powr_realpow powr_add)
  have "\<lfloor>log 2 \<bar>x\<bar>\<rfloor> = 52 - int k
      \<longleftrightarrow> 2 powr real_of_int (52 - int k) \<le> \<bar>x\<bar> \<and> \<bar>x\<bar> < 2 powr (real_of_int (52 - int k) + 1)"
    using nz floor_log_eq_powr_iff [of "\<bar>x\<bar>" 2 "52 - int k"] by simp
  with assms have "\<lfloor>log 2 \<bar>x\<bar>\<rfloor> = 52 - int k"
    unfolding p q by (simp add: field_simps)
  then have e: "\<lfloor>log 2 \<bar>x\<bar>\<rfloor> - 52 = - int k" by simp
  have "2 powr of_int (- int k) = 1 / (2::real) ^ k"
    by (simp add: powr_minus powr_realpow field_simps)
  with nz e show ?thesis
    by (simp add: round64_def Let_def)
qed

lemma round64_large:
  assumes "2 ^ 52 \<le> \<bar>x\<bar> / 2 ^ k" "\<bar>x\<bar> / 2 ^ k < 2 ^ 53"
  shows "round64 x = of_int (half_even (x / 2 ^ k)) * 2 ^ k"
proof -
  from assms have nz: "x \<noteq> 0" by auto
  have p: "2 powr real_of_int (52 + int k) = 2 ^ 52 * (2::real) ^ k"
    by (simp add: powr_add powr_realpow)
  have q: "2 powr (real_of_int (52 + int k) + 1) = 2 ^ 53 * (2::real) ^ k"
    by (simp add: powr_realpow powr_add)
  have "\<lfloor>log 2 \<bar>x\<bar>\<rfloor> = 52 + int k
      \<longleftrightarrow> 2 powr real_of_int (52 + int k) \<le> \<bar>x\<bar> \<and> \<bar>x\<bar> < 2 powr (real_of_int (52 + int k) + 1)"
    using nz floor_log_eq_powr_iff [of "\<bar>x\<bar>" 2 "52 + int k"] by simp
  with assms have "\<lfloor>log 2 \<bar>x\<bar>\<rfloor> = 52 + int k"
    unfolding p q by (simp add: field_simps)
  then have e: "\<lfloor>log 2 \<bar>x\<bar>\<rfloor> - 52 = int k" by simp
  have "2 powr of_int (int k) = (2::real) ^ k"
    by (simp add: powr_realpow)
  with nz e show ?thesis
    by (simp add: round64_def Let_def)
qed

lemma binary64_fields:
  "fl binary64 = round64" "np_sin binary64 v = round64 (sin v)"
  "np_cos binary64 v = round64 (cos v)" "float_sum binary64 = pairwise_sum round64"
  by (simp_all add: binary64_def)

lemma round64_zero: "round64 0 = 0"
  by (simp add: round64_def)

lemma half_even_int: "half_even (of_int z) = z"
  by (simp add: half_even_def)

lemma round64_int:
  assumes nz: "n \<noteq> 0" and small: "\<bar>n\<bar> < 2 ^ 53"
  shows "round64 (of_int n) = of_int n"
proof -
  let ?x = "real_of_int n"
  from nz have "1 \<le> \<bar>n\<bar>"
    by simp
  then have "real_of_int 1 \<le> real_of_int \<bar>n\<bar>"
    by (simp only: of_int_le_iff)
  then have one: "1 \<le> \<bar>?x\<bar>"
    by simp
  from small have "real_of_int \<bar>n\<bar> < real_of_int (2 ^ 53)"
    by (simp only: of_int_less_iff)
  then have "\<bar>?x\<bar> < 2 ^ 53"
    by simp
  then have "\<bar>?x\<bar> < 2 powr 53"
    by (simp add: powr_realpow [symmetric])
  with one have up: "log 2 \<bar>?x\<bar> < 53"
    by (subst log_less_iff) simp_all
  from one have low: "0 \<le> log 2 \<bar>?x\<bar>"
    by simp
  define m where "m = nat (52 - \<lfloor>log 2 \<bar>?x\<bar>\<rfloor>)"
  from up have "\<lfloor>log 2 \<bar>?x\<bar>\<rfloor> < 53"
    by linarith
  then have e: "\<lfloor>log 2 \<bar>?x\<bar>\<rfloor> - 52 = - int m"
    by (simp add: m_def)
  have p: "2 powr real_of_int (- int m) = 1 / 2 ^ m"
    by (simp add: powr_minus powr_realpow field_simps)
  have "?x / (1 / 2 ^ m) = of_int (n * 2 ^ m)"
    by simp
  then have h: "half_even (?x / (1 / 2 ^ m)) = n * 2 ^ m"
    by (simp only: half_even_int)
  from h p have "real_of_int (half_even (?x / 2 powr real_of_int (- int m)))
      * 2 powr real_of_int (- int m) = ?x"
    by simp
  with nz e show ?thesis
    by (simp add: round64_def Let_def)
qed

lemma round64_numeral:
  "numeral k < (2 ^ 53 :: int) \<Longrightarrow> round64 (numeral k) = numeral k"
  "numeral k < (2 ^ 53 :: int) \<Longrightarrow> round64 (- numeral k) = - numeral k"
  using round64_int [of "numeral k"] round64_int [of "- numeral k"] by simp_all

lemma round64_wide:
  "round64 10000000000000001 = 10000000000000000"
  "round64 (19999999999999999 / 2) = 10000000000000000"
  "round64 5000000000000000 = 5000000000000000"
  "round64 (1 / 2) = 1 / 2"
  "round64 10000000000000000 = 10000000000000000"
  by (subst round64_large [where k = 1], simp_all add: half_even_def Let_def)
     (subst round64_large [where k = 1], simp_all add: half_even_def Let_def,
      subst round64_small [where k = 0], simp_all add: half_even_def Let_def,
      subst round64_small [where k = 53], simp_all add: half_even_def Let_def,
      subst round64_large [where k = 1], simp_all add: half_even_def Let_def)

section \<open>Rotating forth and back\<close>

lemma rotate_polar:
  fixes xo :: real
  shows "xo + cos t * (d * cos p) - sin t * (d * sin p) = xo + d * cos (p + t)"
    "yo + sin t * (d * cos p) + cos t * (d * sin p) = yo + d * sin (p + t)"
  by (simp_all add: cos_add sin_add algebra_simps)

text \<open>
  Claim C6. \<^verbatim>\<open>rotate\<close> is a primitive of its own; the statement is about exact
  arithmetic, as the claim is. On two arrays of one shape (a single point is two
  scalars) it returns two float arrays of that shape, and rotating the result by
  the opposite angle about the same origin gives the elements back, for every
  angle in degrees and every origin. A positive angle turns counter-clockwise: the
  point \<open>(u, v)\<close> goes to
  \<open>(xo + cos t (u - xo) - sin t (v - yo), yo + sin t (u - xo) + cos t (v - yo))\<close>
  with \<open>t\<close> the angle in radians, so the point at the distance \<open>d\<close> from the
  origin in the direction \<open>p\<close> (measured from the x axis towards the y axis) goes
  to the point at the same distance in the direction \<open>p + t\<close>.
\<close>

theorem rotate_inverse:
  "(same_shape x y \<longrightarrow>
      (\<exists>x' y'. rotate_xy exact x y \<theta> xo yo = Inr (x', y')
          \<and> shape x' = shape x \<and> shape y' = shape y
          \<and> rotate_xy exact x' y' (- \<theta>) xo yo
               = Inr (x\<lparr>dtype := Float64\<rparr>, y\<lparr>dtype := Float64\<rparr>)))
   \<and> rotate_xy exact (np_scalar u) (np_scalar v) \<theta> xo yo
       = Inr (np_scalar (xo + cos (\<theta> * pi / 180) * (u - xo) - sin (\<theta> * pi / 180) * (v - yo)),
              np_scalar (yo + sin (\<theta> * pi / 180) * (u - xo) + cos (\<theta> * pi / 180) * (v - yo)))
   \<and> rotate_xy exact (np_scalar (xo + d * cos p)) (np_scalar (yo + d * sin p)) \<theta> xo yo
       = Inr (np_scalar (xo + d * cos (p + \<theta> * pi / 180)),
              np_scalar (yo + d * sin (p + \<theta> * pi / 180)))"
proof (intro conjI impI)
  assume sh: "same_shape x y"
  then have len: "length (data x) = length (data y)"
    by (rule same_shape_length)
  let ?x = "\<lparr>dtype = Float64, shape = shape x,
           data = map2 (\<lambda>xv yv. xo + cos (\<theta> * pi / 180) * (xv - xo)
                                  - sin (\<theta> * pi / 180) * (yv - yo)) (data x) (data y)\<rparr>"
  let ?y = "\<lparr>dtype = Float64, shape = shape x,
           data = map2 (\<lambda>xv yv. yo + sin (\<theta> * pi / 180) * (xv - xo)
                                  + cos (\<theta> * pi / 180) * (yv - yo)) (data x) (data y)\<rparr>"
  have forth: "rotate_xy exact x y \<theta> xo yo = Inr (?x, ?y)"
    by (rule rotate_xy_exact [OF sh])
  from sh len have sh': "same_shape ?x ?y"
    by (simp add: same_shape_def)
  from sh have eq: "shape y = shape x"
    by (simp add: same_shape_def)
  have return: "rotate_xy exact ?x ?y (- \<theta>) xo yo
      = Inr (x\<lparr>dtype := Float64\<rparr>, y\<lparr>dtype := Float64\<rparr>)"
    using len eq
    by (simp add: rotate_xy_exact [OF sh'] map2_rot_back_x map2_rot_back_y)
  from forth return eq
  show "\<exists>x' y'. rotate_xy exact x y \<theta> xo yo = Inr (x', y')
          \<and> shape x' = shape x \<and> shape y' = shape y
          \<and> rotate_xy exact x' y' (- \<theta>) xo yo
               = Inr (x\<lparr>dtype := Float64\<rparr>, y\<lparr>dtype := Float64\<rparr>)"
    by simp
next
  show "rotate_xy exact (np_scalar u) (np_scalar v) \<theta> xo yo
       = Inr (np_scalar (xo + cos (\<theta> * pi / 180) * (u - xo) - sin (\<theta> * pi / 180) * (v - yo)),
              np_scalar (yo + sin (\<theta> * pi / 180) * (u - xo) + cos (\<theta> * pi / 180) * (v - yo)))"
    by (rule rotate_xy_scalar)
next
  show "rotate_xy exact (np_scalar (xo + d * cos p)) (np_scalar (yo + d * sin p)) \<theta> xo yo
       = Inr (np_scalar (xo + d * cos (p + \<theta> * pi / 180)),
              np_scalar (yo + d * sin (p + \<theta> * pi / 180)))"
    by (simp add: rotate_xy_scalar rotate_polar)
qed

theorem rotate_inverse_witness:
  "same_shape (array1 Float64 [1, 2]) (array1 Float64 [3, 4])
   \<and> rotate_xy exact (array1 Float64 [1, 2]) (array1 Float64 [3, 4]) 90 0 0
       = Inr (array1 Float64 [- 3, - 4], array1 Float64 [1, 2])
   \<and> rotate_xy exact (array1 Float64 [- 3, - 4]) (array1 Float64 [1, 2]) (- 90) 0 0
       = Inr (array1 Float64 [1, 2], array1 Float64 [3, 4])"
proof -
  have sh: "same_shape (array1 Float64 [1, 2]) (array1 Float64 [3, 4])"
    by (simp add: same_shape_def)
  have forth: "rotate_xy exact (array1 Float64 [1, 2]) (array1 Float64 [3, 4]) 90 0 0
       = Inr (array1 Float64 [- 3, - 4], array1 Float64 [1, 2])"
    by (simp add: rotate_xy_exact [OF sh])
  from rotate_inverse [of "array1 Float64 [1, 2]" "array1 Float64 [3, 4]" 90 0 0] sh forth
  have "rotate_xy exact (array1 Float64 [- 3, - 4]) (array1 Float64 [1, 2]) (- 90) 0 0
       = Inr ((array1 Float64 [1, 2])\<lparr>dtype := Float64\<rparr>,
              (array1 Float64 [3, 4])\<lparr>dtype := Float64\<rparr>)"
    by simp
  then have "rotate_xy exact (array1 Float64 [- 3, - 4]) (array1 Float64 [1, 2]) (- 90) 0 0
       = Inr (array1 Float64 [1, 2], array1 Float64 [3, 4])"
    by (simp add: array1_def)
  with sh forth show ?thesis
    by simp
qed

section \<open>Edges and centres of the cells\<close>

text \<open>
  Claim C7, as amended. The four arrays have one entry per edge and per centre. In
  exact arithmetic, for spacings whose sums do not wrap around (floats, or
  integers that are not negative with a total that fits 64 bits): the column
  edges are 0 followed by the running sums of \<^verbatim>\<open>delr\<close>, and the centre of column
  \<open>i\<close> is the running sum through \<open>i\<close> less half of entry \<open>i\<close>; the row edges
  start at the total of \<^verbatim>\<open>delc\<close> and end at 0, and the centre of row \<open>i\<close> is the
  total less the running sum plus half of entry \<open>i\<close>, so row 0 is the top row; on
  either axis, where entry \<open>i\<close> is positive the centre of cell \<open>i\<close> lies strictly
  between its two edges.
\<close>

theorem edges_and_centers:
  "length (data (get_xedge_array ar s)) = ncol s + 1
   \<and> length (data (get_xcenter_array ar s)) = ncol s
   \<and> length (data (get_yedge_array ar s)) = nrow s + 1
   \<and> length (data (get_ycenter_array ar s)) = nrow s
   \<and> (no_overflow (delr s) \<longrightarrow>
        data (get_xedge_array exact s) ! 0 = 0
      \<and> (\<forall>i < ncol s.
            data (get_xedge_array exact s) ! Suc i = sum_list (take (Suc i) (data (delr s)))
          \<and> data (get_xcenter_array exact s) ! i
               = sum_list (take (Suc i) (data (delr s))) - data (delr s) ! i / 2
          \<and> (0 < data (delr s) ! i \<longrightarrow>
                data (get_xedge_array exact s) ! i < data (get_xcenter_array exact s) ! i
              \<and> data (get_xcenter_array exact s) ! i < data (get_xedge_array exact s) ! Suc i)))
   \<and> (no_overflow (delc s) \<longrightarrow>
        data (get_yedge_array exact s) ! 0 = sum_list (data (delc s))
      \<and> data (get_yedge_array exact s) ! nrow s = 0
      \<and> (\<forall>i < nrow s.
            data (get_yedge_array exact s) ! Suc i
               = sum_list (data (delc s)) - sum_list (take (Suc i) (data (delc s)))
          \<and> data (get_ycenter_array exact s) ! i
               = sum_list (data (delc s)) - sum_list (take (Suc i) (data (delc s)))
                 + data (delc s) ! i / 2
          \<and> (0 < data (delc s) ! i \<longrightarrow>
                data (get_yedge_array exact s) ! Suc i < data (get_ycenter_array exact s) ! i
              \<and> data (get_ycenter_array exact s) ! i < data (get_yedge_array exact s) ! i)))"
proof (intro conjI impI allI)
  show "length (data (get_xedge_array ar s)) = ncol s + 1"
    by (rule length_xedge)
  show "length (data (get_xcenter_array ar s)) = ncol s"
    by (rule length_xcenter)
  show "length (data (get_yedge_array ar s)) = nrow s + 1"
    by (rule length_yedge)
  show "length (data (get_ycenter_array ar s)) = nrow s"
    by (rule length_ycenter)
next
  assume "no_overflow (delr s)"
  then show "data (get_xedge_array exact s) ! 0 = 0"
    by (simp add: nth_xedge)
next
  fix i
  assume no: "no_overflow (delr s)" and i: "i < ncol s"
  from no i show "data (get_xedge_array exact s) ! Suc i = sum_list (take (Suc i) (data (delr s)))"
    by (simp add: nth_xedge)
  from no i show "data (get_xcenter_array exact s) ! i
               = sum_list (take (Suc i) (data (delr s))) - data (delr s) ! i / 2"
    by (rule nth_xcenter)
next
  fix i
  assume no: "no_overflow (delr s)" and i: "i < ncol s" and d: "0 < data (delr s) ! i"
  from no i have e0: "data (get_xedge_array exact s) ! i = sum_list (take i (data (delr s)))"
    by (simp add: nth_xedge)
  from no i have e1:
    "data (get_xedge_array exact s) ! Suc i = sum_list (take (Suc i) (data (delr s)))"
    by (simp add: nth_xedge)
  from i have st: "sum_list (take (Suc i) (data (delr s)))
      = sum_list (take i (data (delr s))) + data (delr s) ! i"
    by (simp add: sum_list_take_Suc ncol_def)
  from no i have c: "data (get_xcenter_array exact s) ! i
      = sum_list (take (Suc i) (data (delr s))) - data (delr s) ! i / 2"
    by (rule nth_xcenter)
  from d e0 st c show "data (get_xedge_array exact s) ! i < data (get_xcenter_array exact s) ! i"
    by simp
  from d e1 st c
  show "data (get_xcenter_array exact s) ! i < data (get_xedge_array exact s) ! Suc i"
    by simp
next
  assume no: "no_overflow (delc s)"
  then show "data (get_yedge_array exact s) ! 0 = sum_list (data (delc s))"
    by (simp add: nth_yedge)
  from no show "data (get_yedge_array exact s) ! nrow s = 0"
    by (simp add: nth_yedge nrow_def)
next
  fix i
  assume no: "no_overflow (delc s)" and i: "i < nrow s"
  from no i show "data (get_yedge_array exact s) ! Suc i
               = sum_list (data (delc s)) - sum_list (take (Suc i) (data (delc s)))"
    by (simp add: nth_yedge)
  from no i show "data (get_ycenter_array exact s) ! i
               = sum_list (data (delc s)) - sum_list (take (Suc i) (data (delc s)))
                 + data (delc s) ! i / 2"
    by (rule nth_ycenter)
next
  fix i
  assume no: "no_overflow (delc s)" and i: "i < nrow s" and d: "0 < data (delc s) ! i"
  from no i have e0: "data (get_yedge_array exact s) ! i
      = sum_list (data (delc s)) - sum_list (take i (data (delc s)))"
    by (simp add: nth_yedge)
  from no i have e1: "data (get_yedge_array exact s) ! Suc i
      = sum_list (data (delc s)) - sum_list (take (Suc i) (data (delc s)))"
    by (simp add: nth_yedge)
  from i have st: "sum_list (take (Suc i) (data (delc s)))
      = sum_list (take i (data (delc s))) + data (delc s) ! i"
    by (simp add: sum_list_take_Suc nrow_def)
  from no i have c: "data (get_ycenter_array exact s) ! i
      = sum_list (data (delc s)) - sum_list (take (Suc i) (data (delc s)))
        + data (delc s) ! i / 2"
    by (rule nth_ycenter)
  from d e1 st c
  show "data (get_yedge_array exact s) ! Suc i < data (get_ycenter_array exact s) ! i"
    by simp
  from d e0 st c show "data (get_ycenter_array exact s) ! i < data (get_yedge_array exact s) ! i"
    by simp
qed

text \<open>
  Against claim C7 as stated, with spacings that are all positive. In double
  precision the columns of the widths \<open>10 ^ 16\<close> and 1 have the edges 0,
  \<open>10 ^ 16\<close> and again \<open>10 ^ 16\<close>, and the centre of the second column is
  \<open>10 ^ 16\<close> too: it is not strictly between its edges. And the total of two
  integer rows of the height \<open>2 ^ 62\<close> wraps around: the row edges start at
  \<open>- 2 ^ 63\<close>, which is not the total \<open>2 ^ 63\<close>, and the second edge
  \<open>2 ^ 62\<close> lies above the first.
\<close>

theorem edges_and_centers_counterexample:
  "list_all (\<lambda>d. 0 < d) (data (delr wide_frame))
   \<and> data (get_xedge_array binary64 wide_frame) = [0, 10 ^ 16, 10 ^ 16]
   \<and> data (get_xcenter_array binary64 wide_frame) = [5 * 10 ^ 15, 10 ^ 16]
   \<and> \<not> data (get_xedge_array binary64 wide_frame) ! 1
         < data (get_xcenter_array binary64 wide_frame) ! 1
   \<and> \<not> data (get_xcenter_array binary64 wide_frame) ! 1
         < data (get_xedge_array binary64 wide_frame) ! 2
   \<and> list_all (\<lambda>d. 0 < d) (data (delc overflow_frame))
   \<and> dtype (delc overflow_frame) = Int64
   \<and> sum_list (data (delc overflow_frame)) = 2 ^ 63
   \<and> data (get_yedge_array binary64 overflow_frame) = [- (2 ^ 63), 2 ^ 62, 0]"
proof -
  have x: "data (get_xedge_array binary64 wide_frame) = [0, 10 ^ 16, 10 ^ 16]"
    "data (get_xcenter_array binary64 wide_frame) = [5 * 10 ^ 15, 10 ^ 16]"
    by (simp_all add: get_xedge_array_def get_xcenter_array_def add_accumulate_def add_of_def
        fadd_def fsub_def fmul_def binary64_fields wide_frame_def round64_wide)
  have y: "data (get_yedge_array binary64 overflow_frame) = [- (2 ^ 63), 2 ^ 62, 0]"
    by (simp add: get_yedge_array_def add_accumulate_def add_reduce_def add_of_def sub_of_def
        wrap64_def overflow_frame_def)
  have d: "list_all (\<lambda>d. 0 < d) (data (delr wide_frame))"
    "list_all (\<lambda>d. 0 < d) (data (delc overflow_frame))"
    "dtype (delc overflow_frame) = Int64" "sum_list (data (delc overflow_frame)) = 2 ^ 63"
    by (simp_all add: wide_frame_def overflow_frame_def)
  from x y d show ?thesis
    by simp
qed

theorem edges_and_centers_witness:
  "no_overflow (delr example_frame) \<and> no_overflow (delc example_frame)
   \<and> data (get_xedge_array exact example_frame) = [0, 10, 40]
   \<and> data (get_xcenter_array exact example_frame) = [5, 25]
   \<and> data (get_yedge_array exact example_frame) = [60, 40, 0]
   \<and> data (get_ycenter_array exact example_frame) = [50, 20]
   \<and> 0 < data (delr example_frame) ! 1 \<and> 0 < data (delc example_frame) ! 1
   \<and> data (get_xedge_array exact example_frame) ! 1 < data (get_xcenter_array exact example_frame) ! 1
   \<and> data (get_xcenter_array exact example_frame) ! 1
       < data (get_xedge_array exact example_frame) ! Suc 1
   \<and> data (get_yedge_array exact example_frame) ! Suc 1
       < data (get_ycenter_array exact example_frame) ! 1
   \<and> data (get_ycenter_array exact example_frame) ! 1 < data (get_yedge_array exact example_frame) ! 1
   \<and> no_overflow (delc integer_frame)
   \<and> data (get_yedge_array exact integer_frame) = [60, 40, 0]
   \<and> data (get_ycenter_array exact integer_frame) = [50, 20]"
proof -
  have no: "no_overflow (delr example_frame)" "no_overflow (delc example_frame)"
    "no_overflow (delc integer_frame)"
    by (simp_all add: no_overflow_def example_frame_def integer_frame_def)
  have n: "1 < ncol example_frame" "1 < nrow example_frame"
    "0 < data (delr example_frame) ! 1" "0 < data (delc example_frame) ! 1"
    by (simp_all add: ncol_def nrow_def example_frame_def)
  from edges_and_centers [of exact example_frame] no n
  have "data (get_xedge_array exact example_frame) ! 1 < data (get_xcenter_array exact example_frame) ! 1
   \<and> data (get_xcenter_array exact example_frame) ! 1
       < data (get_xedge_array exact example_frame) ! Suc 1
   \<and> data (get_yedge_array exact example_frame) ! Suc 1
       < data (get_ycenter_array exact example_frame) ! 1
   \<and> data (get_ycenter_array exact example_frame) ! 1 < data (get_yedge_array exact example_frame) ! 1"
    by blast
  moreover have "data (get_xedge_array exact example_frame) = [0, 10, 40]"
    "data (get_xcenter_array exact example_frame) = [5, 25]"
    "data (get_yedge_array exact example_frame) = [60, 40, 0]"
    "data (get_ycenter_array exact example_frame) = [50, 20]"
    by (simp_all add: example_frame_def get_xedge_array_def get_xcenter_array_def
        get_yedge_array_def get_ycenter_array_def add_accumulate_def add_reduce_def)
  moreover have "data (get_yedge_array exact integer_frame) = [60, 40, 0]"
    "data (get_ycenter_array exact integer_frame) = [50, 20]"
    by (simp_all add: example_frame_def integer_frame_def get_yedge_array_def
        get_ycenter_array_def add_accumulate_def add_reduce_def add_of_def sub_of_def wrap64_def)
  ultimately show ?thesis
    using no n by blast
qed

section \<open>The length multiplier\<close>

text \<open>
  Claim C9. A multiplier that was supplied wins, whatever the units are.
  Without one, the multiplier follows from the code of the model's length unit
  (1 feet, 2 meters, 3 centimeters, 0 undefined) and the units that the frame
  resolves to: feet to meters 0.3048, meters to feet 1/0.3048, centimeters to
  meters 0.01, centimeters to feet 1/30.48, the same unit on both sides 1, an
  undefined model unit 1. So a model in feet in a frame in meters has the
  multiplier 0.3048.
\<close>

theorem length_multiplier_resolution:
  "(p_length_multiplier s = Some m \<longrightarrow> length_multiplier ext s = Inr (Some m))
   \<and> (p_length_multiplier s = None \<and> units ext s = Inr u \<longrightarrow>
        (lenuni s = 1 \<and> u = ''meters'' \<longrightarrow> length_multiplier ext s = Inr (Some 0.3048))
      \<and> (lenuni s = 2 \<and> u = ''feet'' \<longrightarrow> length_multiplier ext s = Inr (Some (1 / 0.3048)))
      \<and> (lenuni s = 3 \<and> u = ''meters'' \<longrightarrow> length_multiplier ext s = Inr (Some 0.01))
      \<and> (lenuni s = 3 \<and> u = ''feet'' \<longrightarrow> length_multiplier ext s = Inr (Some (1 / 30.48)))
      \<and> (lenuni s = 1 \<and> u = ''feet'' \<longrightarrow> length_multiplier ext s = Inr (Some 1))
      \<and> (lenuni s = 2 \<and> u = ''meters'' \<longrightarrow> length_multiplier ext s = Inr (Some 1)))
   \<and> (p_length_multiplier s = None \<and> lenuni s = 0 \<longrightarrow> length_multiplier ext s = Inr (Some 1))"
  by (simp add: length_multiplier_def model_length_units_code bindE_Inr)

theorem length_multiplier_resolution_witness:
  "p_length_multiplier (example_frame\<lparr>p_length_multiplier := Some 2\<rparr>) = Some 2
   \<and> length_multiplier no_externals (example_frame\<lparr>p_length_multiplier := Some 2\<rparr>) = Inr (Some 2)
   \<and> p_length_multiplier (example_frame\<lparr>lenuni := 1\<rparr>) = None
   \<and> units no_externals (example_frame\<lparr>lenuni := 1\<rparr>) = Inr ''meters''
   \<and> lenuni (example_frame\<lparr>lenuni := 1\<rparr>) = 1
   \<and> length_multiplier no_externals (example_frame\<lparr>lenuni := 1\<rparr>) = Inr (Some 0.3048)
   \<and> lenuni (example_frame\<lparr>lenuni := 0\<rparr>) = 0
   \<and> length_multiplier no_externals (example_frame\<lparr>lenuni := 0\<rparr>) = Inr (Some 1)"
proof -
  have u: "units no_externals (example_frame\<lparr>lenuni := 1\<rparr>) = Inr ''meters''"
    by (simp add: units_def parse_units_from_proj4_def example_frame_def)
  have n: "p_length_multiplier (example_frame\<lparr>lenuni := 1\<rparr>) = None"
    "p_length_multiplier (example_frame\<lparr>lenuni := 0\<rparr>) = None"
    by (simp_all add: example_frame_def)
  from length_multiplier_resolution
         [of "example_frame\<lparr>p_length_multiplier := Some 2\<rparr>" 2 no_externals]
       length_multiplier_resolution [of "example_frame\<lparr>lenuni := 1\<rparr>" _ no_externals "''meters''"]
       length_multiplier_resolution [of "example_frame\<lparr>lenuni := 0\<rparr>" _ no_externals]
       u n
  show ?thesis by simp
qed

section \<open>Constructing an unstructured frame\<close>

text \<open>
  Claim C10. The constructor of the unstructured frame raises an AttributeError
  for every input, whatever the topology is: it assigns \<^verbatim>\<open>self.epsg\<close> (and further
  down \<^verbatim>\<open>self.length_multiplier\<close>), both names of properties without a setter
  that it inherits, and its \<^verbatim>\<open>__setattr__\<close> hands every key to the assignment of
  \<^verbatim>\<open>object\<close>, which refuses these two.
\<close>

theorem unstructured_constructor_raises:
  "sru_init ext xc_arg yc_arg verts_arg iverts_arg ncpl_arg layered_arg lenuni_arg
       proj4_str_arg epsg_arg units_arg length_multiplier_arg
     = Inl (AttributeError ''can't set attribute'')
   \<and> sru_setattr ''epsg'' store s = Inl (AttributeError ''can't set attribute'')
   \<and> sru_setattr ''length_multiplier'' store s = Inl (AttributeError ''can't set attribute'')"
  by (simp add: sru_init_def sru_setattr_def object_setattr_def getter_only_properties_def
      bindE_def)



section \<open>The transform\<close>

lemma np_scalar_fields [simp]:
  "dtype (np_scalar v) = Float64" "shape (np_scalar v) = []" "data (np_scalar v) = [v]"
  by (simp_all add: np_scalar_def)

text \<open>
  Claim C1, as amended. On a frame whose multiplier resolves and whose origin is
  one of the two left corners, \<^verbatim>\<open>transform(x, y)\<close> of two float arrays of one shape
  returns two float arrays of that shape: the origin is set again, then every
  element is multiplied by the length multiplier, then the lower-left corner
  \<open>(xll, yll)\<close> of the frame is added, then the result is rotated by the rotation
  angle about \<open>(xll, yll)\<close>, in this order, element by element and with the
  rounding of each operation. In exact arithmetic the model point at the distance
  \<open>d\<close> from the model origin in the direction \<open>p\<close> goes to the point at the
  distance \<open>lm d\<close> from \<open>(xll, yll)\<close> in the direction \<open>p\<close> plus the rotation,
  counter-clockwise, and with rotation 0 and multiplier 1 the result is
  \<open>(x + xll, y + yll)\<close>. The corner is the one the frame has when \<^verbatim>\<open>transform\<close>
  returns; on a frame placed by its lower-left corner it is the stored corner. An
  integer array is refused with a TypeError.
\<close>

theorem transform_scale_translate_rotate:
  assumes lm: "length_multiplier ext s = Inr (Some lm)"
    and loc: "origin_loc s = ''ul'' \<or> origin_loc s = ''ll''"
    and sh: "same_shape x y"
  shows "(dtype x = Float64 \<and> dtype y = Float64 \<longrightarrow>
     (\<exists>s' xo yo x' y'.
        set_origin ar ext s (xul s) (yul s) (xll s) (yll s) = Inr s'
      \<and> xll s' = Some xo \<and> yll s' = Some yo \<and> rotation s' = rotation s
      \<and> length_multiplier ext s' = Inr (Some lm)
      \<and> rotate_xy ar (np_map (\<lambda>v. fadd ar v xo) (np_map (\<lambda>v. fmul ar v lm) x))
                     (np_map (\<lambda>v. fadd ar v yo) (np_map (\<lambda>v. fmul ar v lm) y)) (rotation s) xo yo
           = Inr (x', y')
      \<and> transform ar ext s x y = Inr ((x', y'), s')
      \<and> dtype x' = Float64 \<and> dtype y' = Float64 \<and> shape x' = shape x \<and> shape y' = shape y
      \<and> length (data x') = length (data x) \<and> length (data y') = length (data y)
      \<and> (\<forall>k < length (data x).
             data x' ! k = world_x ar (rotation s) lm xo yo (data x ! k) (data y ! k)
           \<and> data y' ! k = world_y ar (rotation s) lm xo yo (data x ! k) (data y ! k))
      \<and> (origin_loc s = ''ll'' \<longrightarrow> xo = or_zero (xll s) \<and> yo = or_zero (yll s))
      \<and> (ar = exact \<longrightarrow>
            (\<forall>k < length (data x).
               data x' ! k = xo + cos (rotation s * pi / 180) * (lm * data x ! k)
                                - sin (rotation s * pi / 180) * (lm * data y ! k)
             \<and> data y' ! k = yo + sin (rotation s * pi / 180) * (lm * data x ! k)
                                + cos (rotation s * pi / 180) * (lm * data y ! k)
             \<and> (\<forall>d p. data x ! k = d * cos p \<and> data y ! k = d * sin p \<longrightarrow>
                   data x' ! k = xo + lm * d * cos (p + rotation s * pi / 180)
                 \<and> data y' ! k = yo + lm * d * sin (p + rotation s * pi / 180)))
          \<and> (rotation s = 0 \<and> lm = 1 \<longrightarrow>
               x' = np_map (\<lambda>v. v + xo) x \<and> y' = np_map (\<lambda>v. v + yo) y))))
   \<and> (dtype x = Int64 \<or> dtype y = Int64 \<longrightarrow>
        (\<exists>msg. transform ar ext s x y = Inl (TypeError msg)))"
proof (intro conjI impI)
  from lm have m: "multiplier_operand ext s = Inr lm"
    by (rule multiplier_operand_Some)
  from set_origin_returns [OF m]
  obtain s' where so: "set_origin ar ext s (xul s) (yul s) (xll s) (yll s) = Inr s'"
    by blast
  note keep = set_origin_keeps [OF so]
  from keep lm have lm': "length_multiplier ext s' = Inr (Some lm)"
    by simp
  then have m': "multiplier_operand ext s' = Inr lm"
    by (rule multiplier_operand_Some)
  {
    assume "dtype x = Int64 \<or> dtype y = Int64"
    then show "\<exists>msg. transform ar ext s x y = Inl (TypeError msg)"
      by (rule transform_int [OF so m'])
  }
  assume "dtype x = Float64 \<and> dtype y = Float64"
  then have fx: "dtype x = Float64" and fy: "dtype y = Float64"
    by simp_all
  from sh have shy: "shape y = shape x" and len: "length (data y) = length (data x)"
    by (simp_all add: same_shape_def)
  from transform_nth [OF m loc sh fx fy, of ar] so
  obtain x' y' xo yo where tr: "transform ar ext s x y = Inr ((x', y'), s')"
    and c: "xll s' = Some xo" "yll s' = Some yo"
    and ty: "dtype x' = Float64" "dtype y' = Float64"
    and shape: "shape x' = shape x" "shape y' = shape x"
    and length: "length (data x') = length (data x)" "length (data y') = length (data x)"
    and nth: "\<forall>k<length (data x).
          data x' ! k = world_x ar (rotation s) lm xo yo (data x ! k) (data y ! k)
        \<and> data y' ! k = world_y ar (rotation s) lm xo yo (data x ! k) (data y ! k)"
    by auto
  let ?x = "np_map (\<lambda>v. fadd ar v xo) (np_map (\<lambda>v. fmul ar v lm) x)"
  let ?y = "np_map (\<lambda>v. fadd ar v yo) (np_map (\<lambda>v. fmul ar v lm) y)"
  from sh have sh': "same_shape ?x ?y"
    by (simp add: same_shape_np_map)
  then obtain x'' y'' where rot': "rotate_xy ar ?x ?y (rotation s) xo yo = Inr (x'', y'')"
    using rotate_xy_returns by blast
  with tr have "x'' = x'" "y'' = y'"
    by (simp_all add: transform_eq [OF so m' c fx fy] keep bindE_Inr)
  with rot' have rot: "rotate_xy ar ?x ?y (rotation s) xo yo = Inr (x', y')"
    by simp
  have ll: "origin_loc s = ''ll'' \<longrightarrow> xo = or_zero (xll s) \<and> yo = or_zero (yll s)"
  proof
    assume l: "origin_loc s = ''ll''"
    from so c show "xo = or_zero (xll s) \<and> yo = or_zero (yll s)"
      by (auto simp add: set_origin_ll [OF l m])
  qed
  have ex: "ar = exact \<longrightarrow>
            (\<forall>k < length (data x).
               data x' ! k = xo + cos (rotation s * pi / 180) * (lm * data x ! k)
                                - sin (rotation s * pi / 180) * (lm * data y ! k)
             \<and> data y' ! k = yo + sin (rotation s * pi / 180) * (lm * data x ! k)
                                + cos (rotation s * pi / 180) * (lm * data y ! k)
             \<and> (\<forall>d p. data x ! k = d * cos p \<and> data y ! k = d * sin p \<longrightarrow>
                   data x' ! k = xo + lm * d * cos (p + rotation s * pi / 180)
                 \<and> data y' ! k = yo + lm * d * sin (p + rotation s * pi / 180)))
          \<and> (rotation s = 0 \<and> lm = 1 \<longrightarrow>
               x' = np_map (\<lambda>v. v + xo) x \<and> y' = np_map (\<lambda>v. v + yo) y)"
  proof (intro impI conjI allI)
    fix k
    assume e: "ar = exact" and k: "k < length (data x)"
    from nth k e
    show x: "data x' ! k = xo + cos (rotation s * pi / 180) * (lm * data x ! k)
                                - sin (rotation s * pi / 180) * (lm * data y ! k)"
      and y: "data y' ! k = yo + sin (rotation s * pi / 180) * (lm * data x ! k)
                                + cos (rotation s * pi / 180) * (lm * data y ! k)"
      by (simp_all add: world_exact mult.commute)
    fix d p
    assume polar: "data x ! k = d * cos p \<and> data y ! k = d * sin p"
    have "xo + cos (rotation s * pi / 180) * (lm * (d * cos p))
             - sin (rotation s * pi / 180) * (lm * (d * sin p))
          = xo + lm * d * cos (p + rotation s * pi / 180)"
      using rotate_polar(1) [of xo "rotation s * pi / 180" "lm * d" p]
      by (simp add: mult.assoc)
    with x polar show "data x' ! k = xo + lm * d * cos (p + rotation s * pi / 180)"
      by simp
    have "yo + sin (rotation s * pi / 180) * (lm * (d * cos p))
             + cos (rotation s * pi / 180) * (lm * (d * sin p))
          = yo + lm * d * sin (p + rotation s * pi / 180)"
      using rotate_polar(2) [of yo "rotation s * pi / 180" "lm * d" p]
      by (simp add: mult.assoc)
    with y polar show "data y' ! k = yo + lm * d * sin (p + rotation s * pi / 180)"
      by simp
  next
    assume e: "ar = exact" and z: "rotation s = 0 \<and> lm = 1"
    from rot e z rotate_xy_zero [OF sh' [unfolded e], of xo yo] fx fy
    show "x' = np_map (\<lambda>v. v + xo) x" "y' = np_map (\<lambda>v. v + yo) y"
      by (simp_all add: np_map_def)
  qed
  from so c keep(3) lm' rot tr ty shape length shy len nth ll ex
  show "\<exists>s' xo yo x' y'.
        set_origin ar ext s (xul s) (yul s) (xll s) (yll s) = Inr s'
      \<and> xll s' = Some xo \<and> yll s' = Some yo \<and> rotation s' = rotation s
      \<and> length_multiplier ext s' = Inr (Some lm)
      \<and> rotate_xy ar (np_map (\<lambda>v. fadd ar v xo) (np_map (\<lambda>v. fmul ar v lm) x))
                     (np_map (\<lambda>v. fadd ar v yo) (np_map (\<lambda>v. fmul ar v lm) y)) (rotation s) xo yo
           = Inr (x', y')
      \<and> transform ar ext s x y = Inr ((x', y'), s')
      \<and> dtype x' = Float64 \<and> dtype y' = Float64 \<and> shape x' = shape x \<and> shape y' = shape y
      \<and> length (data x') = length (data x) \<and> length (data y') = length (data y)
      \<and> (\<forall>k < length (data x).
             data x' ! k = world_x ar (rotation s) lm xo yo (data x ! k) (data y ! k)
           \<and> data y' ! k = world_y ar (rotation s) lm xo yo (data x ! k) (data y ! k))
      \<and> (origin_loc s = ''ll'' \<longrightarrow> xo = or_zero (xll s) \<and> yo = or_zero (yll s))
      \<and> (ar = exact \<longrightarrow>
            (\<forall>k < length (data x).
               data x' ! k = xo + cos (rotation s * pi / 180) * (lm * data x ! k)
                                - sin (rotation s * pi / 180) * (lm * data y ! k)
             \<and> data y' ! k = yo + sin (rotation s * pi / 180) * (lm * data x ! k)
                                + cos (rotation s * pi / 180) * (lm * data y ! k)
             \<and> (\<forall>d p. data x ! k = d * cos p \<and> data y ! k = d * sin p \<longrightarrow>
                   data x' ! k = xo + lm * d * cos (p + rotation s * pi / 180)
                 \<and> data y' ! k = yo + lm * d * sin (p + rotation s * pi / 180)))
          \<and> (rotation s = 0 \<and> lm = 1 \<longrightarrow>
               x' = np_map (\<lambda>v. v + xo) x \<and> y' = np_map (\<lambda>v. v + yo) y))"
    by (intro exI conjI) (assumption | simp)+
qed


lemma round64_offset:
  "round64 1 = 1"
  "round64 (- (3602879701896397 / 4503599627370496)) = - (3602879701896397 / 4503599627370496)"
  "round64 (6305039478318695 / 2251799813685248) = 6305039478318695 / 2251799813685248"
  "round64 (9007199254740993 / 4503599627370496) = 2"
  "round64 (12610078956637389 / 4503599627370496) = 3152519739159347 / 1125899906842624"
  "round64 (3152519739159347 / 1125899906842624) = 3152519739159347 / 1125899906842624"
  "round64 (9007199254740991 / 4503599627370496) = 9007199254740991 / 4503599627370496"
  by (subst round64_small [where k = 52], simp_all add: half_even_def Let_def)
     (subst round64_small [where k = 53], simp_all add: half_even_def Let_def,
      subst round64_small [where k = 51], simp_all add: half_even_def Let_def,
      subst round64_small [where k = 51], simp_all add: half_even_def Let_def,
      subst round64_small [where k = 51], simp_all add: half_even_def Let_def,
      subst round64_small [where k = 51], simp_all add: half_even_def Let_def,
      subst round64_small [where k = 52], simp_all add: half_even_def Let_def)

lemma offset_multiplier: "length_multiplier ext offset_frame = Inr (Some 1)"
  by (simp add: length_multiplier_def model_length_units_code units_def
      parse_units_from_proj4_def bindE_Inr offset_frame_def)

lemma offset_origin:
  "set_origin binary64 ext offset_frame (xul offset_frame) (yul offset_frame)
     (xll offset_frame) (yll offset_frame) = Inr offset_frame"
proof -
  have loc: "origin_loc offset_frame = ''ll''"
    by (simp add: offset_frame_def)
  have f: "rotation offset_frame = 0" "delc offset_frame = array1 Float64 [1]"
    "or_zero (xll offset_frame) = - (3602879701896397 / 4503599627370496)"
    "or_zero (yll offset_frame) = 0"
    by (simp_all add: offset_frame_def or_zero_def)
  have off: "x_offset binary64 0 (array1 Float64 [1]) 1 = 0"
    "y_offset binary64 0 (array1 Float64 [1]) 1 = 1"
    by (simp_all add: x_offset_def y_offset_def fmul_def fdiv_def binary64_fields add_reduce_def
        pairwise_sum.simps round64_zero round64_offset)
  show ?thesis
    by (simp add: set_origin_ll [OF loc multiplier_operand_Some [OF offset_multiplier]] f off
        fadd_def binary64_fields round64_offset)
       (simp add: offset_frame_def reset_def)
qed


lemmas double_steps =
  binary64_fields fadd_def fsub_def fmul_def fdiv_def pairwise_sum.simps round64_zero
  round64_offset(1) round64_numeral

lemma init_rows_only_double: "init binary64 no_externals rows_only_args = Inr rows_only_frame"
  by (simp add: init_steps rows_only_args_def rows_only_frame_def double_steps)

lemma init_two_corner_double: "init binary64 no_externals two_corner_args = Inr two_corner_frame"
  by (simp add: init_steps two_corner_args_def two_corner_frame_def double_steps)

text \<open>
  Against claim C1 as stated. An integer array is an array-shaped input, and
  \<^verbatim>\<open>transform\<close> raises a TypeError for it: the product with the multiplier, a
  float, cannot be stored in place. And in double precision the result for
  rotation 0 and multiplier 1 is not \<open>(x + xll, y + yll)\<close>: with \<open>xll\<close> the double
  next to \<open>-0.8\<close> and \<open>x\<close> the double \<open>6305039478318695 / 2 ^ 51\<close> (the product
  \<^verbatim>\<open>28 * 0.1\<close>) the sum \<open>x + xll\<close> is the double 2, and \<^verbatim>\<open>transform\<close> returns
  \<open>2 - 2 ^ -52\<close>, because \<^verbatim>\<open>rotate\<close> subtracts the corner and adds it again.
\<close>

theorem transform_scale_translate_rotate_counterexample:
  "transform exact no_externals example_frame (array1 Int64 [5, 25]) (array1 Int64 [50, 20])
     = Inl (TypeError ''Cannot cast ufunc multiply output from float64 to int64'')
   \<and> rotation offset_frame = 0
   \<and> length_multiplier no_externals offset_frame = Inr (Some 1)
   \<and> xll offset_frame = Some (- (3602879701896397 / 2 ^ 52)) \<and> yll offset_frame = Some 0
   \<and> transform binary64 no_externals offset_frame
        (array1 Float64 [6305039478318695 / 2 ^ 51]) (array1 Float64 [0])
       = Inr ((array1 Float64 [9007199254740991 / 2 ^ 52], array1 Float64 [0]), offset_frame)
   \<and> fadd binary64 (6305039478318695 / 2 ^ 51) (- (3602879701896397 / 2 ^ 52)) = 2
   \<and> fadd binary64 0 0 = 0"
proof -
  have int: "transform exact no_externals example_frame
      (array1 Int64 [5, 25]) (array1 Int64 [50, 20])
     = Inl (TypeError ''Cannot cast ufunc multiply output from float64 to int64'')"
    by (simp add: transform_def example_origin multiplier_operand_Some [OF example_multiplier]
        bindE_Inr bindE_Inl np_imul_def)
  have f: "rotation offset_frame = 0"
    "xll offset_frame = Some (- (3602879701896397 / 4503599627370496))"
    "yll offset_frame = Some 0"
    by (simp_all add: offset_frame_def)
  have sh: "same_shape (np_map (\<lambda>v. fadd binary64 v (- (3602879701896397 / 4503599627370496)))
                 (np_map (\<lambda>v. fmul binary64 v 1)
                    (array1 Float64 [6305039478318695 / 2251799813685248])))
              (np_map (\<lambda>v. fadd binary64 v 0)
                 (np_map (\<lambda>v. fmul binary64 v 1) (array1 Float64 [0])))"
    by (simp add: same_shape_def)
  have sums: "fadd binary64 (6305039478318695 / 2 ^ 51) (- (3602879701896397 / 2 ^ 52)) = 2"
    "fadd binary64 0 0 = 0"
    by (simp_all add: fadd_def binary64_fields round64_zero round64_offset)
  have "transform binary64 no_externals offset_frame
        (array1 Float64 [6305039478318695 / 2251799813685248]) (array1 Float64 [0])
       = Inr ((array1 Float64 [9007199254740991 / 4503599627370496], array1 Float64 [0]),
              offset_frame)"
    by (simp add: transform_eq [OF offset_origin multiplier_operand_Some [OF offset_multiplier] f(2,3)]
          rotate_xy_data [OF sh] f(1) bindE_Inr)
       (simp add: fadd_def fsub_def fmul_def fdiv_def binary64_fields round64_zero
          round64_offset array1_def)
  with int f sums offset_multiplier [of no_externals] show ?thesis
    by simp
qed

theorem transform_scale_translate_rotate_witness:
  "length_multiplier no_externals example_frame = Inr (Some 1)
   \<and> origin_loc example_frame = ''ul''
   \<and> same_shape (array1 Float64 [5, 25]) (array1 Float64 [50, 20])
   \<and> transform exact no_externals example_frame (array1 Float64 [5, 25]) (array1 Float64 [50, 20])
       = Inr ((array1 Float64 [105, 125], array1 Float64 [250, 220]), example_frame)
   \<and> length_multiplier no_externals rotated_frame = Inr (Some 1)
   \<and> origin_loc rotated_frame = ''ll'' \<and> rotation rotated_frame = 90
   \<and> xll rotated_frame = Some 100 \<and> yll rotated_frame = Some 200
   \<and> transform exact no_externals rotated_frame (array1 Float64 [5, 25]) (array1 Float64 [50, 20])
       = Inr ((array1 Float64 [50, 80], array1 Float64 [205, 225]), rotated_frame)
   \<and> same_shape (array1 Int64 [5, 25]) (array1 Int64 [50, 20])
   \<and> (\<exists>msg. transform exact no_externals example_frame
                (array1 Int64 [5, 25]) (array1 Int64 [50, 20]) = Inl (TypeError msg))"
proof -
  let ?x = "array1 Float64 [5, 25]" and ?y = "array1 Float64 [50, 20]"
  have loc: "origin_loc example_frame = ''ul''" "origin_loc rotated_frame = ''ll''"
    by (simp_all add: example_frame_def rotated_frame_def)
  have sh: "same_shape ?x ?y" "same_shape (array1 Int64 [5, 25]) (array1 Int64 [50, 20])"
    by (simp_all add: same_shape_def)
  have corner: "xll example_frame = Some 100" "yll example_frame = Some 200"
    "rotation example_frame = 0"
    "xll rotated_frame = Some 100" "yll rotated_frame = Some 200" "rotation rotated_frame = 90"
    by (simp_all add: example_frame_def rotated_frame_def)
  from transform_scale_translate_rotate
         [OF example_multiplier [of no_externals] disjI1 [OF loc(1)] sh(1), of exact]
  obtain s' xo yo x' y' where
    so: "set_origin exact no_externals example_frame (xul example_frame) (yul example_frame)
           (xll example_frame) (yll example_frame) = Inr s'"
    and c: "xll s' = Some xo" "yll s' = Some yo"
    and tr: "transform exact no_externals example_frame ?x ?y = Inr ((x', y'), s')"
    and z: "rotation example_frame = 0 \<and> (1::real) = 1 \<longrightarrow>
              x' = np_map (\<lambda>v. v + xo) ?x \<and> y' = np_map (\<lambda>v. v + yo) ?y"
    by auto
  from so have s': "s' = example_frame"
    by (simp add: example_origin)
  with c corner have "xo = 100" "yo = 200"
    by simp_all
  with z corner have "x' = array1 Float64 [105, 125]" "y' = array1 Float64 [250, 220]"
    by (simp_all add: np_map_def array1_def)
  with tr s' have first: "transform exact no_externals example_frame ?x ?y
       = Inr ((array1 Float64 [105, 125], array1 Float64 [250, 220]), example_frame)"
    by simp
  from transform_scale_translate_rotate
         [OF rotated_multiplier [of no_externals] disjI2 [OF loc(2)] sh(1), of exact]
  obtain t' xr yr u' v' where
    so: "set_origin exact no_externals rotated_frame (xul rotated_frame) (yul rotated_frame)
           (xll rotated_frame) (yll rotated_frame) = Inr t'"
    and c: "xll t' = Some xr" "yll t' = Some yr"
    and tr: "transform exact no_externals rotated_frame ?x ?y = Inr ((u', v'), t')"
    and ty: "dtype u' = Float64" "dtype v' = Float64" "shape u' = shape ?x" "shape v' = shape ?y"
      "length (data u') = length (data ?x)" "length (data v') = length (data ?y)"
    and nth: "\<forall>k < length (data ?x).
               data u' ! k = xr + cos (rotation rotated_frame * pi / 180) * (1 * data ?x ! k)
                                - sin (rotation rotated_frame * pi / 180) * (1 * data ?y ! k)
             \<and> data v' ! k = yr + sin (rotation rotated_frame * pi / 180) * (1 * data ?x ! k)
                                + cos (rotation rotated_frame * pi / 180) * (1 * data ?y ! k)"
    by auto
  from so have t': "t' = rotated_frame"
    by (simp add: rotated_origin)
  with c corner have o: "xr = 100" "yr = 200"
    by simp_all
  from nth [THEN spec, of 0] nth [THEN spec, of 1] o corner(6)
  have el: "data u' ! 0 = 50" "data u' ! 1 = 80" "data v' ! 0 = 205" "data v' ! 1 = 225"
    by simp_all
  from ty have len: "length (data u') = 2" "length (data v') = 2"
    by simp_all
  from two_items [OF len(1)] two_items [OF len(2)] el have "data u' = [50, 80]" "data v' = [205, 225]"
    by simp_all
  with ty have "u' = array1 Float64 [50, 80]" "v' = array1 Float64 [205, 225]"
    by (simp_all add: array1_def)
  with tr t' have second: "transform exact no_externals rotated_frame ?x ?y
       = Inr ((array1 Float64 [50, 80], array1 Float64 [205, 225]), rotated_frame)"
    by simp
  from transform_scale_translate_rotate
         [OF example_multiplier [of no_externals] disjI1 [OF loc(1)] sh(2), of exact]
  have third: "\<exists>msg. transform exact no_externals example_frame
                (array1 Int64 [5, 25]) (array1 Int64 [50, 20]) = Inl (TypeError msg)"
    by simp
  from first second third loc sh corner example_multiplier [of no_externals]
    rotated_multiplier [of no_externals]
  show ?thesis
    by simp
qed


section \<open>The two corners agree\<close>

text \<open>
  Claim C2, in exact arithmetic as the claim has it. On every frame whose
  multiplier resolves, whatever was assigned to its rotation, multiplier or
  corners before: once \<^verbatim>\<open>set_origin\<close> has computed the other corner,
  \<^verbatim>\<open>transform\<close> takes the model-space point (0, total of \<^verbatim>\<open>delc\<close>), the
  upper-left corner of the grid, to the upper-left corner \<open>(xul, yul)\<close> of the
  frame, exactly. When the frame is placed by its upper-left corner, this is the
  corner that was given; when it is placed by its lower-left corner, that corner
  is kept and the upper-left corner is the one derived from it.
\<close>

theorem anchor_consistency:
  assumes lm: "length_multiplier ext s = Inr (Some lm)"
    and loc: "origin_loc s = ''ul'' \<or> origin_loc s = ''ll''"
  shows "\<exists>s1 xu yu.
      set_origin exact ext s (xul s) (yul s) (xll s) (yll s) = Inr s1
    \<and> xul s1 = Some xu \<and> yul s1 = Some yu
    \<and> transform exact ext s1 (np_scalar 0) (np_scalar (add_reduce exact (delc s1)))
         = Inr ((np_scalar xu, np_scalar yu), s1)
    \<and> (origin_loc s = ''ul'' \<longrightarrow> xu = or_zero (xul s) \<and> yu = or_zero (yul s))
    \<and> (origin_loc s = ''ll'' \<longrightarrow>
          xll s1 = Some (or_zero (xll s)) \<and> yll s1 = Some (or_zero (yll s)))"
proof -
  from lm have m: "multiplier_operand ext s = Inr lm"
    by (rule multiplier_operand_Some)
  let ?Ly = "add_reduce exact (delc s)"
  let ?sin = "sin (rotation s * pi / 180)" and ?cos = "cos (rotation s * pi / 180)"
  from loc show ?thesis
  proof
    assume ul: "origin_loc s = ''ul''"
    let ?xu = "or_zero (xul s)" and ?yu = "or_zero (yul s)"
    define s1 where
      "s1 = reset (s\<lparr>xul := Some ?xu, yul := Some ?yu,
                      xll := Some (?xu + ?sin * ?Ly * lm),
                      yll := Some (?yu - ?cos * ?Ly * lm)\<rparr>)"
    have so: "set_origin exact ext s (xul s) (yul s) (xll s) (yll s) = Inr s1"
      by (simp add: set_origin_ul [OF ul m] offsets_exact s1_def)
    have f: "xul s1 = Some ?xu" "yul s1 = Some ?yu"
      "xll s1 = Some (?xu + ?sin * ?Ly * lm)"
      "yll s1 = Some (?yu - ?cos * ?Ly * lm)"
      "delc s1 = delc s" "rotation s1 = rotation s" "multiplier_operand ext s1 = Inr lm"
      by (simp_all add: s1_def m)
    note stable = set_origin_stable [OF so]
    have "transform exact ext s1 (np_scalar 0) (np_scalar (add_reduce exact (delc s1)))
         = Inr ((np_scalar ?xu, np_scalar ?yu), s1)"
      by (simp add: transform_eq [OF stable f(7) f(3) f(4)] np_map_scalar rotate_xy_scalar
          bindE_Inr f)
    with so f ul show ?thesis
      by auto
  next
    assume ll: "origin_loc s = ''ll''"
    let ?xl = "or_zero (xll s)" and ?yl = "or_zero (yll s)"
    define s1 where
      "s1 = reset (s\<lparr>xll := Some ?xl, yll := Some ?yl,
                      xul := Some (?xl - ?sin * ?Ly * lm),
                      yul := Some (?yl + ?cos * ?Ly * lm)\<rparr>)"
    have so: "set_origin exact ext s (xul s) (yul s) (xll s) (yll s) = Inr s1"
      by (simp add: set_origin_ll [OF ll m] offsets_exact s1_def)
    have f: "xll s1 = Some ?xl" "yll s1 = Some ?yl"
      "xul s1 = Some (?xl - ?sin * ?Ly * lm)"
      "yul s1 = Some (?yl + ?cos * ?Ly * lm)"
      "delc s1 = delc s" "rotation s1 = rotation s" "multiplier_operand ext s1 = Inr lm"
      by (simp_all add: s1_def m)
    note stable = set_origin_stable [OF so]
    have "transform exact ext s1 (np_scalar 0) (np_scalar (add_reduce exact (delc s1)))
         = Inr ((np_scalar (?xl - ?sin * ?Ly * lm), np_scalar (?yl + ?cos * ?Ly * lm)), s1)"
      by (simp add: transform_eq [OF stable f(7) f(1) f(2)] np_map_scalar rotate_xy_scalar
          bindE_Inr f mult.assoc)
    with so f ll show ?thesis
      by auto
  qed
qed

theorem anchor_consistency_witness:
  "length_multiplier no_externals rotated_frame = Inr (Some 1)
   \<and> origin_loc rotated_frame = ''ll''
   \<and> init exact no_externals rotated_args = Inr rotated_frame
   \<and> xul rotated_frame = Some 40 \<and> yul rotated_frame = Some 200
   \<and> transform exact no_externals rotated_frame (np_scalar 0) (np_scalar 60)
       = Inr ((np_scalar 40, np_scalar 200), rotated_frame)"
proof -
  have loc: "origin_loc rotated_frame = ''ll''"
    by (simp add: rotated_frame_def)
  have f: "xul rotated_frame = Some 40" "yul rotated_frame = Some 200"
    "add_reduce exact (delc rotated_frame) = 60"
    by (simp_all add: rotated_frame_def add_reduce_def)
  from anchor_consistency [OF rotated_multiplier [of no_externals] disjI2 [OF loc]]
  obtain s1 xu yu where
    so: "set_origin exact no_externals rotated_frame (xul rotated_frame) (yul rotated_frame)
           (xll rotated_frame) (yll rotated_frame) = Inr s1"
    and c: "xul s1 = Some xu" "yul s1 = Some yu"
    and tr: "transform exact no_externals s1 (np_scalar 0) (np_scalar (add_reduce exact (delc s1)))
         = Inr ((np_scalar xu, np_scalar yu), s1)"
    by blast
  from so have s1: "s1 = rotated_frame"
    by (simp add: rotated_origin)
  with c f have "xu = 40" "yu = 200"
    by simp_all
  with tr s1 f have "transform exact no_externals rotated_frame (np_scalar 0) (np_scalar 60)
       = Inr ((np_scalar 40, np_scalar 200), rotated_frame)"
    by simp
  with rotated_multiplier [of no_externals] loc f init_rotated show ?thesis
    by simp
qed


section \<open>The fallback of the constructor\<close>

text \<open>
  Claim C5, as amended. For spacings given as sequences, a projection string that
  can be stored and unit arguments from which the multiplier resolves: when
  \<^verbatim>\<open>sum()\<close> of one of the two spacing arrays is zero (the sum as numpy computes
  it, rounded for floats and wrapping around for integers) and one of \<^verbatim>\<open>xll\<close>,
  \<^verbatim>\<open>yll\<close> is missing, the constructor prints its message, places the frame by the
  lower-left corner \<open>(0, 0)\<close>, and its result is the same whatever \<^verbatim>\<open>xul\<close> and
  \<^verbatim>\<open>yul\<close> were given. In every other case a frame that it returns carries no
  such message, and when no lower-left coordinate is given the frame is placed by
  its upper-left corner, with each of \<^verbatim>\<open>xul\<close>, \<^verbatim>\<open>yul\<close> that was given as its
  coordinate. This holds in every arithmetic.
\<close>

theorem constructor_fallback:
  assumes seq: "\<not> is_number (arg_delr a)" "\<not> is_number (arg_delc a)"
    and pr: "proj4_lookup ext a = Inr p"
    and lm: "length_multiplier ext (before_placing ar a p) = Inr (Some lm)"
  shows "(degenerate ar a \<longrightarrow>
            (\<exists>s. init ar ext a = Inr s \<and> origin_loc s = ''ll'' \<and> xll s = Some 0 \<and> yll s = Some 0
                 \<and> Printed no_spacing_msg \<in> set (diagnostics s))
          \<and> (\<forall>u v. init ar ext (a\<lparr>arg_xul := u, arg_yul := v\<rparr>) = init ar ext a))
       \<and> (\<not> degenerate ar a \<longrightarrow>
            (\<forall>s. init ar ext a = Inr s \<longrightarrow> Printed no_spacing_msg \<notin> set (diagnostics s))
          \<and> (arg_xll a = None \<and> arg_yll a = None \<longrightarrow>
               (\<exists>s. init ar ext a = Inr s \<and> origin_loc s = ''ul''
                  \<and> (\<forall>u. arg_xul a = Some u \<longrightarrow> xul s = Some u)
                  \<and> (\<forall>v. arg_yul a = Some v \<longrightarrow> yul s = Some v))))"
proof (intro conjI impI)
  from lm have m: "multiplier_operand ext (before_placing ar a p) = Inr lm"
    by (rule multiplier_operand_Some)
  note unfold = init_unfold [OF seq pr]
  {
    assume d: "degenerate ar a"
    have "init ar ext a =
        set_spatialreference ar ext (before_placing ar a p) None None (Some 0) (Some 0) (arg_rotation a)"
      by (simp add: unfold d)
    then show "\<exists>s. init ar ext a = Inr s \<and> origin_loc s = ''ll'' \<and> xll s = Some 0
        \<and> yll s = Some 0 \<and> Printed no_spacing_msg \<in> set (diagnostics s)"
      by (simp add: set_spatialreference_ll [OF _ _ _ m] or_zero_def d)
    show "\<forall>u v. init ar ext (a\<lparr>arg_xul := u, arg_yul := v\<rparr>) = init ar ext a"
    proof (intro allI)
      fix u v
      have "init ar ext (a\<lparr>arg_xul := u, arg_yul := v\<rparr>) =
        set_spatialreference ar ext (before_placing ar a p) None None (Some 0) (Some 0) (arg_rotation a)"
        using seq pr d by (subst init_unfold [where p = p]) simp_all
      then show "init ar ext (a\<lparr>arg_xul := u, arg_yul := v\<rparr>) = init ar ext a"
        by (simp add: unfold d)
    qed
  }
  {
    assume d: "\<not> degenerate ar a"
    have eq: "init ar ext a =
        set_spatialreference ar ext (before_placing ar a p) (arg_xul a) (arg_yul a)
          (arg_xll a) (arg_yll a) (arg_rotation a)"
      by (simp add: unfold d)
    show "\<forall>s. init ar ext a = Inr s \<longrightarrow> Printed no_spacing_msg \<notin> set (diagnostics s)"
    proof (intro allI impI)
      fix s assume r: "init ar ext a = Inr s"
      have okx: "\<not> (arg_xul a \<noteq> None \<and> arg_xll a \<noteq> None)"
      proof
        assume "arg_xul a \<noteq> None \<and> arg_xll a \<noteq> None"
        then have "init ar ext a = Inl (ValueError both_x_msg)"
          by (simp add: eq set_spatialreference_conflict(1))
        with r show False by simp
      qed
      have oky: "\<not> (arg_yul a \<noteq> None \<and> arg_yll a \<noteq> None)"
      proof
        assume "arg_yul a \<noteq> None \<and> arg_yll a \<noteq> None"
        with okx have "init ar ext a = Inl (ValueError both_y_msg)"
          by (simp add: eq set_spatialreference_conflict(2))
        with r show False by simp
      qed
      note ok = okx oky
      show "Printed no_spacing_msg \<notin> set (diagnostics s)"
      proof (cases "arg_xll a")
        case None
        from r show ?thesis
          by (auto simp add: eq set_spatialreference_ul [OF None ok(2) m refl refl] d
              rotation_warning_def)
      next
        case (Some w)
        with ok(1) have xu: "arg_xul a = None" and xl: "arg_xll a \<noteq> None"
          by simp_all
        from r show ?thesis
          by (auto simp add: eq set_spatialreference_ll [OF xl xu ok(2) m] d
              rotation_warning_def)
      qed
    qed
    {
      assume none: "arg_xll a = None \<and> arg_yll a = None"
      then have xl: "arg_xll a = None" and ok: "\<not> (arg_yul a \<noteq> None \<and> arg_yll a \<noteq> None)"
        by simp_all
      show "\<exists>s. init ar ext a = Inr s \<and> origin_loc s = ''ul''
                  \<and> (\<forall>u. arg_xul a = Some u \<longrightarrow> xul s = Some u)
                  \<and> (\<forall>v. arg_yul a = Some v \<longrightarrow> yul s = Some v)"
        by (auto simp add: eq set_spatialreference_ul [OF xl ok m refl refl] or_zero_def)
    }
  }
qed

text \<open>
  Against claim C5 as stated, in double precision: the row spacings sum to 60, so
  the two sums are not both zero, yet the upper-left corner (100, 260) that was
  given is dropped, the message is printed and the frame sits at the lower-left
  corner \<open>(0, 0)\<close>.
\<close>

theorem constructor_fallback_counterexample:
  "\<not> (add_reduce binary64 (atleast_1d binary64 (arg_delr rows_only_args)) = 0
        \<and> add_reduce binary64 (atleast_1d binary64 (arg_delc rows_only_args)) = 0)
   \<and> arg_xul rows_only_args = Some 100 \<and> arg_yul rows_only_args = Some 260
   \<and> arg_xll rows_only_args = None \<and> arg_yll rows_only_args = None
   \<and> init binary64 no_externals rows_only_args = Inr rows_only_frame
   \<and> origin_loc rows_only_frame = ''ll''
   \<and> xll rows_only_frame = Some 0 \<and> yll rows_only_frame = Some 0
   \<and> xul rows_only_frame = Some 0 \<and> yul rows_only_frame = Some 60
   \<and> diagnostics rows_only_frame = [Printed no_spacing_msg]"
  by (simp add: init_rows_only_double)
     (simp add: rows_only_args_def default_args_def rows_only_frame_def add_reduce_def
        np_array_def double_steps)

text \<open>
  The theorem at work: on the rows without columns; on the first grid, where the
  fallback does not apply; and in double precision on three columns of the widths
  \<open>10 ^ 16\<close>, 1 and \<open>- 10 ^ 16\<close>, whose sum is 0 as numpy computes it.
\<close>

theorem constructor_fallback_witness:
  "\<not> is_number (arg_delr rows_only_args) \<and> \<not> is_number (arg_delc rows_only_args)
   \<and> proj4_lookup no_externals rows_only_args = Inr None
   \<and> length_multiplier no_externals (before_placing exact rows_only_args None) = Inr (Some 1)
   \<and> degenerate exact rows_only_args
   \<and> init exact no_externals (rows_only_args\<lparr>arg_xul := Some 7, arg_yul := None\<rparr>)
       = Inr rows_only_frame
   \<and> \<not> is_number (arg_delr example_args) \<and> \<not> is_number (arg_delc example_args)
   \<and> proj4_lookup no_externals example_args = Inr None
   \<and> length_multiplier no_externals (before_placing exact example_args None) = Inr (Some 1)
   \<and> \<not> degenerate exact example_args
   \<and> arg_xll example_args = None \<and> arg_yll example_args = None
   \<and> arg_xul example_args = Some 100 \<and> arg_yul example_args = Some 260
   \<and> init exact no_externals example_args = Inr example_frame
   \<and> Printed no_spacing_msg \<notin> set (diagnostics example_frame)
   \<and> origin_loc example_frame = ''ul''
   \<and> xul example_frame = Some 100 \<and> yul example_frame = Some 260
   \<and> \<not> is_number (arg_delr cancelling_args) \<and> \<not> is_number (arg_delc cancelling_args)
   \<and> proj4_lookup no_externals cancelling_args = Inr None
   \<and> length_multiplier no_externals (before_placing binary64 cancelling_args None)
       = Inr (Some 1)
   \<and> add_reduce binary64 (atleast_1d binary64 (arg_delr cancelling_args)) = 0
   \<and> degenerate binary64 cancelling_args
   \<and> (\<exists>s. init binary64 no_externals cancelling_args = Inr s \<and> origin_loc s = ''ll''
          \<and> xll s = Some 0 \<and> yll s = Some 0 \<and> Printed no_spacing_msg \<in> set (diagnostics s))"
proof -
  have r: "\<not> is_number (arg_delr rows_only_args)" "\<not> is_number (arg_delc rows_only_args)"
    "proj4_lookup no_externals rows_only_args = Inr None" "degenerate exact rows_only_args"
    by (simp_all add: rows_only_args_def default_args_def proj4_lookup_def degenerate_def
        add_reduce_def np_array_def)
  have rm: "length_multiplier no_externals (before_placing exact rows_only_args None)
      = Inr (Some 1)"
    by (rule default_multiplier) (simp_all add: rows_only_args_def default_args_def)
  have e: "\<not> is_number (arg_delr example_args)" "\<not> is_number (arg_delc example_args)"
    "proj4_lookup no_externals example_args = Inr None" "\<not> degenerate exact example_args"
    "arg_xll example_args = None" "arg_yll example_args = None"
    "arg_xul example_args = Some 100" "arg_yul example_args = Some 260"
    by (simp_all add: example_args_def default_args_def proj4_lookup_def degenerate_def
        add_reduce_def np_array_def)
  have em: "length_multiplier no_externals (before_placing exact example_args None)
      = Inr (Some 1)"
    by (rule default_multiplier) (simp_all add: example_args_def default_args_def)
  have sum: "add_reduce binary64 (atleast_1d binary64 (arg_delr cancelling_args)) = 0"
    by (simp add: cancelling_args_def default_args_def add_reduce_def np_array_def
        binary64_fields pairwise_sum.simps round64_wide round64_zero)
  have c: "\<not> is_number (arg_delr cancelling_args)" "\<not> is_number (arg_delc cancelling_args)"
    "proj4_lookup no_externals cancelling_args = Inr None"
    by (simp_all add: cancelling_args_def default_args_def proj4_lookup_def)
  from sum have cd: "degenerate binary64 cancelling_args"
    by (simp add: degenerate_def) (simp add: cancelling_args_def default_args_def)
  have cm: "length_multiplier no_externals (before_placing binary64 cancelling_args None)
      = Inr (Some 1)"
    by (rule default_multiplier) (simp_all add: cancelling_args_def default_args_def)
  from constructor_fallback [OF r(1,2,3) rm] r(4)
  have "init exact no_externals (rows_only_args\<lparr>arg_xul := Some 7, arg_yul := None\<rparr>)
       = init exact no_externals rows_only_args"
    by blast
  moreover from constructor_fallback [OF e(1,2,3) em] e(4) init_example
  have "Printed no_spacing_msg \<notin> set (diagnostics example_frame)"
    by blast
  moreover from constructor_fallback [OF e(1,2,3) em] e(4,5,6,7,8) init_example
  have "origin_loc example_frame = ''ul''"
    "xul example_frame = Some 100" "yul example_frame = Some 260"
    by auto
  moreover from constructor_fallback [OF c(1,2,3) cm] cd
  have "\<exists>s. init binary64 no_externals cancelling_args = Inr s \<and> origin_loc s = ''ll''
          \<and> xll s = Some 0 \<and> yll s = Some 0 \<and> Printed no_spacing_msg \<in> set (diagnostics s)"
    by blast
  ultimately show ?thesis
    using r rm e em c cm cd sum init_rows_only init_example by simp
qed


section \<open>Two corners for one axis\<close>

text \<open>
  Claim C8, as amended. \<^verbatim>\<open>set_spatialreference\<close> called with \<^verbatim>\<open>xul\<close> and \<^verbatim>\<open>xll\<close>
  raises the ValueError that names them, whatever the frame and the rotation are,
  so before anything is computed; with \<^verbatim>\<open>yul\<close> and \<^verbatim>\<open>yll\<close> (and not both x
  coordinates) it raises the one that names those; with at most one coordinate per
  axis it raises no ValueError, and it returns when the length multiplier of the
  frame resolves. The constructor, given sequences as spacings and a projection
  string that can be stored, does the same as long as its fallback does not apply;
  when the fallback applies, it has replaced the corners before they are compared,
  no ValueError is raised, and it returns when the multiplier resolves. The
  fallback is decided by the sums as numpy computes them.
\<close>

theorem both_corners_rejected:
  "(xu \<noteq> None \<and> xl \<noteq> None \<longrightarrow>
      set_spatialreference ar ext s xu yu xl yl r = Inl (ValueError both_x_msg))
   \<and> (\<not> (xu \<noteq> None \<and> xl \<noteq> None) \<and> yu \<noteq> None \<and> yl \<noteq> None \<longrightarrow>
      set_spatialreference ar ext s xu yu xl yl r = Inl (ValueError both_y_msg))
   \<and> (\<not> (xu \<noteq> None \<and> xl \<noteq> None) \<and> \<not> (yu \<noteq> None \<and> yl \<noteq> None) \<longrightarrow>
        (\<forall>msg. set_spatialreference ar ext s xu yu xl yl r \<noteq> Inl (ValueError msg))
      \<and> (length_multiplier ext s = Inr (Some lm) \<longrightarrow>
           (\<exists>s'. set_spatialreference ar ext s xu yu xl yl r = Inr s' \<and> rotation s' = r
                \<and> origin_loc s' = (if xl = None then ''ul'' else ''ll''))))
   \<and> (\<not> is_number (arg_delr a) \<and> \<not> is_number (arg_delc a) \<and> proj4_lookup ext a = Inr p \<longrightarrow>
        (\<not> degenerate ar a \<and> arg_xul a \<noteq> None \<and> arg_xll a \<noteq> None \<longrightarrow>
           init ar ext a = Inl (ValueError both_x_msg))
      \<and> (\<not> degenerate ar a \<and> \<not> (arg_xul a \<noteq> None \<and> arg_xll a \<noteq> None)
           \<and> arg_yul a \<noteq> None \<and> arg_yll a \<noteq> None \<longrightarrow>
           init ar ext a = Inl (ValueError both_y_msg))
      \<and> (degenerate ar a \<or> (\<not> (arg_xul a \<noteq> None \<and> arg_xll a \<noteq> None)
                              \<and> \<not> (arg_yul a \<noteq> None \<and> arg_yll a \<noteq> None)) \<longrightarrow>
           (\<forall>msg. init ar ext a \<noteq> Inl (ValueError msg))
         \<and> (length_multiplier ext (before_placing ar a p) = Inr (Some lm) \<longrightarrow>
              (\<exists>s'. init ar ext a = Inr s' \<and> rotation s' = arg_rotation a))))"
proof (intro conjI impI allI)
  assume "xu \<noteq> None \<and> xl \<noteq> None"
  then show "set_spatialreference ar ext s xu yu xl yl r = Inl (ValueError both_x_msg)"
    by (simp add: set_spatialreference_conflict(1))
next
  assume "\<not> (xu \<noteq> None \<and> xl \<noteq> None) \<and> yu \<noteq> None \<and> yl \<noteq> None"
  then show "set_spatialreference ar ext s xu yu xl yl r = Inl (ValueError both_y_msg)"
    by (simp add: set_spatialreference_conflict(2))
next
  fix msg
  assume "\<not> (xu \<noteq> None \<and> xl \<noteq> None) \<and> \<not> (yu \<noteq> None \<and> yl \<noteq> None)"
  then show "set_spatialreference ar ext s xu yu xl yl r \<noteq> Inl (ValueError msg)"
    by (simp add: set_spatialreference_no_value_error)
next
  assume ok: "\<not> (xu \<noteq> None \<and> xl \<noteq> None) \<and> \<not> (yu \<noteq> None \<and> yl \<noteq> None)"
    and lm: "length_multiplier ext s = Inr (Some lm)"
  from ok have ok': "\<not> (xu \<noteq> None \<and> xl \<noteq> None)" "\<not> (yu \<noteq> None \<and> yl \<noteq> None)"
    by simp_all
  from set_spatialreference_returns [OF ok' multiplier_operand_Some [OF lm], of ar r]
  show "\<exists>s'. set_spatialreference ar ext s xu yu xl yl r = Inr s' \<and> rotation s' = r
                \<and> origin_loc s' = (if xl = None then ''ul'' else ''ll'')"
    by blast
next
  assume pre: "\<not> is_number (arg_delr a) \<and> \<not> is_number (arg_delc a) \<and> proj4_lookup ext a = Inr p"
    and c: "\<not> degenerate ar a \<and> arg_xul a \<noteq> None \<and> arg_xll a \<noteq> None"
  from pre have "init ar ext a =
     set_spatialreference ar ext (before_placing ar a p)
       (if degenerate ar a then None else arg_xul a) (if degenerate ar a then None else arg_yul a)
       (if degenerate ar a then Some 0 else arg_xll a) (if degenerate ar a then Some 0 else arg_yll a)
       (arg_rotation a)"
    by (simp add: init_unfold)
  with c show "init ar ext a = Inl (ValueError both_x_msg)"
    by (simp add: set_spatialreference_conflict(1))
next
  assume pre: "\<not> is_number (arg_delr a) \<and> \<not> is_number (arg_delc a) \<and> proj4_lookup ext a = Inr p"
    and c: "\<not> degenerate ar a \<and> \<not> (arg_xul a \<noteq> None \<and> arg_xll a \<noteq> None)
           \<and> arg_yul a \<noteq> None \<and> arg_yll a \<noteq> None"
  from pre have "init ar ext a =
     set_spatialreference ar ext (before_placing ar a p)
       (if degenerate ar a then None else arg_xul a) (if degenerate ar a then None else arg_yul a)
       (if degenerate ar a then Some 0 else arg_xll a) (if degenerate ar a then Some 0 else arg_yll a)
       (arg_rotation a)"
    by (simp add: init_unfold)
  with c show "init ar ext a = Inl (ValueError both_y_msg)"
    by (simp add: set_spatialreference_conflict(2))
next
  fix msg
  assume pre: "\<not> is_number (arg_delr a) \<and> \<not> is_number (arg_delc a) \<and> proj4_lookup ext a = Inr p"
    and c: "degenerate ar a \<or> (\<not> (arg_xul a \<noteq> None \<and> arg_xll a \<noteq> None)
                          \<and> \<not> (arg_yul a \<noteq> None \<and> arg_yll a \<noteq> None))"
  from pre have eq: "init ar ext a =
     set_spatialreference ar ext (before_placing ar a p)
       (if degenerate ar a then None else arg_xul a) (if degenerate ar a then None else arg_yul a)
       (if degenerate ar a then Some 0 else arg_xll a) (if degenerate ar a then Some 0 else arg_yll a)
       (arg_rotation a)"
    by (simp add: init_unfold)
  show "init ar ext a \<noteq> Inl (ValueError msg)"
  proof (cases "degenerate ar a")
    case True
    then show ?thesis
      by (simp add: eq set_spatialreference_no_value_error)
  next
    case False
    with c show ?thesis
      by (simp add: eq set_spatialreference_no_value_error)
  qed
next
  assume pre: "\<not> is_number (arg_delr a) \<and> \<not> is_number (arg_delc a) \<and> proj4_lookup ext a = Inr p"
    and c: "degenerate ar a \<or> (\<not> (arg_xul a \<noteq> None \<and> arg_xll a \<noteq> None)
                          \<and> \<not> (arg_yul a \<noteq> None \<and> arg_yll a \<noteq> None))"
    and lm: "length_multiplier ext (before_placing ar a p) = Inr (Some lm)"
  let ?xu = "if degenerate ar a then None else arg_xul a"
  let ?yu = "if degenerate ar a then None else arg_yul a"
  let ?xl = "if degenerate ar a then Some 0 else arg_xll a"
  let ?yl = "if degenerate ar a then Some 0 else arg_yll a"
  from pre have eq: "init ar ext a =
     set_spatialreference ar ext (before_placing ar a p) ?xu ?yu ?xl ?yl (arg_rotation a)"
    by (simp add: init_unfold)
  from c have ok: "\<not> (?xu \<noteq> None \<and> ?xl \<noteq> None)" "\<not> (?yu \<noteq> None \<and> ?yl \<noteq> None)"
    by auto
  from set_spatialreference_returns [OF ok multiplier_operand_Some [OF lm], of ar "arg_rotation a"]
  show "\<exists>s'. init ar ext a = Inr s' \<and> rotation s' = arg_rotation a"
    unfolding eq by blast
qed

text \<open>
  Against claim C8 as stated, in double precision: without spacings, the
  constructor called with both \<^verbatim>\<open>xul\<close> and \<^verbatim>\<open>xll\<close> returns a frame. And with
  one corner only, but a code of the length unit that the table of the class does
  not have, it raises a KeyError.
\<close>

theorem both_corners_rejected_counterexample:
  "arg_xul two_corner_args = Some 1 \<and> arg_xll two_corner_args = Some 2
   \<and> init binary64 no_externals two_corner_args = Inr two_corner_frame
   \<and> arg_xul (example_args\<lparr>arg_lenuni := 7\<rparr>) = Some 100
   \<and> arg_yul (example_args\<lparr>arg_lenuni := 7\<rparr>) = Some 260
   \<and> arg_xll (example_args\<lparr>arg_lenuni := 7\<rparr>) = None
   \<and> arg_yll (example_args\<lparr>arg_lenuni := 7\<rparr>) = None
   \<and> init binary64 no_externals (example_args\<lparr>arg_lenuni := 7\<rparr>) = Inl KeyError"
proof -
  have "init binary64 no_externals (example_args\<lparr>arg_lenuni := 7\<rparr>) = Inl KeyError"
    by (simp add: init_steps example_args_def double_steps)
  then show ?thesis
    by (simp add: init_two_corner_double) (simp add: two_corner_args_def example_args_def default_args_def)
qed

theorem both_corners_rejected_witness:
  "set_spatialreference exact no_externals example_frame (Some 1) None (Some 2) None 0
       = Inl (ValueError both_x_msg)
   \<and> set_spatialreference exact no_externals example_frame None (Some 1) None (Some 2) 0
       = Inl (ValueError both_y_msg)
   \<and> length_multiplier no_externals example_frame = Inr (Some 1)
   \<and> (\<exists>s'. set_spatialreference exact no_externals example_frame (Some 1) None None (Some 2) 0
              = Inr s' \<and> rotation s' = 0 \<and> origin_loc s' = ''ul'')
   \<and> \<not> is_number (arg_delr (example_args\<lparr>arg_xll := Some 5\<rparr>))
   \<and> \<not> is_number (arg_delc (example_args\<lparr>arg_xll := Some 5\<rparr>))
   \<and> proj4_lookup no_externals (example_args\<lparr>arg_xll := Some 5\<rparr>) = Inr None
   \<and> \<not> degenerate exact (example_args\<lparr>arg_xll := Some 5\<rparr>)
   \<and> init exact no_externals (example_args\<lparr>arg_xll := Some 5\<rparr>) = Inl (ValueError both_x_msg)
   \<and> degenerate exact two_corner_args
   \<and> init exact no_externals two_corner_args \<noteq> Inl (ValueError both_x_msg)
   \<and> \<not> degenerate exact example_args
   \<and> length_multiplier no_externals (before_placing exact example_args None) = Inr (Some 1)
   \<and> (\<exists>s'. init exact no_externals example_args = Inr s' \<and> rotation s' = 0)"
proof -
  let ?a = "example_args\<lparr>arg_xll := Some 5\<rparr>"
  have e: "\<not> is_number (arg_delr ?a)" "\<not> is_number (arg_delc ?a)"
    "proj4_lookup no_externals ?a = Inr None" "\<not> degenerate exact ?a"
    "arg_xul ?a \<noteq> None" "arg_xll ?a \<noteq> None"
    by (simp_all add: example_args_def default_args_def proj4_lookup_def degenerate_def
        add_reduce_def np_array_def)
  have t: "\<not> is_number (arg_delr two_corner_args)" "\<not> is_number (arg_delc two_corner_args)"
    "proj4_lookup no_externals two_corner_args = Inr None" "degenerate exact two_corner_args"
    by (simp_all add: two_corner_args_def default_args_def proj4_lookup_def degenerate_def
        add_reduce_def)
  have x: "\<not> is_number (arg_delr example_args)" "\<not> is_number (arg_delc example_args)"
    "proj4_lookup no_externals example_args = Inr None" "\<not> degenerate exact example_args"
    "arg_xll example_args = None" "arg_yll example_args = None" "arg_rotation example_args = 0"
    by (simp_all add: example_args_def default_args_def proj4_lookup_def degenerate_def
        add_reduce_def np_array_def)
  have xm: "length_multiplier no_externals (before_placing exact example_args None)
      = Inr (Some 1)"
    by (rule default_multiplier) (simp_all add: example_args_def default_args_def)
  from both_corners_rejected
         [of "Some 1" "Some 2" exact no_externals example_frame None None 0 _ ?a None] e
  have 1: "set_spatialreference exact no_externals example_frame (Some 1) None (Some 2) None 0
       = Inl (ValueError both_x_msg)"
    "init exact no_externals ?a = Inl (ValueError both_x_msg)"
    by simp_all
  from both_corners_rejected
         [of None None exact no_externals example_frame "Some 1" "Some 2" 0 _ two_corner_args None] t
  have 2: "set_spatialreference exact no_externals example_frame None (Some 1) None (Some 2) 0
       = Inl (ValueError both_y_msg)"
    "init exact no_externals two_corner_args \<noteq> Inl (ValueError both_x_msg)"
    by simp_all
  from both_corners_rejected
         [of "Some 1" None exact no_externals example_frame None "Some 2" 0 1 example_args None]
       example_multiplier [of no_externals] x xm
  have 3: "\<exists>s'. set_spatialreference exact no_externals example_frame (Some 1) None None (Some 2) 0
              = Inr s' \<and> rotation s' = 0 \<and> origin_loc s' = ''ul''"
    "\<exists>s'. init exact no_externals example_args = Inr s' \<and> rotation s' = 0"
    by simp_all
  from 1 2 3 e t x xm example_multiplier [of no_externals] show ?thesis
    by simp
qed


section \<open>Assignments and the cached grids\<close>

lemma grids_refused:
  assumes m: "multiplier_operand ext t = Inr lm" and int: "dtype (delc t) = Int64"
  shows "p_xgrid t = None \<Longrightarrow> \<exists>msg. xgrid ar ext t = Inl (TypeError msg)"
    and "p_ygrid t = None \<Longrightarrow> \<exists>msg. ygrid ar ext t = Inl (TypeError msg)"
    and "p_xgrid t = None \<Longrightarrow> p_vertices t = None
           \<Longrightarrow> \<exists>msg. vertices ar ext t = Inl (TypeError msg)"
proof -
  from set_origin_returns [OF m]
  obtain t1 where so: "set_origin ar ext t (xul t) (yul t) (xll t) (yll t) = Inr t1"
    by blast
  from set_origin_keeps(5) [OF so] m have m1: "multiplier_operand ext t1 = Inr lm"
    by simp
  let ?e = "meshgrid (get_xedge_array ar t) (get_yedge_array ar t)"
  from int have "dtype (fst ?e) = Int64 \<or> dtype (snd ?e) = Int64"
    by (simp add: meshgrid_shape)
  from transform_int [OF so m1 this]
  obtain msg where tr: "transform ar ext t (fst ?e) (snd ?e) = Inl (TypeError msg)"
    by blast
  then have set: "set_xygrid ar ext t = Inl (TypeError msg)"
    by (simp add: set_xygrid_eq bindE_Inl)
  then show x: "p_xgrid t = None \<Longrightarrow> \<exists>msg. xgrid ar ext t = Inl (TypeError msg)"
    by (simp add: xgrid_def bindE_Inl)
  from set show "p_ygrid t = None \<Longrightarrow> \<exists>msg. ygrid ar ext t = Inl (TypeError msg)"
    by (simp add: ygrid_def bindE_Inl)
  from set show "p_xgrid t = None \<Longrightarrow> p_vertices t = None
           \<Longrightarrow> \<exists>msg. vertices ar ext t = Inl (TypeError msg)"
    by (simp add: vertices_def set_vertices_def both_grids_def xgrid_def bindE_Inl)
qed

lemma example_edge_grid:
  "meshgrid (get_xedge_array exact example_frame) (get_yedge_array exact example_frame)
     = (\<lparr>dtype = Float64, shape = [3, 3], data = [0, 10, 40, 0, 10, 40, 0, 10, 40]\<rparr>,
        \<lparr>dtype = Float64, shape = [3, 3], data = [60, 60, 60, 40, 40, 40, 0, 0, 0]\<rparr>)"
  by (simp add: meshgrid_def get_xedge_array_def get_yedge_array_def add_accumulate_def
      add_reduce_def example_frame_def)

lemma example_edge_transform:
  "transform exact no_externals example_frame
     \<lparr>dtype = Float64, shape = [3, 3], data = [0, 10, 40, 0, 10, 40, 0, 10, 40]\<rparr>
     \<lparr>dtype = Float64, shape = [3, 3], data = [60, 60, 60, 40, 40, 40, 0, 0, 0]\<rparr>
   = Inr ((\<lparr>dtype = Float64, shape = [3, 3],
            data = [100, 110, 140, 100, 110, 140, 100, 110, 140]\<rparr>,
           \<lparr>dtype = Float64, shape = [3, 3],
            data = [260, 260, 260, 240, 240, 240, 200, 200, 200]\<rparr>),
          example_frame)"
proof -
  have c: "xll example_frame = Some 100" "yll example_frame = Some 200"
    "rotation example_frame = 0"
    by (simp_all add: example_frame_def)
  show ?thesis
    by (simp add: transform_eq [OF example_origin multiplier_operand_Some [OF example_multiplier] c(1,2)]
        c(3) rotate_xy_zero same_shape_def np_map_def bindE_Inr)
qed

text \<open>
  Claim C4, as amended. An assignment to one of the four corner coordinates
  succeeds, and so does an assignment of supported units; each stores the value and
  clears the five cached grids, and leaves the other corner as it is. An assignment
  to the rotation succeeds when the multiplier resolves; it clears the caches too
  and computes the other corner at once: on a frame placed by its upper-left
  corner that corner stays and the lower-left corner becomes the upper-left one
  less the offset for the new rotation, on a frame placed by its lower-left corner
  the upper-left corner becomes the lower-left one plus that offset; in exact
  arithmetic the offset is \<open>(- sin r \<sqdot> Ly \<sqdot> lm, cos r \<sqdot> Ly \<sqdot> lm)\<close> for the
  rotation \<open>r\<close>, the sum \<open>Ly\<close> of \<^verbatim>\<open>delc\<close> and the multiplier \<open>lm\<close>. On a frame
  with cleared caches (multiplier resolving, origin at a left corner) the next read
  of the centre grid computes the other corner from the attributes of that moment,
  rebuilds the grid from them with \<^verbatim>\<open>transform\<close>, and stores it; so does the next
  read of the edge grid or of the vertex list when \<^verbatim>\<open>delc\<close> is a float array,
  whereas with an integer \<^verbatim>\<open>delc\<close> these reads raise a TypeError. Nothing is said
  here about an assignment to the length multiplier.
\<close>

theorem mutation_clears_caches:
  "setattr ar ext (Assign_xul v) s = Inr (reset (s\<lparr>xul := Some v\<rparr>))
   \<and> setattr ar ext (Assign_yul v) s = Inr (reset (s\<lparr>yul := Some v\<rparr>))
   \<and> setattr ar ext (Assign_xll v) s = Inr (reset (s\<lparr>xll := Some v\<rparr>))
   \<and> setattr ar ext (Assign_yll v) s = Inr (reset (s\<lparr>yll := Some v\<rparr>))
   \<and> (lower u \<in> set (supported_units s) \<longrightarrow>
        setattr ar ext (Assign_units u) s = Inr (reset (s\<lparr>p_units := Some (lower u)\<rparr>)))
   \<and> (length_multiplier ext s = Inr (Some lm) \<and> origin_loc s = ''ul'' \<longrightarrow>
        setattr ar ext (Assign_rotation r) s =
          Inr (reset (s\<lparr>diagnostics := diagnostics s @ rotation_warning r, rotation := r,
                         xul := Some (or_zero (xul s)), yul := Some (or_zero (yul s)),
                         xll := Some (fsub ar (or_zero (xul s)) (x_offset ar r (delc s) lm)),
                         yll := Some (fsub ar (or_zero (yul s)) (y_offset ar r (delc s) lm))\<rparr>)))
   \<and> (length_multiplier ext s = Inr (Some lm) \<and> origin_loc s = ''ll'' \<longrightarrow>
        setattr ar ext (Assign_rotation r) s =
          Inr (reset (s\<lparr>diagnostics := diagnostics s @ rotation_warning r, rotation := r,
                         xll := Some (or_zero (xll s)), yll := Some (or_zero (yll s)),
                         xul := Some (fadd ar (or_zero (xll s)) (x_offset ar r (delc s) lm)),
                         yul := Some (fadd ar (or_zero (yll s)) (y_offset ar r (delc s) lm))\<rparr>)))
   \<and> x_offset exact r dc lm = - sin (r * pi / 180) * add_reduce exact dc * lm
   \<and> y_offset exact r dc lm = cos (r * pi / 180) * add_reduce exact dc * lm
   \<and> p_xgrid (reset s) = None \<and> p_ygrid (reset s) = None \<and> p_xcentergrid (reset s) = None
   \<and> p_ycentergrid (reset s) = None \<and> p_vertices (reset s) = None
   \<and> (reset t = t \<and> length_multiplier ext t = Inr (Some lm)
        \<and> (origin_loc t = ''ul'' \<or> origin_loc t = ''ll'') \<longrightarrow>
        (\<exists>t1 cx cy.
            set_origin ar ext t (xul t) (yul t) (xll t) (yll t) = Inr t1
          \<and> transform ar ext t (fst (meshgrid (get_xcenter_array ar t) (get_ycenter_array ar t)))
               (snd (meshgrid (get_xcenter_array ar t) (get_ycenter_array ar t)))
              = Inr ((cx, cy), t1)
          \<and> xcentergrid ar ext t
               = Inr (Some cx, t1\<lparr>p_xcentergrid := Some cx, p_ycentergrid := Some cy\<rparr>)
          \<and> ycentergrid ar ext t
               = Inr (Some cy, t1\<lparr>p_xcentergrid := Some cx, p_ycentergrid := Some cy\<rparr>))
      \<and> (dtype (delc t) = Float64 \<longrightarrow>
          (\<exists>t1 ex ey vs.
              set_origin ar ext t (xul t) (yul t) (xll t) (yll t) = Inr t1
            \<and> transform ar ext t (fst (meshgrid (get_xedge_array ar t) (get_yedge_array ar t)))
                 (snd (meshgrid (get_xedge_array ar t) (get_yedge_array ar t)))
                = Inr ((ex, ey), t1)
            \<and> xgrid ar ext t = Inr (Some ex, t1\<lparr>p_xgrid := Some ex, p_ygrid := Some ey\<rparr>)
            \<and> ygrid ar ext t = Inr (Some ey, t1\<lparr>p_xgrid := Some ex, p_ygrid := Some ey\<rparr>)
            \<and> mapE (\<lambda>(i, j). cell_points ex ey (int i) (int j)) (cells t) = Inr vs
            \<and> vertices ar ext t
                 = Inr (Some vs, t1\<lparr>p_xgrid := Some ex, p_ygrid := Some ey,
                                     p_vertices := Some vs\<rparr>)))
      \<and> (dtype (delc t) = Int64 \<longrightarrow>
            (\<exists>msg. xgrid ar ext t = Inl (TypeError msg))
          \<and> (\<exists>msg. ygrid ar ext t = Inl (TypeError msg))
          \<and> (\<exists>msg. vertices ar ext t = Inl (TypeError msg))))"
proof -
  have rot_ul: "length_multiplier ext s = Inr (Some lm) \<and> origin_loc s = ''ul'' \<longrightarrow>
        setattr ar ext (Assign_rotation r) s =
          Inr (reset (s\<lparr>diagnostics := diagnostics s @ rotation_warning r, rotation := r,
                         xul := Some (or_zero (xul s)), yul := Some (or_zero (yul s)),
                         xll := Some (fsub ar (or_zero (xul s)) (x_offset ar r (delc s) lm)),
                         yll := Some (fsub ar (or_zero (yul s)) (y_offset ar r (delc s) lm))\<rparr>))"
    using setattr_rotation_ul [OF _ multiplier_operand_Some, of s ext lm ar r] by blast
  have rot_ll: "length_multiplier ext s = Inr (Some lm) \<and> origin_loc s = ''ll'' \<longrightarrow>
        setattr ar ext (Assign_rotation r) s =
          Inr (reset (s\<lparr>diagnostics := diagnostics s @ rotation_warning r, rotation := r,
                         xll := Some (or_zero (xll s)), yll := Some (or_zero (yll s)),
                         xul := Some (fadd ar (or_zero (xll s)) (x_offset ar r (delc s) lm)),
                         yul := Some (fadd ar (or_zero (yll s)) (y_offset ar r (delc s) lm))\<rparr>))"
    using setattr_rotation_ll [OF _ multiplier_operand_Some, of s ext lm ar r] by blast
  have read: "(\<exists>t1 cx cy.
            set_origin ar ext t (xul t) (yul t) (xll t) (yll t) = Inr t1
          \<and> transform ar ext t (fst (meshgrid (get_xcenter_array ar t) (get_ycenter_array ar t)))
               (snd (meshgrid (get_xcenter_array ar t) (get_ycenter_array ar t)))
              = Inr ((cx, cy), t1)
          \<and> xcentergrid ar ext t
               = Inr (Some cx, t1\<lparr>p_xcentergrid := Some cx, p_ycentergrid := Some cy\<rparr>)
          \<and> ycentergrid ar ext t
               = Inr (Some cy, t1\<lparr>p_xcentergrid := Some cx, p_ycentergrid := Some cy\<rparr>))
      \<and> (dtype (delc t) = Float64 \<longrightarrow>
          (\<exists>t1 ex ey vs.
              set_origin ar ext t (xul t) (yul t) (xll t) (yll t) = Inr t1
            \<and> transform ar ext t (fst (meshgrid (get_xedge_array ar t) (get_yedge_array ar t)))
                 (snd (meshgrid (get_xedge_array ar t) (get_yedge_array ar t)))
                = Inr ((ex, ey), t1)
            \<and> xgrid ar ext t = Inr (Some ex, t1\<lparr>p_xgrid := Some ex, p_ygrid := Some ey\<rparr>)
            \<and> ygrid ar ext t = Inr (Some ey, t1\<lparr>p_xgrid := Some ex, p_ygrid := Some ey\<rparr>)
            \<and> mapE (\<lambda>(i, j). cell_points ex ey (int i) (int j)) (cells t) = Inr vs
            \<and> vertices ar ext t
                 = Inr (Some vs, t1\<lparr>p_xgrid := Some ex, p_ygrid := Some ey,
                                     p_vertices := Some vs\<rparr>)))
      \<and> (dtype (delc t) = Int64 \<longrightarrow>
            (\<exists>msg. xgrid ar ext t = Inl (TypeError msg))
          \<and> (\<exists>msg. ygrid ar ext t = Inl (TypeError msg))
          \<and> (\<exists>msg. vertices ar ext t = Inl (TypeError msg)))"
    if h: "reset t = t \<and> length_multiplier ext t = Inr (Some lm)
        \<and> (origin_loc t = ''ul'' \<or> origin_loc t = ''ll'')"
  proof (intro conjI impI)
    from h have none: "p_xgrid t = None" "p_ygrid t = None" "p_xcentergrid t = None"
      "p_ycentergrid t = None" "p_vertices t = None"
      using reset_fixed [of t] by simp_all
    from h have m: "multiplier_operand ext t = Inr lm"
      and loc: "origin_loc t = ''ul'' \<or> origin_loc t = ''ll''"
      by (simp_all add: multiplier_operand_Some)
    let ?e = "meshgrid (get_xedge_array ar t) (get_yedge_array ar t)"
    let ?c = "meshgrid (get_xcenter_array ar t) (get_ycenter_array ar t)"
    have "dtype (fst ?c) = Float64" "dtype (snd ?c) = Float64"
      by (simp_all add: meshgrid_shape)
    from transform_returns [OF m loc meshgrid_shape(1) this, of ar]
    obtain cx cy t2 where c: "transform ar ext t (fst ?c) (snd ?c) = Inr ((cx, cy), t2)"
      and so2: "set_origin ar ext t (xul t) (yul t) (xll t) (yll t) = Inr t2"
      by blast
    from so2 c centergrids_rebuilt [OF c] none
    show "\<exists>t1 cx cy.
            set_origin ar ext t (xul t) (yul t) (xll t) (yll t) = Inr t1
          \<and> transform ar ext t (fst ?c) (snd ?c) = Inr ((cx, cy), t1)
          \<and> xcentergrid ar ext t
               = Inr (Some cx, t1\<lparr>p_xcentergrid := Some cx, p_ycentergrid := Some cy\<rparr>)
          \<and> ycentergrid ar ext t
               = Inr (Some cy, t1\<lparr>p_xcentergrid := Some cx, p_ycentergrid := Some cy\<rparr>)"
      by blast
    {
      assume fl: "dtype (delc t) = Float64"
      then have "dtype (fst ?e) = Float64" "dtype (snd ?e) = Float64"
        by (simp_all add: meshgrid_shape)
      from transform_returns [OF m loc meshgrid_shape(1) this, of ar]
      obtain ex ey t1 where e: "transform ar ext t (fst ?e) (snd ?e) = Inr ((ex, ey), t1)"
        and so: "set_origin ar ext t (xul t) (yul t) (xll t) (yll t) = Inr t1"
        and sh: "shape ex = shape (fst ?e)" "shape ey = shape (fst ?e)"
        by blast
      from sh have sh': "shape ex = [Suc (nrow t), Suc (ncol t)]"
        "shape ey = [Suc (nrow t), Suc (ncol t)]"
        by (simp_all add: meshgrid_shape(2) length_xedge length_yedge)
      from vertices_rebuilt [OF none(1) none(5) e so sh']
      obtain vs where v: "mapE (\<lambda>(i, j). cell_points ex ey (int i) (int j)) (cells t) = Inr vs"
        "vertices ar ext t
            = Inr (Some vs, t1\<lparr>p_xgrid := Some ex, p_ygrid := Some ey, p_vertices := Some vs\<rparr>)"
        by blast
      from so e grids_rebuilt [OF e] none v
      show "\<exists>t1 ex ey vs.
              set_origin ar ext t (xul t) (yul t) (xll t) (yll t) = Inr t1
            \<and> transform ar ext t (fst ?e) (snd ?e) = Inr ((ex, ey), t1)
            \<and> xgrid ar ext t = Inr (Some ex, t1\<lparr>p_xgrid := Some ex, p_ygrid := Some ey\<rparr>)
            \<and> ygrid ar ext t = Inr (Some ey, t1\<lparr>p_xgrid := Some ex, p_ygrid := Some ey\<rparr>)
            \<and> mapE (\<lambda>(i, j). cell_points ex ey (int i) (int j)) (cells t) = Inr vs
            \<and> vertices ar ext t
                 = Inr (Some vs, t1\<lparr>p_xgrid := Some ex, p_ygrid := Some ey,
                                     p_vertices := Some vs\<rparr>)"
        by blast
    }
    {
      assume int: "dtype (delc t) = Int64"
      from grids_refused(1) [OF m int none(1)]
      show "\<exists>msg. xgrid ar ext t = Inl (TypeError msg)" .
      from grids_refused(2) [OF m int none(2)]
      show "\<exists>msg. ygrid ar ext t = Inl (TypeError msg)" .
      from grids_refused(3) [OF m int none(1) none(5)]
      show "\<exists>msg. vertices ar ext t = Inl (TypeError msg)" .
    }
  qed
  have corners: "setattr ar ext (Assign_xul v) s = Inr (reset (s\<lparr>xul := Some v\<rparr>))"
    "setattr ar ext (Assign_yul v) s = Inr (reset (s\<lparr>yul := Some v\<rparr>))"
    "setattr ar ext (Assign_xll v) s = Inr (reset (s\<lparr>xll := Some v\<rparr>))"
    "setattr ar ext (Assign_yll v) s = Inr (reset (s\<lparr>yll := Some v\<rparr>))"
    by (simp_all add: assign_corner)
  have un: "lower u \<in> set (supported_units s) \<longrightarrow>
        setattr ar ext (Assign_units u) s = Inr (reset (s\<lparr>p_units := Some (lower u)\<rparr>))"
    using setattr_units by blast
  from read have rd: "reset t = t \<and> length_multiplier ext t = Inr (Some lm)
        \<and> (origin_loc t = ''ul'' \<or> origin_loc t = ''ll'') \<longrightarrow>
        (\<exists>t1 cx cy.
            set_origin ar ext t (xul t) (yul t) (xll t) (yll t) = Inr t1
          \<and> transform ar ext t (fst (meshgrid (get_xcenter_array ar t) (get_ycenter_array ar t)))
               (snd (meshgrid (get_xcenter_array ar t) (get_ycenter_array ar t)))
              = Inr ((cx, cy), t1)
          \<and> xcentergrid ar ext t
               = Inr (Some cx, t1\<lparr>p_xcentergrid := Some cx, p_ycentergrid := Some cy\<rparr>)
          \<and> ycentergrid ar ext t
               = Inr (Some cy, t1\<lparr>p_xcentergrid := Some cx, p_ycentergrid := Some cy\<rparr>))
      \<and> (dtype (delc t) = Float64 \<longrightarrow>
          (\<exists>t1 ex ey vs.
              set_origin ar ext t (xul t) (yul t) (xll t) (yll t) = Inr t1
            \<and> transform ar ext t (fst (meshgrid (get_xedge_array ar t) (get_yedge_array ar t)))
                 (snd (meshgrid (get_xedge_array ar t) (get_yedge_array ar t)))
                = Inr ((ex, ey), t1)
            \<and> xgrid ar ext t = Inr (Some ex, t1\<lparr>p_xgrid := Some ex, p_ygrid := Some ey\<rparr>)
            \<and> ygrid ar ext t = Inr (Some ey, t1\<lparr>p_xgrid := Some ex, p_ygrid := Some ey\<rparr>)
            \<and> mapE (\<lambda>(i, j). cell_points ex ey (int i) (int j)) (cells t) = Inr vs
            \<and> vertices ar ext t
                 = Inr (Some vs, t1\<lparr>p_xgrid := Some ex, p_ygrid := Some ey,
                                     p_vertices := Some vs\<rparr>)))
      \<and> (dtype (delc t) = Int64 \<longrightarrow>
            (\<exists>msg. xgrid ar ext t = Inl (TypeError msg))
          \<and> (\<exists>msg. ygrid ar ext t = Inl (TypeError msg))
          \<and> (\<exists>msg. vertices ar ext t = Inl (TypeError msg)))"
    by (rule impI)
  show ?thesis
    by (intro conjI) (rule corners un rot_ul rot_ll offsets_exact reset_fields rd)+
qed


text \<open>
  Against claim C4 as stated, in double precision: after \<^verbatim>\<open>sr.xul = 5\<close> on the
  example frame the lower-left corner still has \<open>xll = 100\<close>, where setting the
  origin gives 5.
\<close>

theorem mutation_clears_caches_counterexample:
  "setattr binary64 no_externals (Assign_xul 5) example_frame
       = Inr (example_frame\<lparr>xul := Some 5\<rparr>)
   \<and> xul (example_frame\<lparr>xul := Some 5\<rparr>) = Some 5
   \<and> xll (example_frame\<lparr>xul := Some 5\<rparr>) = Some 100
   \<and> origin_loc (example_frame\<lparr>xul := Some 5\<rparr>) = ''ul''
   \<and> set_origin binary64 no_externals (example_frame\<lparr>xul := Some 5\<rparr>)
         (Some 5) (Some 260) (Some 100) (Some 200)
       = Inr (example_frame\<lparr>xul := Some 5, xll := Some 5\<rparr>)"
proof -
  have loc: "origin_loc (example_frame\<lparr>xul := Some 5\<rparr>) = ''ul''"
    by (simp add: example_frame_def)
  have m: "multiplier_operand no_externals (example_frame\<lparr>xul := Some 5\<rparr>) = Inr 1"
    by (simp add: multiplier_operand_Some [OF example_multiplier])
  have "set_origin binary64 no_externals (example_frame\<lparr>xul := Some 5\<rparr>)
         (Some 5) (Some 260) (Some 100) (Some 200)
       = Inr (example_frame\<lparr>xul := Some 5, xll := Some 5\<rparr>)"
    by (simp add: set_origin_ul [OF loc m])
       (simp add: example_frame_def reset_def or_zero_def add_reduce_def x_offset_def
          y_offset_def double_steps)
  moreover have "setattr binary64 no_externals (Assign_xul 5) example_frame
       = Inr (example_frame\<lparr>xul := Some 5\<rparr>)"
    by (simp add: assign_corner) (simp add: example_frame_def reset_def)
  ultimately show ?thesis
    by (simp add: loc) (simp add: example_frame_def)
qed

theorem mutation_clears_caches_witness:
  "lower ''FEET'' \<in> set (supported_units example_frame)
   \<and> setattr exact no_externals (Assign_units ''FEET'') example_frame
       = Inr (example_frame\<lparr>p_units := Some ''feet''\<rparr>)
   \<and> length_multiplier no_externals example_frame = Inr (Some 1)
   \<and> setattr exact no_externals (Assign_rotation 90) example_frame
       = Inr (example_frame\<lparr>diagnostics := [Warned rotation_msg], rotation := 90,
                             xll := Some 160, yll := Some 260\<rparr>)
   \<and> reset example_frame = example_frame \<and> origin_loc example_frame = ''ul''
   \<and> dtype (delc example_frame) = Float64
   \<and> xgrid exact no_externals example_frame
       = Inr (Some \<lparr>dtype = Float64, shape = [3, 3],
                     data = [100, 110, 140, 100, 110, 140, 100, 110, 140]\<rparr>,
              example_frame
                \<lparr>p_xgrid := Some \<lparr>dtype = Float64, shape = [3, 3],
                                   data = [100, 110, 140, 100, 110, 140, 100, 110, 140]\<rparr>,
                 p_ygrid := Some \<lparr>dtype = Float64, shape = [3, 3],
                                   data = [260, 260, 260, 240, 240, 240, 200, 200, 200]\<rparr>\<rparr>)
   \<and> reset integer_frame = integer_frame \<and> origin_loc integer_frame = ''ul''
   \<and> length_multiplier no_externals integer_frame = Inr (Some 1)
   \<and> dtype (delc integer_frame) = Int64
   \<and> init exact no_externals integer_args = Inr integer_frame
   \<and> (\<exists>msg. xgrid exact no_externals integer_frame = Inl (TypeError msg))
   \<and> (\<exists>msg. vertices exact no_externals integer_frame = Inl (TypeError msg))"
proof -
  have u: "lower ''FEET'' \<in> set (supported_units example_frame)" "lower ''FEET'' = ''feet''"
    by (simp_all add: lower_def lower_char_def example_frame_def)
  have loc: "origin_loc example_frame = ''ul''" and fixed: "reset example_frame = example_frame"
    and fl: "dtype (delc example_frame) = Float64"
    by (simp_all add: example_frame_def reset_def)
  have i: "origin_loc integer_frame = ''ul''" "reset integer_frame = integer_frame"
    "dtype (delc integer_frame) = Int64"
    by (simp_all add: integer_frame_def example_frame_def reset_def)
  note t = mutation_clears_caches [where ar = exact and ext = no_externals and s = example_frame
      and u = "''FEET''" and lm = 1 and r = 90 and t = example_frame]
  from t u have "setattr exact no_externals (Assign_units ''FEET'') example_frame
       = Inr (reset (example_frame\<lparr>p_units := Some ''feet''\<rparr>))"
    by (simp del: setattr.simps)
  moreover have "reset (example_frame\<lparr>p_units := Some ''feet''\<rparr>)
       = example_frame\<lparr>p_units := Some ''feet''\<rparr>"
    by (simp add: example_frame_def reset_def)
  ultimately have units: "setattr exact no_externals (Assign_units ''FEET'') example_frame
       = Inr (example_frame\<lparr>p_units := Some ''feet''\<rparr>)"
    by (simp del: setattr.simps)
  from t loc example_multiplier [of no_externals]
  have "setattr exact no_externals (Assign_rotation 90) example_frame =
          Inr (reset (example_frame\<lparr>diagnostics := diagnostics example_frame @ rotation_warning 90,
                 rotation := 90,
                 xul := Some (or_zero (xul example_frame)),
                 yul := Some (or_zero (yul example_frame)),
                 xll := Some (fsub exact (or_zero (xul example_frame))
                                (x_offset exact 90 (delc example_frame) 1)),
                 yll := Some (fsub exact (or_zero (yul example_frame))
                                (y_offset exact 90 (delc example_frame) 1))\<rparr>))"
    by (simp del: setattr.simps)
  moreover have "reset (example_frame\<lparr>diagnostics := diagnostics example_frame @ rotation_warning 90,
                 rotation := 90,
                 xul := Some (or_zero (xul example_frame)),
                 yul := Some (or_zero (yul example_frame)),
                 xll := Some (fsub exact (or_zero (xul example_frame))
                                (x_offset exact 90 (delc example_frame) 1)),
                 yll := Some (fsub exact (or_zero (yul example_frame))
                                (y_offset exact 90 (delc example_frame) 1))\<rparr>)
      = example_frame\<lparr>diagnostics := [Warned rotation_msg], rotation := 90,
                             xll := Some 160, yll := Some 260\<rparr>"
    by (simp add: offsets_exact)
       (simp add: example_frame_def reset_def or_zero_def add_reduce_def rotation_warning_def)
  ultimately have rot: "setattr exact no_externals (Assign_rotation 90) example_frame
       = Inr (example_frame\<lparr>diagnostics := [Warned rotation_msg], rotation := 90,
                             xll := Some 160, yll := Some 260\<rparr>)"
    by (simp del: setattr.simps)
  from t fixed loc fl example_multiplier [of no_externals]
  obtain t1 ex ey where
    so: "set_origin exact no_externals example_frame (xul example_frame) (yul example_frame)
           (xll example_frame) (yll example_frame) = Inr t1"
    and tr: "transform exact no_externals example_frame
               (fst (meshgrid (get_xedge_array exact example_frame)
                              (get_yedge_array exact example_frame)))
               (snd (meshgrid (get_xedge_array exact example_frame)
                              (get_yedge_array exact example_frame)))
             = Inr ((ex, ey), t1)"
    and xg: "xgrid exact no_externals example_frame
             = Inr (Some ex, t1\<lparr>p_xgrid := Some ex, p_ygrid := Some ey\<rparr>)"
    by blast
  from tr have "ex = \<lparr>dtype = Float64, shape = [3, 3],
                       data = [100, 110, 140, 100, 110, 140, 100, 110, 140]\<rparr>"
    "ey = \<lparr>dtype = Float64, shape = [3, 3],
            data = [260, 260, 260, 240, 240, 240, 200, 200, 200]\<rparr>"
    "t1 = example_frame"
    by (simp_all add: example_edge_grid example_edge_transform)
  with xg have grid: "xgrid exact no_externals example_frame
       = Inr (Some \<lparr>dtype = Float64, shape = [3, 3],
                     data = [100, 110, 140, 100, 110, 140, 100, 110, 140]\<rparr>,
              example_frame
                \<lparr>p_xgrid := Some \<lparr>dtype = Float64, shape = [3, 3],
                                   data = [100, 110, 140, 100, 110, 140, 100, 110, 140]\<rparr>,
                 p_ygrid := Some \<lparr>dtype = Float64, shape = [3, 3],
                                   data = [260, 260, 260, 240, 240, 240, 200, 200, 200]\<rparr>\<rparr>)"
    by simp
  from mutation_clears_caches [where ar = exact and ext = no_externals and lm = 1
      and t = integer_frame] i integer_multiplier [of no_externals]
  have refused: "\<exists>msg. xgrid exact no_externals integer_frame = Inl (TypeError msg)"
    "\<exists>msg. vertices exact no_externals integer_frame = Inl (TypeError msg)"
    by blast+
  from u units rot fixed loc fl grid i refused example_multiplier [of no_externals]
    integer_multiplier [of no_externals] init_integer
  show ?thesis
    by (simp del: setattr.simps)
qed


section \<open>Looking up the cell of a point\<close>

text \<open>
  Claim C3, as amended. On a frame with rows and columns whose centre grids are not
  cached (multiplier resolving, origin at a left corner), \<^verbatim>\<open>get_rc(x, y)\<close> returns.
  It compares \<open>x\<close> with the first row of the centre grid in real-world coordinates
  (\<^verbatim>\<open>xcentergrid[0]\<close>) and \<open>y\<close> with the first column of the other one
  (\<^verbatim>\<open>ycentergrid[:, 0]\<close>): the centres scaled by the multiplier, moved to
  the lower-left corner and turned about it by the rotation of the frame, as
  \<^verbatim>\<open>transform\<close> computes them. The column returned is the first position where
  the distance to \<open>x\<close> is least in the row, the row returned the first position
  where the distance to \<open>y\<close> is least in the column, the distance being the
  absolute value of the difference as the arithmetic computes it. Two sequences of
  one length, not empty, are looked up point by point. The lookup leaves the frame
  with its centre grids cached, and on that frame every lookup gives what it gives
  on the frame before. In exact arithmetic entry \<open>j\<close> of the row is
  \<open>xll + cos \<rho> * (xcenter j * lm) - sin \<rho> * (ycenter 0 * lm)\<close> and entry \<open>i\<close> of
  the column is \<open>yll + sin \<rho> * (xcenter 0 * lm) + cos \<rho> * (ycenter i * lm)\<close>,
  with \<open>\<rho>\<close> the rotation in radians, \<open>lm\<close> the multiplier and \<open>(xll, yll)\<close> the
  lower-left corner after setting the origin.
\<close>

theorem get_rc_nearest_transformed_center:
  assumes lm: "length_multiplier ext s = Inr (Some lm)"
    and loc: "origin_loc s = ''ul'' \<or> origin_loc s = ''ll''"
    and fresh: "p_xcentergrid s = None" "p_ycentergrid s = None"
    and rows: "0 < nrow s" and cols: "0 < ncol s"
  shows "\<exists>s1 xo yo xc0 yc0 s2.
       set_origin ar ext s (xul s) (yul s) (xll s) (yll s) = Inr s1
     \<and> xll s1 = Some xo \<and> yll s1 = Some yo
     \<and> xc0 = map (\<lambda>j. world_x ar (rotation s) lm xo yo
                          (data (get_xcenter_array ar s) ! j) (data (get_ycenter_array ar s) ! 0))
                [0..<ncol s]
     \<and> yc0 = map (\<lambda>i. world_y ar (rotation s) lm xo yo
                          (data (get_xcenter_array ar s) ! 0) (data (get_ycenter_array ar s) ! i))
                [0..<nrow s]
     \<and> (\<forall>x y. \<exists>r c. get_rc ar ext s (Point x) (Point y) = Inr ((Index r, Index c), s2)
          \<and> r < nrow s \<and> c < ncol s
          \<and> (\<forall>j<ncol s. \<bar>fsub ar (xc0 ! c) (float_of ar x)\<bar> \<le> \<bar>fsub ar (xc0 ! j) (float_of ar x)\<bar>)
          \<and> (\<forall>j<c. \<bar>fsub ar (xc0 ! c) (float_of ar x)\<bar> < \<bar>fsub ar (xc0 ! j) (float_of ar x)\<bar>)
          \<and> (\<forall>i<nrow s. \<bar>fsub ar (yc0 ! r) (float_of ar y)\<bar> \<le> \<bar>fsub ar (yc0 ! i) (float_of ar y)\<bar>)
          \<and> (\<forall>i<r. \<bar>fsub ar (yc0 ! r) (float_of ar y)\<bar> < \<bar>fsub ar (yc0 ! i) (float_of ar y)\<bar>))
     \<and> (\<forall>xs ys. xs \<noteq> [] \<and> length ys = length xs \<longrightarrow>
          (\<exists>rs cs. get_rc ar ext s (Points xs) (Points ys) = Inr ((Indices rs, Indices cs), s2)
             \<and> length rs = length xs \<and> length cs = length xs
             \<and> (\<forall>k<length xs. get_rc ar ext s (Point (xs ! k)) (Point (ys ! k))
                                  = Inr ((Index (rs ! k), Index (cs ! k)), s2))))
     \<and> (\<forall>x y. get_rc ar ext s2 x y = get_rc ar ext s x y)
     \<and> (ar = exact \<longrightarrow>
          xc0 = map (\<lambda>j. xo + cos (rotation s * pi / 180) * (data (get_xcenter_array exact s) ! j * lm)
                            - sin (rotation s * pi / 180) * (data (get_ycenter_array exact s) ! 0 * lm))
                  [0..<ncol s]
        \<and> yc0 = map (\<lambda>i. yo + sin (rotation s * pi / 180) * (data (get_xcenter_array exact s) ! 0 * lm)
                            + cos (rotation s * pi / 180) * (data (get_ycenter_array exact s) ! i * lm))
                  [0..<nrow s])
     \<and> (\<exists>gx gy. xcentergrid ar ext s = Inr (Some gx, s2)
           \<and> ycentergrid ar ext s = Inr (Some gy, s2)
           \<and> first_row (Some gx) = Inr xc0 \<and> first_column (Some gy) = Inr yc0)"
proof -
  from get_rc_centers [OF assms, of ar]
  obtain s1 xo yo xc0 yc0 s2 where found:
    "set_origin ar ext s (xul s) (yul s) (xll s) (yll s) = Inr s1
     \<and> xll s1 = Some xo \<and> yll s1 = Some yo
     \<and> xc0 = map (\<lambda>j. world_x ar (rotation s) lm xo yo
                          (data (get_xcenter_array ar s) ! j) (data (get_ycenter_array ar s) ! 0))
                [0..<ncol s]
     \<and> yc0 = map (\<lambda>i. world_y ar (rotation s) lm xo yo
                          (data (get_xcenter_array ar s) ! 0) (data (get_ycenter_array ar s) ! i))
                [0..<nrow s]
     \<and> (\<forall>x y. get_rc ar ext s (Point x) (Point y)
          = Inr ((Index (argmin_list (map (\<lambda>c. \<bar>fsub ar c (float_of ar y)\<bar>) yc0)),
                  Index (argmin_list (map (\<lambda>c. \<bar>fsub ar c (float_of ar x)\<bar>) xc0))), s2))
     \<and> (\<forall>xs ys. xs \<noteq> [] \<and> length ys = length xs \<longrightarrow>
          get_rc ar ext s (Points xs) (Points ys)
          = Inr ((Indices (map (\<lambda>q. argmin_list (map (\<lambda>c. \<bar>fsub ar c (float_of ar q)\<bar>) yc0)) ys),
                  Indices (map (\<lambda>q. argmin_list (map (\<lambda>c. \<bar>fsub ar c (float_of ar q)\<bar>) xc0)) xs)),
                 s2))
     \<and> (\<forall>x y. get_rc ar ext s2 x y = get_rc ar ext s x y)
     \<and> (\<exists>gx gy. xcentergrid ar ext s = Inr (Some gx, s2)
           \<and> ycentergrid ar ext s = Inr (Some gy, s2)
           \<and> first_row (Some gx) = Inr xc0 \<and> first_column (Some gy) = Inr yc0)"
    by (elim exE) (rule that)
  note so = found [THEN conjunct1]
  note rest = found [THEN conjunct2]
  note c = rest [THEN conjunct1] rest [THEN conjunct2, THEN conjunct1]
  note rest = rest [THEN conjunct2, THEN conjunct2]
  note xc0 = rest [THEN conjunct1]
  note yc0 = rest [THEN conjunct2, THEN conjunct1]
  note rest = rest [THEN conjunct2, THEN conjunct2]
  note scalar = rest [THEN conjunct1, rule_format]
  note batch = rest [THEN conjunct2, THEN conjunct1, rule_format]
  note again = rest [THEN conjunct2, THEN conjunct2, THEN conjunct1, rule_format]
  note grids = rest [THEN conjunct2, THEN conjunct2, THEN conjunct2]
  have lx: "length xc0 = ncol s" and ly: "length yc0 = nrow s"
    by (simp_all add: xc0 yc0)
  from cols rows lx ly have nx: "xc0 \<noteq> []" and ny: "yc0 \<noteq> []"
    by auto
  have first: "\<exists>r c. get_rc ar ext s (Point x) (Point y) = Inr ((Index r, Index c), s2)
          \<and> r < nrow s \<and> c < ncol s
          \<and> (\<forall>j<ncol s. \<bar>fsub ar (xc0 ! c) (float_of ar x)\<bar> \<le> \<bar>fsub ar (xc0 ! j) (float_of ar x)\<bar>)
          \<and> (\<forall>j<c. \<bar>fsub ar (xc0 ! c) (float_of ar x)\<bar> < \<bar>fsub ar (xc0 ! j) (float_of ar x)\<bar>)
          \<and> (\<forall>i<nrow s. \<bar>fsub ar (yc0 ! r) (float_of ar y)\<bar> \<le> \<bar>fsub ar (yc0 ! i) (float_of ar y)\<bar>)
          \<and> (\<forall>i<r. \<bar>fsub ar (yc0 ! r) (float_of ar y)\<bar> < \<bar>fsub ar (yc0 ! i) (float_of ar y)\<bar>)"
    for x y
    using scalar [of x y]
      nearest_position [OF nx refl, of "\<lambda>c. \<bar>fsub ar c (float_of ar x)\<bar>"]
      nearest_position [OF ny refl, of "\<lambda>c. \<bar>fsub ar c (float_of ar y)\<bar>"]
    unfolding lx ly by blast
  have second: "\<exists>rs cs. get_rc ar ext s (Points xs) (Points ys) = Inr ((Indices rs, Indices cs), s2)
             \<and> length rs = length xs \<and> length cs = length xs
             \<and> (\<forall>k<length xs. get_rc ar ext s (Point (xs ! k)) (Point (ys ! k))
                                  = Inr ((Index (rs ! k), Index (cs ! k)), s2))"
    if "xs \<noteq> [] \<and> length ys = length xs" for xs ys
    using that by (simp add: batch [OF that] scalar)
  have closed: "ar = exact \<longrightarrow>
          xc0 = map (\<lambda>j. xo + cos (rotation s * pi / 180) * (data (get_xcenter_array exact s) ! j * lm)
                            - sin (rotation s * pi / 180) * (data (get_ycenter_array exact s) ! 0 * lm))
                  [0..<ncol s]
        \<and> yc0 = map (\<lambda>i. yo + sin (rotation s * pi / 180) * (data (get_xcenter_array exact s) ! 0 * lm)
                            + cos (rotation s * pi / 180) * (data (get_ycenter_array exact s) ! i * lm))
                  [0..<nrow s]"
    by (simp add: xc0 yc0 world_exact)
  from first have first': "\<forall>x y. \<exists>r c. get_rc ar ext s (Point x) (Point y) = Inr ((Index r, Index c), s2)
          \<and> r < nrow s \<and> c < ncol s
          \<and> (\<forall>j<ncol s. \<bar>fsub ar (xc0 ! c) (float_of ar x)\<bar> \<le> \<bar>fsub ar (xc0 ! j) (float_of ar x)\<bar>)
          \<and> (\<forall>j<c. \<bar>fsub ar (xc0 ! c) (float_of ar x)\<bar> < \<bar>fsub ar (xc0 ! j) (float_of ar x)\<bar>)
          \<and> (\<forall>i<nrow s. \<bar>fsub ar (yc0 ! r) (float_of ar y)\<bar> \<le> \<bar>fsub ar (yc0 ! i) (float_of ar y)\<bar>)
          \<and> (\<forall>i<r. \<bar>fsub ar (yc0 ! r) (float_of ar y)\<bar> < \<bar>fsub ar (yc0 ! i) (float_of ar y)\<bar>)"
    by (intro allI)
  from second have second': "\<forall>xs ys. xs \<noteq> [] \<and> length ys = length xs \<longrightarrow>
          (\<exists>rs cs. get_rc ar ext s (Points xs) (Points ys) = Inr ((Indices rs, Indices cs), s2)
             \<and> length rs = length xs \<and> length cs = length xs
             \<and> (\<forall>k<length xs. get_rc ar ext s (Point (xs ! k)) (Point (ys ! k))
                                  = Inr ((Index (rs ! k), Index (cs ! k)), s2)))"
    by (intro allI impI)
  from again have again': "\<forall>x y. get_rc ar ext s2 x y = get_rc ar ext s x y"
    by (intro allI)
  show ?thesis
    by (rule exI [where x = s1], rule exI [where x = xo], rule exI [where x = yo],
        rule exI [where x = xc0], rule exI [where x = yc0], rule exI [where x = s2],
        intro conjI)
      (rule so c xc0 yc0 first' second' again' closed grids)+
qed

text \<open>
  Against claim C3 as stated, in exact arithmetic: the same grid with the same
  upper-left corner and the same multiplier, once unturned and once turned by a
  half. The point \<open>(124, 221)\<close> is looked up as row 1, column 1 in the first
  frame and as row 0, column 0 in the second: the arrays compared are the turned
  ones, \<open>[95, 75]\<close> and \<open>[270, 300]\<close> instead of \<open>[105, 125]\<close> and
  \<open>[250, 220]\<close>.
\<close>

theorem get_rc_nearest_transformed_center_counterexample:
  "init exact no_externals example_args = Inr example_frame
   \<and> half_turn_args = example_args\<lparr>arg_rotation := 180\<rparr>
   \<and> init exact no_externals half_turn_args = Inr half_turn_frame
   \<and> delr half_turn_frame = delr example_frame \<and> delc half_turn_frame = delc example_frame
   \<and> xul half_turn_frame = xul example_frame \<and> yul half_turn_frame = yul example_frame
   \<and> origin_loc half_turn_frame = origin_loc example_frame
   \<and> length_multiplier no_externals half_turn_frame
       = length_multiplier no_externals example_frame
   \<and> map_sum id fst (get_rc exact no_externals example_frame
                        (Point (PyFloat 124)) (Point (PyFloat 221)))
       = Inr (Index 1, Index 1)
   \<and> map_sum id fst (get_rc exact no_externals half_turn_frame
                        (Point (PyFloat 124)) (Point (PyFloat 221)))
       = Inr (Index 0, Index 0)"
proof -
  have e: "origin_loc example_frame = ''ul'' \<or> origin_loc example_frame = ''ll''"
    "p_xcentergrid example_frame = None" "p_ycentergrid example_frame = None"
    "0 < nrow example_frame" "0 < ncol example_frame"
    "rotation example_frame = 0"
    "xll example_frame = Some 100" "yll example_frame = Some 200"
    by (simp_all add: example_centers) (simp_all add: example_frame_def)
  have h: "origin_loc half_turn_frame = ''ul'' \<or> origin_loc half_turn_frame = ''ll''"
    "p_xcentergrid half_turn_frame = None" "p_ycentergrid half_turn_frame = None"
    "0 < nrow half_turn_frame" "0 < ncol half_turn_frame"
    "rotation half_turn_frame = 180"
    "xll half_turn_frame = Some 100" "yll half_turn_frame = Some 320"
    by (simp_all add: half_turn_centers) (simp_all add: half_turn_frame_def)
  from get_rc_point [OF example_multiplier [of no_externals] e(1-5) example_origin e(7,8),
      of "PyFloat 124" "PyFloat 221"]
  obtain s2 where
    rc: "get_rc exact no_externals example_frame (Point (PyFloat 124)) (Point (PyFloat 221))
          = Inr ((Index (argmin_list (map (\<lambda>c. \<bar>fsub exact c (float_of exact (PyFloat 221))\<bar>)
                    (map (\<lambda>i. world_y exact (rotation example_frame) 1 100 200
                          (data (get_xcenter_array exact example_frame) ! 0) (data (get_ycenter_array exact example_frame) ! i))
                [0..<nrow example_frame]))),
                  Index (argmin_list (map (\<lambda>c. \<bar>fsub exact c (float_of exact (PyFloat 124))\<bar>)
                    (map (\<lambda>j. world_x exact (rotation example_frame) 1 100 200
                          (data (get_xcenter_array exact example_frame) ! j) (data (get_ycenter_array exact example_frame) ! 0))
                [0..<ncol example_frame])))), s2)"
    by blast
  have flat: "map_sum id fst (get_rc exact no_externals example_frame
                        (Point (PyFloat 124)) (Point (PyFloat 221)))
       = Inr (Index 1, Index 1)"
    by (simp add: rc e(6) example_centers upt_two world_exact)
  from get_rc_point [OF half_turn_multiplier [of no_externals] h(1-5) half_turn_origin h(7,8),
      of "PyFloat 124" "PyFloat 221"]
  obtain t2 where
    rc: "get_rc exact no_externals half_turn_frame (Point (PyFloat 124)) (Point (PyFloat 221))
          = Inr ((Index (argmin_list (map (\<lambda>c. \<bar>fsub exact c (float_of exact (PyFloat 221))\<bar>)
                    (map (\<lambda>i. world_y exact (rotation half_turn_frame) 1 100 320
                          (data (get_xcenter_array exact half_turn_frame) ! 0) (data (get_ycenter_array exact half_turn_frame) ! i))
                [0..<nrow half_turn_frame]))),
                  Index (argmin_list (map (\<lambda>c. \<bar>fsub exact c (float_of exact (PyFloat 124))\<bar>)
                    (map (\<lambda>j. world_x exact (rotation half_turn_frame) 1 100 320
                          (data (get_xcenter_array exact half_turn_frame) ! j) (data (get_ycenter_array exact half_turn_frame) ! 0))
                [0..<ncol half_turn_frame])))), t2)"
    by blast
  have turned: "map_sum id fst (get_rc exact no_externals half_turn_frame
                        (Point (PyFloat 124)) (Point (PyFloat 221)))
       = Inr (Index 0, Index 0)"
    by (simp add: rc h(6) half_turn_centers upt_two world_exact)
  have same: "delr half_turn_frame = delr example_frame" "delc half_turn_frame = delc example_frame"
    "xul half_turn_frame = xul example_frame" "yul half_turn_frame = yul example_frame"
    "origin_loc half_turn_frame = origin_loc example_frame"
    by (simp_all add: half_turn_frame_def example_frame_def)
  from init_example init_half_turn same flat turned show ?thesis
    by (simp add: half_turn_args_def example_multiplier half_turn_multiplier)
qed

theorem get_rc_nearest_transformed_center_witness:
  "length_multiplier no_externals example_frame = Inr (Some 1)
   \<and> origin_loc example_frame = ''ul''
   \<and> p_xcentergrid example_frame = None \<and> p_ycentergrid example_frame = None
   \<and> 0 < nrow example_frame \<and> 0 < ncol example_frame
   \<and> (\<exists>s2. get_rc exact no_externals example_frame (Point (PyFloat 124)) (Point (PyFloat 221))
               = Inr ((Index 1, Index 1), s2)
          \<and> get_rc exact no_externals example_frame
                (Points [PyFloat 124, PyInt 104]) (Points [PyFloat 221, PyInt 251])
               = Inr ((Indices [1, 0], Indices [1, 0]), s2)
          \<and> get_rc exact no_externals s2 (Point (PyFloat 124)) (Point (PyFloat 221))
               = Inr ((Index 1, Index 1), s2))"
proof -
  have e: "origin_loc example_frame = ''ul'' \<or> origin_loc example_frame = ''ll''"
    "p_xcentergrid example_frame = None" "p_ycentergrid example_frame = None"
    "0 < nrow example_frame" "0 < ncol example_frame"
    "rotation example_frame = 0"
    "xll example_frame = Some 100" "yll example_frame = Some 200"
    "origin_loc example_frame = ''ul''"
    by (simp_all add: example_centers) (simp_all add: example_frame_def)
  from get_rc_nearest_transformed_center [where ar = exact, OF example_multiplier [of no_externals] e(1-5)]
  obtain s1 xo yo xc0 yc0 s2 where found:
    "set_origin exact no_externals example_frame (xul example_frame) (yul example_frame) (xll example_frame) (yll example_frame) = Inr s1
     \<and> xll s1 = Some xo \<and> yll s1 = Some yo
     \<and> xc0 = map (\<lambda>j. world_x exact (rotation example_frame) 1 xo yo
                          (data (get_xcenter_array exact example_frame) ! j) (data (get_ycenter_array exact example_frame) ! 0))
                [0..<ncol example_frame]
     \<and> yc0 = map (\<lambda>i. world_y exact (rotation example_frame) 1 xo yo
                          (data (get_xcenter_array exact example_frame) ! 0) (data (get_ycenter_array exact example_frame) ! i))
                [0..<nrow example_frame]
     \<and> (\<forall>x y. \<exists>r c. get_rc exact no_externals example_frame (Point x) (Point y) = Inr ((Index r, Index c), s2)
          \<and> r < nrow example_frame \<and> c < ncol example_frame
          \<and> (\<forall>j<ncol example_frame. \<bar>fsub exact (xc0 ! c) (float_of exact x)\<bar> \<le> \<bar>fsub exact (xc0 ! j) (float_of exact x)\<bar>)
          \<and> (\<forall>j<c. \<bar>fsub exact (xc0 ! c) (float_of exact x)\<bar> < \<bar>fsub exact (xc0 ! j) (float_of exact x)\<bar>)
          \<and> (\<forall>i<nrow example_frame. \<bar>fsub exact (yc0 ! r) (float_of exact y)\<bar> \<le> \<bar>fsub exact (yc0 ! i) (float_of exact y)\<bar>)
          \<and> (\<forall>i<r. \<bar>fsub exact (yc0 ! r) (float_of exact y)\<bar> < \<bar>fsub exact (yc0 ! i) (float_of exact y)\<bar>))
     \<and> (\<forall>xs ys. xs \<noteq> [] \<and> length ys = length xs \<longrightarrow>
          (\<exists>rs cs. get_rc exact no_externals example_frame (Points xs) (Points ys) = Inr ((Indices rs, Indices cs), s2)
             \<and> length rs = length xs \<and> length cs = length xs
             \<and> (\<forall>k<length xs. get_rc exact no_externals example_frame (Point (xs ! k)) (Point (ys ! k))
                                  = Inr ((Index (rs ! k), Index (cs ! k)), s2))))
     \<and> (\<forall>x y. get_rc exact no_externals s2 x y = get_rc exact no_externals example_frame x y)
     \<and> (exact = exact \<longrightarrow>
          xc0 = map (\<lambda>j. xo + cos (rotation example_frame * pi / 180) * (data (get_xcenter_array exact example_frame) ! j * 1)
                            - sin (rotation example_frame * pi / 180) * (data (get_ycenter_array exact example_frame) ! 0 * 1))
                  [0..<ncol example_frame]
        \<and> yc0 = map (\<lambda>i. yo + sin (rotation example_frame * pi / 180) * (data (get_xcenter_array exact example_frame) ! 0 * 1)
                            + cos (rotation example_frame * pi / 180) * (data (get_ycenter_array exact example_frame) ! i * 1))
                  [0..<nrow example_frame])
     \<and> (\<exists>gx gy. xcentergrid exact no_externals example_frame = Inr (Some gx, s2)
           \<and> ycentergrid exact no_externals example_frame = Inr (Some gy, s2)
           \<and> first_row (Some gx) = Inr xc0 \<and> first_column (Some gy) = Inr yc0)"
    by (elim exE) (rule that)
  note so = found [THEN conjunct1]
  note rest = found [THEN conjunct2]
  note c = rest [THEN conjunct1] rest [THEN conjunct2, THEN conjunct1]
  note rest = rest [THEN conjunct2, THEN conjunct2]
  note rest = rest [THEN conjunct2, THEN conjunct2]
  note scalar = rest [THEN conjunct1, rule_format]
  note batch = rest [THEN conjunct2, THEN conjunct1, rule_format]
  note again = rest [THEN conjunct2, THEN conjunct2, THEN conjunct1, rule_format]
  note closed = rest [THEN conjunct2, THEN conjunct2, THEN conjunct2, THEN conjunct1,
      rule_format, OF refl]
  from so have "s1 = example_frame"
    by (simp add: example_origin)
  with c e have o: "xo = 100" "yo = 200"
    by simp_all
  have centers: "xc0 = [105, 125]" "yc0 = [250, 220]"
    by (simp_all add: closed o e(6) example_centers upt_two)
  from scalar [of "PyFloat 124" "PyFloat 221"] obtain r c where
    one: "get_rc exact no_externals example_frame (Point (PyFloat 124)) (Point (PyFloat 221))
        = Inr ((Index r, Index c), s2)"
    and less: "r < 2" "c < 2"
    and least: "\<forall>j<2. \<bar>xc0 ! c - 124\<bar> \<le> \<bar>xc0 ! j - 124\<bar>"
       "\<forall>i<2. \<bar>yc0 ! r - 221\<bar> \<le> \<bar>yc0 ! i - 221\<bar>"
    unfolding example_centers by auto
  from less(2) least(1) have "c = 1"
    by (cases "c = 0") (auto simp add: centers less_2_cases_iff)
  moreover from less(1) least(2) have "r = 1"
    by (cases "r = 0") (auto simp add: centers less_2_cases_iff)
  ultimately have first: "get_rc exact no_externals example_frame
        (Point (PyFloat 124)) (Point (PyFloat 221)) = Inr ((Index 1, Index 1), s2)"
    using one by simp
  from scalar [of "PyInt 104" "PyInt 251"] obtain r c where
    two: "get_rc exact no_externals example_frame (Point (PyInt 104)) (Point (PyInt 251))
        = Inr ((Index r, Index c), s2)"
    and before: "\<forall>j<c. \<bar>xc0 ! c - 104\<bar> < \<bar>xc0 ! j - 104\<bar>"
       "\<forall>i<r. \<bar>yc0 ! r - 251\<bar> < \<bar>yc0 ! i - 251\<bar>"
    and less: "r < 2" "c < 2"
    unfolding example_centers by auto
  from less(2) before(1) have "c = 0"
    by (cases "c = 0") (auto simp add: centers less_2_cases_iff)
  moreover from less(1) before(2) have "r = 0"
    by (cases "r = 0") (auto simp add: centers less_2_cases_iff)
  ultimately have second: "get_rc exact no_externals example_frame
        (Point (PyInt 104)) (Point (PyInt 251)) = Inr ((Index 0, Index 0), s2)"
    using two by simp
  from batch [of "[PyFloat 124, PyInt 104]" "[PyFloat 221, PyInt 251]"] obtain rs cs where
    both: "get_rc exact no_externals example_frame
               (Points [PyFloat 124, PyInt 104]) (Points [PyFloat 221, PyInt 251])
               = Inr ((Indices rs, Indices cs), s2)"
    and len: "length rs = 2" "length cs = 2"
    and each: "\<forall>k<2. get_rc exact no_externals example_frame
                        (Point ([PyFloat 124, PyInt 104] ! k)) (Point ([PyFloat 221, PyInt 251] ! k))
                                  = Inr ((Index (rs ! k), Index (cs ! k)), s2)"
    by auto
  from each have "get_rc exact no_externals example_frame (Point (PyFloat 124)) (Point (PyFloat 221))
      = Inr ((Index (rs ! 0), Index (cs ! 0)), s2)"
    by (drule_tac x = 0 in spec) simp
  with first have k0: "rs ! 0 = 1" "cs ! 0 = 1"
    by simp_all
  from each have "get_rc exact no_externals example_frame (Point (PyInt 104)) (Point (PyInt 251))
      = Inr ((Index (rs ! 1), Index (cs ! 1)), s2)"
    by (drule_tac x = 1 in spec) simp
  with second have k1: "rs ! 1 = 0" "cs ! 1 = 0"
    by simp_all
  from two_items [OF len(1)] two_items [OF len(2)] k0 k1 have "rs = [1, 0]" "cs = [1, 0]"
    by simp_all
  with both have "get_rc exact no_externals example_frame
               (Points [PyFloat 124, PyInt 104]) (Points [PyFloat 221, PyInt 251])
               = Inr ((Indices [1, 0], Indices [1, 0]), s2)"
    by simp
  moreover from again [of "Point (PyFloat 124)" "Point (PyFloat 221)"] first
  have "get_rc exact no_externals s2 (Point (PyFloat 124)) (Point (PyFloat 221))
               = Inr ((Index 1, Index 1), s2)"
    by simp
  ultimately show ?thesis
    using first e example_multiplier [of no_externals] by blast
qed


end
